theory Spec2Isabelle
  imports Main
begin

section \<open>The parsed document tree\<close>

text \<open>
  The validators work on the node tree of the YAML parser (\<open>yaml.Node\<close>): every node has
  a kind, a tag (the kind the parser inferred for a scalar, such as \<open>!!int\<close> or
  \<open>!!str\<close>), a literal text, a source line, and its children. The children of a
  mapping node are laid out flat: key, value, key, value, ...
\<close>

datatype kind = DocumentNode | SequenceNode | MappingNode | ScalarNode | AliasNode

datatype node =
  Node (Kind: kind) (Tag: string) (Value: string) (Line: int) (Content: "node list")

text \<open>
  Reading \<open>Content[i+1]\<close> past the end of the slice is a run-time panic in Go: the
  process dies and no diagnostic is printed. It is the only failure the validators can
  meet, and it is a value of the model.
\<close>

datatype error = IndexOutOfRange

type_synonym 'a result = "error + 'a"

definition and_then :: "'a result \<Rightarrow> ('a \<Rightarrow> 'b result) \<Rightarrow> 'b result" where
  "and_then r f = (case r of Inl e \<Rightarrow> Inl e | Inr x \<Rightarrow> f x)"

text \<open>A \<open>for _, x := range xs\<close> loop whose body appends to the list of diagnostics.\<close>

fun for_each ::
  "('a \<Rightarrow> string list \<Rightarrow> string list result) \<Rightarrow> 'a list \<Rightarrow> string list \<Rightarrow> string list result"
where
  "for_each body [] errors = Inr errors"
| "for_each body (x # xs) errors = and_then (body x errors) (for_each body xs)"

section \<open>Library functions the validators call\<close>

subsection \<open>Formatting\<close>

definition digit_char :: "nat \<Rightarrow> char" where
  "digit_char d = ''0123456789'' ! d"

function fmt_nat :: "nat \<Rightarrow> string" where
  "fmt_nat n = (if n < 10 then [digit_char n] else fmt_nat (n div 10) @ [digit_char (n mod 10)])"
  by pat_completeness auto
termination
  by (relation "measure id") auto

declare fmt_nat.simps [simp del]

text \<open>The verb \<open>%d\<close> of \<open>fmt.Sprintf\<close> on an \<open>int\<close>.\<close>

definition fmt_d :: "int \<Rightarrow> string" where
  "fmt_d i = (if i < 0 then CHR ''-'' # fmt_nat (nat (- i)) else fmt_nat (nat i))"

text \<open>The format \<open>"%s:%d <msg>"\<close> that every diagnostic with a line number uses.\<close>

definition at_line :: "string \<Rightarrow> int \<Rightarrow> string \<Rightarrow> string" where
  "at_line filename line msg = filename @ '':'' @ fmt_d line @ '' '' @ msg"

text \<open>The fragment \<open>'%s'\<close> of a format string.\<close>

definition quoted :: "string \<Rightarrow> string" where
  "quoted s = CHR 0x27 # s @ [CHR 0x27]"

subsection \<open>\<open>strconv.Atoi\<close>\<close>

text \<open>
  \<open>strconv.Atoi\<close> accepts an optional sign followed by one or more decimal digits and
  nothing else (no underscores, no base prefix), and fails when the number does not fit the
  machine integer, which has 64 bits on the platforms the tool is built for.
\<close>

datatype num_error = ErrSyntax | ErrRange

definition is_digit :: "char \<Rightarrow> bool" where
  "is_digit c = (c \<in> set ''0123456789'')"

definition digit_val :: "char \<Rightarrow> int" where
  "digit_val c = of_char c - 48"

definition decimal :: "string \<Rightarrow> int" where
  "decimal ds = foldl (\<lambda>acc c. 10 * acc + digit_val c) 0 ds"

definition Atoi :: "string \<Rightarrow> num_error + int" where
  "Atoi s =
     (case s of
        [] \<Rightarrow> Inl ErrSyntax
      | c # cs \<Rightarrow>
          (let neg = (c = CHR ''-'');
               ds = (if c = CHR ''-'' \<or> c = CHR ''+'' then cs else s)
           in if ds = [] \<or> \<not> list_all is_digit ds then Inl ErrSyntax
              else (let v = (if neg then - decimal ds else decimal ds)
                    in if v < - (2 ^ 63) \<or> 2 ^ 63 - 1 < v then Inl ErrRange else Inr v)))"

subsection \<open>Regular expressions and string predicates\<close>

text \<open>\<open>strings.HasPrefix\<close>.\<close>

definition HasPrefix :: "string \<Rightarrow> string \<Rightarrow> bool" where
  "HasPrefix s p = (take (length p) s = p)"

text \<open>\<open>strings.Contains(s, ":")\<close>.\<close>

definition ContainsColon :: "string \<Rightarrow> bool" where
  "ContainsColon s = (CHR '':'' \<in> set s)"

definition is_lower_alnum :: "char \<Rightarrow> bool" where
  "is_lower_alnum c = (c \<in> set ''abcdefghijklmnopqrstuvwxyz0123456789'')"

text \<open>
  The pattern \<open>^[a-z0-9]+(_[a-z0-9]+)*$\<close> as the automaton that reads it: the flag says
  whether the segment being read already has a character.
\<close>

fun snake :: "bool \<Rightarrow> string \<Rightarrow> bool" where
  "snake inseg [] = inseg"
| "snake inseg (c # cs) =
     (if is_lower_alnum c then snake True cs
      else c = CHR ''_'' \<and> inseg \<and> snake False cs)"

definition match_name :: "string \<Rightarrow> bool" where
  "match_name s = snake False s"

text \<open>
  The patterns \<open>^[0-9]+(Ki|Mi|Gi)$\<close> and \<open>^[0-9]+(?:Ki|Mi|...|E)$\<close>: the longest run of
  digits at the front must be non-empty, and what follows must be one of the units (no unit
  starts with a digit).
\<close>

definition match_quantity :: "string list \<Rightarrow> string \<Rightarrow> bool" where
  "match_quantity units s =
     (takeWhile is_digit s \<noteq> [] \<and> dropWhile is_digit s \<in> set units)"

section \<open>The validator with per-section functions\<close>

subsection \<open>Node accessor and field rule evaluator\<close>

fun getMappingValue_loop :: "node list \<Rightarrow> string \<Rightarrow> node option result" where
  "getMappingValue_loop [] key = Inr None"
| "getMappingValue_loop [k] key = Inl IndexOutOfRange"
| "getMappingValue_loop (k # v # rest) key =
     (if Kind k = ScalarNode \<and> Value k = key then Inr (Some v)
      else getMappingValue_loop rest key)"

definition getMappingValue :: "node option \<Rightarrow> string \<Rightarrow> node option result" where
  "getMappingValue node key =
     (case node of
        None \<Rightarrow> Inr None
      | Some n \<Rightarrow>
          if Kind n \<noteq> MappingNode then Inr None
          else getMappingValue_loop (Content n) key)"

definition validateMappingField ::
  "node option \<Rightarrow> string \<Rightarrow> bool \<Rightarrow> string list \<Rightarrow> string \<Rightarrow> (node option \<times> string list) result"
where
  "validateMappingField parent field required errors filename =
     and_then (getMappingValue parent field) (\<lambda>valNode.
       Inr (valNode,
            if valNode = None \<and> required
            then errors @ [filename @ '': '' @ field @ '' is required'']
            else errors))"

subsection \<open>Top-level scalars and metadata\<close>

definition validateAPIVersion :: "node option \<Rightarrow> string list \<Rightarrow> string \<Rightarrow> string list" where
  "validateAPIVersion node errors filename =
     (case node of
        None \<Rightarrow> errors
      | Some n \<Rightarrow>
          if Kind n \<noteq> ScalarNode
          then errors @ [at_line filename (Line n) ''apiVersion must be string'']
          else if Value n \<noteq> ''v1''
          then errors @ [at_line filename (Line n)
                           (''apiVersion has unsupported value '' @ quoted (Value n))]
          else errors)"

definition validateKind :: "node option \<Rightarrow> string list \<Rightarrow> string \<Rightarrow> string list" where
  "validateKind node errors filename =
     (case node of
        None \<Rightarrow> errors
      | Some n \<Rightarrow>
          if Kind n \<noteq> ScalarNode
          then errors @ [at_line filename (Line n) ''kind must be string'']
          else if Value n \<noteq> ''Pod''
          then errors @ [at_line filename (Line n)
                           (''kind has unsupported value '' @ quoted (Value n))]
          else errors)"

fun labels_loop :: "node list \<Rightarrow> string list \<Rightarrow> string \<Rightarrow> string list result" where
  "labels_loop [] errors filename = Inr errors"
| "labels_loop [k] errors filename = Inl IndexOutOfRange"
| "labels_loop (k # v # rest) errors filename =
     (let errors1 = (if Kind k \<noteq> ScalarNode
                     then errors @ [at_line filename (Line k) ''labels key must be string'']
                     else errors);
          errors2 = (if Kind v \<noteq> ScalarNode
                     then errors1 @ [at_line filename (Line v) ''labels value must be string'']
                     else errors1)
      in labels_loop rest errors2 filename)"

definition validateMetadata :: "node option \<Rightarrow> string list \<Rightarrow> string \<Rightarrow> string list result" where
  "validateMetadata metaNode errors filename =
     (case metaNode of
        None \<Rightarrow> Inr errors
      | Some m \<Rightarrow>
          if Kind m \<noteq> MappingNode
          then Inr (errors @ [at_line filename (Line m) ''metadata must be object''])
          else
            and_then (validateMappingField (Some m) ''name'' True errors filename) (\<lambda>(nameNode, errors1).
            and_then (validateMappingField (Some m) ''namespace'' False errors1 filename) (\<lambda>(nsNode, errors2).
            and_then (validateMappingField (Some m) ''labels'' False errors2 filename) (\<lambda>(labelsNode, errors3).
              let errors4 =
                    (case nameNode of
                       None \<Rightarrow> errors3
                     | Some n \<Rightarrow>
                         if Kind n \<noteq> ScalarNode
                         then errors3 @ [at_line filename (Line n) ''name must be string'']
                         else if Value n = ''''
                         then errors3 @ [at_line filename (Line n)
                                           (''name has invalid format '' @ quoted '''')]
                         else errors3);
                  errors5 =
                    (case nsNode of
                       None \<Rightarrow> errors4
                     | Some n \<Rightarrow>
                         if Kind n \<noteq> ScalarNode
                         then errors4 @ [at_line filename (Line n) ''namespace must be string'']
                         else errors4)
              in (case labelsNode of
                    None \<Rightarrow> Inr errors5
                  | Some l \<Rightarrow>
                      if Kind l \<noteq> MappingNode
                      then Inr (errors5 @ [at_line filename (Line l) ''labels must be object''])
                      else labels_loop (Content l) errors5 filename)))))"

subsection \<open>Ports, probes and resources\<close>

text \<open>The check of \<open>containerPort\<close> in the body of the loop of \<open>validatePorts\<close>.\<close>

definition check_containerPort :: "node option \<Rightarrow> string list \<Rightarrow> string \<Rightarrow> string list" where
  "check_containerPort cpNode errors filename =
     (case cpNode of
        None \<Rightarrow> errors
      | Some cp \<Rightarrow>
          if Kind cp \<noteq> ScalarNode
          then errors @ [at_line filename (Line cp) ''containerPort must be int'']
          else if Tag cp \<noteq> ''!!int''
          then errors @ [at_line filename (Line cp) ''containerPort must be int'']
          else (case Atoi (Value cp) of
                  Inr val \<Rightarrow>
                    if val < 1 \<or> val > 65535
                    then errors @ [at_line filename (Line cp) ''containerPort value out of range'']
                    else errors
                | Inl err \<Rightarrow> errors))"

text \<open>The check of \<open>protocol\<close> in the body of the same loop.\<close>

definition check_protocol :: "node option \<Rightarrow> string list \<Rightarrow> string \<Rightarrow> string list" where
  "check_protocol protoNode errors filename =
     (case protoNode of
        None \<Rightarrow> errors
      | Some p \<Rightarrow>
          if Kind p \<noteq> ScalarNode
          then errors @ [at_line filename (Line p) ''protocol must be string'']
          else if Value p \<noteq> ''TCP'' \<and> Value p \<noteq> ''UDP''
          then errors @ [at_line filename (Line p)
                           (''protocol has unsupported value '' @ quoted (Value p))]
          else errors)"

text \<open>The body of the loop of \<open>validatePorts\<close>, for one entry of the list.\<close>

definition validatePorts_entry :: "string \<Rightarrow> node \<Rightarrow> string list \<Rightarrow> string list result" where
  "validatePorts_entry filename portEntry errors =
     (if Kind portEntry \<noteq> MappingNode
      then Inr (errors @ [at_line filename (Line portEntry) ''ports entry must be object''])
      else
        and_then (validateMappingField (Some portEntry) ''containerPort'' True errors filename)
          (\<lambda>(cpNode, errors1).
        and_then (getMappingValue (Some portEntry) ''protocol'') (\<lambda>protoNode.
          Inr (check_protocol protoNode (check_containerPort cpNode errors1 filename) filename))))"

definition validatePorts :: "node \<Rightarrow> string list \<Rightarrow> string \<Rightarrow> string list result" where
  "validatePorts portsNode errors filename =
     (if Kind portsNode \<noteq> SequenceNode
      then Inr (errors @ [at_line filename (Line portsNode) ''ports must be array''])
      else for_each (validatePorts_entry filename) (Content portsNode) errors)"

text \<open>The checks of \<open>httpGet.path\<close> and of \<open>httpGet.port\<close> in \<open>validateProbe\<close>.\<close>

definition check_probe_path :: "node option \<Rightarrow> string list \<Rightarrow> string \<Rightarrow> string list" where
  "check_probe_path pathNode errors filename =
     (case pathNode of
        None \<Rightarrow> errors
      | Some p \<Rightarrow>
          if Kind p \<noteq> ScalarNode
          then errors @ [at_line filename (Line p) ''path must be string'']
          else if \<not> HasPrefix (Value p) ''/''
          then errors @ [at_line filename (Line p)
                           (''path has invalid format '' @ quoted (Value p))]
          else errors)"

definition check_probe_port :: "node option \<Rightarrow> string list \<Rightarrow> string \<Rightarrow> string list" where
  "check_probe_port portNode errors filename =
     (case portNode of
        None \<Rightarrow> errors
      | Some p \<Rightarrow>
          if Kind p \<noteq> ScalarNode
          then errors @ [at_line filename (Line p) ''port must be int'']
          else if Tag p \<noteq> ''!!int''
          then errors @ [at_line filename (Line p) ''port must be int'']
          else (case Atoi (Value p) of
                  Inr val \<Rightarrow>
                    if val < 1 \<or> val > 65535
                    then errors @ [at_line filename (Line p) ''port value out of range'']
                    else errors
                | Inl err \<Rightarrow> errors))"

definition validateProbe :: "node \<Rightarrow> string \<Rightarrow> string list \<Rightarrow> string \<Rightarrow> string list result" where
  "validateProbe probeNode fieldName errors filename =
     (if Kind probeNode \<noteq> MappingNode
      then Inr (errors @ [at_line filename (Line probeNode) (fieldName @ '' must be object'')])
      else
        and_then (getMappingValue (Some probeNode) ''httpGet'') (\<lambda>httpGetNode.
          case httpGetNode of
            None \<Rightarrow> Inr (errors @ [at_line filename (Line probeNode) ''httpGet is required''])
          | Some h \<Rightarrow>
              if Kind h \<noteq> MappingNode
              then Inr (errors @ [at_line filename (Line h) ''httpGet must be object''])
              else
                and_then (validateMappingField (Some h) ''path'' True errors filename)
                  (\<lambda>(pathNode, errors1).
                and_then (validateMappingField (Some h) ''port'' True errors1 filename)
                  (\<lambda>(portNode, errors2).
                  Inr (check_probe_port portNode
                         (check_probe_path pathNode errors2 filename) filename)))))"

definition check_cpu :: "node option \<Rightarrow> string list \<Rightarrow> string \<Rightarrow> string list" where
  "check_cpu cpuNode errors filename =
     (case cpuNode of
        None \<Rightarrow> errors
      | Some c \<Rightarrow>
          if Kind c \<noteq> ScalarNode
          then errors @ [at_line filename (Line c) ''cpu must be int'']
          else if Tag c \<noteq> ''!!int''
          then errors @ [at_line filename (Line c) ''cpu must be int'']
          else (case Atoi (Value c) of
                  Inr val \<Rightarrow>
                    if val < 0
                    then errors @ [at_line filename (Line c) ''cpu value out of range'']
                    else errors
                | Inl err \<Rightarrow> errors))"

definition check_memory :: "node option \<Rightarrow> string list \<Rightarrow> string \<Rightarrow> string list" where
  "check_memory memNode errors filename =
     (case memNode of
        None \<Rightarrow> errors
      | Some m \<Rightarrow>
          if Kind m \<noteq> ScalarNode
          then errors @ [at_line filename (Line m) ''memory must be string'']
          else if \<not> match_quantity [''Ki'', ''Mi'', ''Gi''] (Value m)
          then errors @ [at_line filename (Line m)
                           (''memory has invalid format '' @ quoted (Value m))]
          else errors)"

definition checkResourceValues :: "node \<Rightarrow> string list \<Rightarrow> string \<Rightarrow> string list result" where
  "checkResourceValues resNode errors filename =
     and_then (getMappingValue (Some resNode) ''cpu'') (\<lambda>cpuNode.
       let errors1 = check_cpu cpuNode errors filename
       in and_then (getMappingValue (Some resNode) ''memory'') (\<lambda>memNode.
            Inr (check_memory memNode errors1 filename)))"

subsection \<open>Containers\<close>

definition check_container_name :: "node option \<Rightarrow> string list \<Rightarrow> string \<Rightarrow> string list" where
  "check_container_name nameNode errors filename =
     (case nameNode of
        None \<Rightarrow> errors
      | Some n \<Rightarrow>
          if Kind n \<noteq> ScalarNode
          then errors @ [at_line filename (Line n) ''name must be string'']
          else if \<not> match_name (Value n)
          then errors @ [at_line filename (Line n)
                           (''name has invalid format '' @ quoted (Value n))]
          else errors)"

definition image_prefix :: string where
  "image_prefix = ''registry.bigbrother.io/''"

definition check_image :: "node option \<Rightarrow> string list \<Rightarrow> string \<Rightarrow> string list" where
  "check_image imageNode errors filename =
     (case imageNode of
        None \<Rightarrow> errors
      | Some n \<Rightarrow>
          if Kind n \<noteq> ScalarNode
          then errors @ [at_line filename (Line n) ''image must be string'']
          else (let img = Value n
                in if \<not> (length img > length image_prefix \<and> HasPrefix img image_prefix
                          \<and> ContainsColon (drop (length image_prefix) img))
                   then errors @ [at_line filename (Line n)
                                    (''image has invalid format '' @ quoted img)]
                   else errors))"

text \<open>The check of \<open>limits\<close> and of \<open>requests\<close> inside \<open>resources\<close>.\<close>

definition check_resource_section ::
  "string \<Rightarrow> node option \<Rightarrow> string list \<Rightarrow> string \<Rightarrow> string list result"
where
  "check_resource_section label sectionNode errors filename =
     (case sectionNode of
        None \<Rightarrow> Inr errors
      | Some s \<Rightarrow>
          if Kind s \<noteq> MappingNode
          then Inr (errors @ [at_line filename (Line s) (label @ '' must be object'')])
          else checkResourceValues s errors filename)"

definition check_resources :: "node option \<Rightarrow> string list \<Rightarrow> string \<Rightarrow> string list result" where
  "check_resources resourcesNode errors filename =
     (case resourcesNode of
        None \<Rightarrow> Inr errors
      | Some r \<Rightarrow>
          if Kind r \<noteq> MappingNode
          then Inr (errors @ [at_line filename (Line r) ''resources must be object''])
          else
            and_then (getMappingValue (Some r) ''limits'') (\<lambda>limitsNode.
            and_then (getMappingValue (Some r) ''requests'') (\<lambda>requestsNode.
            and_then (check_resource_section ''limits'' limitsNode errors filename) (\<lambda>errors1.
              check_resource_section ''requests'' requestsNode errors1 filename))))"

definition validateContainer :: "node \<Rightarrow> string list \<Rightarrow> string \<Rightarrow> string list result" where
  "validateContainer containerNode errors filename =
     (if Kind containerNode \<noteq> MappingNode
      then Inr (errors @ [at_line filename (Line containerNode) ''container must be object''])
      else
        and_then (validateMappingField (Some containerNode) ''name'' True errors filename)
          (\<lambda>(nameNode, errors1).
        and_then (validateMappingField (Some containerNode) ''image'' True errors1 filename)
          (\<lambda>(imageNode, errors2).
        and_then (getMappingValue (Some containerNode) ''ports'') (\<lambda>portsNode.
        and_then (getMappingValue (Some containerNode) ''readinessProbe'') (\<lambda>readinessNode.
        and_then (getMappingValue (Some containerNode) ''livenessProbe'') (\<lambda>livenessNode.
        and_then (validateMappingField (Some containerNode) ''resources'' True errors2 filename)
          (\<lambda>(resourcesNode, errors3).
          let errors4 = check_container_name nameNode errors3 filename;
              errors5 = check_image imageNode errors4 filename
          in
            and_then (case portsNode of None \<Rightarrow> Inr errors5
                      | Some p \<Rightarrow> validatePorts p errors5 filename) (\<lambda>errors6.
            and_then (case readinessNode of None \<Rightarrow> Inr errors6
                      | Some p \<Rightarrow> validateProbe p ''readinessProbe'' errors6 filename) (\<lambda>errors7.
            and_then (case livenessNode of None \<Rightarrow> Inr errors7
                      | Some p \<Rightarrow> validateProbe p ''livenessProbe'' errors7 filename) (\<lambda>errors8.
              check_resources resourcesNode errors8 filename))))))))))"

subsection \<open>The spec section and the document\<close>

text \<open>
  The block of \<open>validateSpec\<close> for the field \<open>os\<close>. The local variable \<open>osName\<close>
  starts as the empty string and stays empty when no name could be read.
\<close>

definition check_os :: "node option \<Rightarrow> string list \<Rightarrow> string \<Rightarrow> string list result" where
  "check_os osNode errors filename =
     (case osNode of
        None \<Rightarrow> Inr errors
      | Some os \<Rightarrow>
          and_then
            (if Kind os = ScalarNode then Inr (Value os, errors)
             else if Kind os = MappingNode then
               and_then (getMappingValue (Some os) ''name'') (\<lambda>nameNode.
                 case nameNode of
                   None \<Rightarrow> Inr ([], errors @ [at_line filename (Line os) ''os.name is required''])
                 | Some n \<Rightarrow>
                     if Kind n \<noteq> ScalarNode
                     then Inr ([], errors @ [at_line filename (Line n) ''os.name must be string''])
                     else Inr (Value n, errors))
             else Inr ([], errors @ [at_line filename (Line os) ''os must be string or object'']))
            (\<lambda>(osName, errors1).
               if osName \<noteq> [] \<and> osName \<noteq> ''linux'' \<and> osName \<noteq> ''windows''
               then
                 and_then
                   (if Kind os = MappingNode
                    then and_then (getMappingValue (Some os) ''name'') (\<lambda>nameNode.
                           Inr (case nameNode of None \<Rightarrow> Line os | Some n \<Rightarrow> Line n))
                    else Inr (Line os))
                   (\<lambda>line. Inr (errors1 @ [at_line filename line
                                                (''os has unsupported value '' @ quoted osName)]))
               else Inr errors1))"

definition validateSpec :: "node option \<Rightarrow> string list \<Rightarrow> string \<Rightarrow> string list result" where
  "validateSpec specNode errors filename =
     (case specNode of
        None \<Rightarrow> Inr errors
      | Some s \<Rightarrow>
          if Kind s \<noteq> MappingNode
          then Inr (errors @ [at_line filename (Line s) ''spec must be object''])
          else
            and_then (getMappingValue (Some s) ''os'') (\<lambda>osNode.
            and_then (check_os osNode errors filename) (\<lambda>errors1.
            and_then (getMappingValue (Some s) ''containers'') (\<lambda>containersNode.
              case containersNode of
                None \<Rightarrow> Inr (errors1 @ [filename @ '': containers is required''])
              | Some c \<Rightarrow>
                  if Kind c \<noteq> SequenceNode
                  then Inr (errors1 @ [at_line filename (Line c) ''containers must be array''])
                  else
                    (let errors2 =
                           (if length (Content c) = 0
                            then errors1 @ [at_line filename (Line c) ''containers must not be empty'']
                            else errors1)
                     in for_each (\<lambda>cNode errs. validateContainer cNode errs filename)
                          (Content c) errors2)))))"

definition validateDocument :: "node \<Rightarrow> string \<Rightarrow> string list \<Rightarrow> string list result" where
  "validateDocument doc filename errors =
     (if Kind doc \<noteq> MappingNode
      then Inr (errors @ [at_line filename (Line doc) ''top-level document must be a mapping (object)''])
      else
        and_then (validateMappingField (Some doc) ''apiVersion'' True errors filename)
          (\<lambda>(apiVersionNode, errors1).
        and_then (validateMappingField (Some doc) ''kind'' True errors1 filename)
          (\<lambda>(kindNode, errors2).
        and_then (validateMappingField (Some doc) ''metadata'' True errors2 filename)
          (\<lambda>(metaNode, errors3).
        and_then (validateMappingField (Some doc) ''spec'' True errors3 filename)
          (\<lambda>(specNode, errors4).
          let errors5 = validateAPIVersion apiVersionNode errors4 filename;
              errors6 = validateKind kindNode errors5 filename
          in and_then (validateMetadata metaNode errors6 filename) (\<lambda>errors7.
               validateSpec specNode errors7 filename))))))"

text \<open>
  The driver (\<open>main\<close>) from the parsed root on: the list of diagnostics it prints, one
  per line, before it exits with status 1 (status 0 when the list is empty).
\<close>

definition main_errors :: "node \<Rightarrow> string \<Rightarrow> string list result" where
  "main_errors root filename =
     (if length (Content root) = 0
      then Inr [filename @ '': YAML content is empty or invalid'']
      else for_each (\<lambda>doc errs. validateDocument doc filename errs) (Content root) [])"

definition exit_status :: "string list \<Rightarrow> nat" where
  "exit_status errors = (if length errors > 0 then 1 else 0)"

text \<open>
  Before that, \<open>main\<close> calls \<open>yaml.Unmarshal(data, &root)\<close>. \<open>Unmarshal\<close> decodes the
  first document of its input only (reading further documents takes a \<open>Decoder\<close> and a
  loop), and into a \<open>yaml.Node\<close> it stores the document node, whose single child is the
  root of that document; on an input without any document it leaves \<open>root\<close> as it was,
  with no children. The input is given here as the list of the trees of the documents in
  the file, in order; turning text into trees is the parser's work and is not modelled.
\<close>

definition Unmarshal :: "node list \<Rightarrow> node option" where
  "Unmarshal documents =
     (case documents of
        [] \<Rightarrow> None
      | first # later \<Rightarrow> Some (Node DocumentNode [] [] (Line first) [first]))"

definition main_file :: "node list \<Rightarrow> string \<Rightarrow> string list result" where
  "main_file documents filename =
     (case Unmarshal documents of
        None \<Rightarrow> Inr [filename @ '': YAML content is empty or invalid'']
      | Some root \<Rightarrow> main_errors root filename)"

section \<open>The validator written inline in \<open>main\<close>\<close>

text \<open>
  The file \<open>main.go\<close> is a second build of the tool: one \<open>main\<close> that checks the
  top-level fields, the containers and the ports inline, with its own
  \<open>validateProbe\<close> and \<open>checkResourceValues\<close>. Its functions carry the suffix
  \<open>_inline\<close> here, and the blocks of its \<open>main\<close> are named \<open>inline_...\<close>. The closures
  \<open>addError\<close> and \<open>findMapKey\<close> that \<open>main\<close> hands to its helpers are the two
  definitions below.
\<close>

definition addError :: "string \<Rightarrow> string list \<Rightarrow> int \<Rightarrow> string \<Rightarrow> string list" where
  "addError filename errors line msg = errors @ [at_line filename line msg]"

fun findMapKey_loop :: "node list \<Rightarrow> string \<Rightarrow> (node \<times> node) option result" where
  "findMapKey_loop [] key = Inr None"
| "findMapKey_loop [k] key = Inl IndexOutOfRange"
| "findMapKey_loop (k # v # rest) key =
     (if Value k = key then Inr (Some (k, v)) else findMapKey_loop rest key)"

definition findMapKey :: "node option \<Rightarrow> string \<Rightarrow> (node \<times> node) option result" where
  "findMapKey mapNode key =
     (case mapNode of
        None \<Rightarrow> Inr None
      | Some m \<Rightarrow>
          if Kind m \<noteq> MappingNode then Inr None
          else findMapKey_loop (Content m) key)"

text \<open>
  The line a presence diagnostic is attributed to: the line of the parent, or of the key
  when the key exists.
\<close>

definition line_of_key :: "node \<Rightarrow> (node \<times> node) option \<Rightarrow> int" where
  "line_of_key parent found = (case found of None \<Rightarrow> Line parent | Some (k, v) \<Rightarrow> Line k)"

text \<open>
  The first index of a colon in the rest of the string, or \<open>-1\<close>. The loop of the source
  ranges over runes and compares each with the colon; a colon is a single byte that no
  longer rune contains, so the index is that of the first colon byte.
\<close>

fun colon_index_from :: "int \<Rightarrow> string \<Rightarrow> int" where
  "colon_index_from i [] = - 1"
| "colon_index_from i (ch # rest) =
     (if ch = CHR '':'' then i else colon_index_from (i + 1) rest)"

definition containsColonAfterPrefix :: "string \<Rightarrow> string \<Rightarrow> bool" where
  "containsColonAfterPrefix s prefix =
     (if length s \<le> length prefix then False
      else (let rest = drop (length prefix) s;
                colonIndex = colon_index_from 0 rest
            in if colonIndex \<le> 0 \<or> colonIndex = int (length rest) - 1 then False
               else True))"

subsection \<open>Probes and resources\<close>

definition inline_probe_path :: "string \<Rightarrow> string \<Rightarrow> node \<Rightarrow> string list \<Rightarrow> string list result" where
  "inline_probe_path filename probeName httpGetNode errors =
     and_then (findMapKey (Some httpGetNode) ''path'') (\<lambda>found.
       Inr (case found of
              None \<Rightarrow>
                addError filename errors (line_of_key httpGetNode found)
                  (probeName @ ''.httpGet.path is required'')
            | Some (pathKey, pathVal) \<Rightarrow>
                if Value pathVal = []
                then addError filename errors (line_of_key httpGetNode found)
                       (probeName @ ''.httpGet.path is required'')
                else if length (Value pathVal) = 0 \<or> hd (Value pathVal) \<noteq> CHR ''/''
                then addError filename errors (Line pathVal)
                       (probeName @ ''.httpGet.path must start with '' @ quoted ''/'')
                else errors))"

definition inline_probe_port :: "string \<Rightarrow> string \<Rightarrow> node \<Rightarrow> string list \<Rightarrow> string list result" where
  "inline_probe_port filename probeName httpGetNode errors =
     and_then (findMapKey (Some httpGetNode) ''port'') (\<lambda>found.
       Inr (case found of
              None \<Rightarrow>
                addError filename errors (line_of_key httpGetNode found)
                  (probeName @ ''.httpGet.port is required'')
            | Some (portKey, portVal) \<Rightarrow>
                (let errors1 =
                       (if Tag portVal \<noteq> ''!!int''
                        then (case Atoi (Value portVal) of
                                Inl err \<Rightarrow>
                                  addError filename errors (Line portVal)
                                    (probeName @ ''.httpGet.port must be an integer between 1 and 65535'')
                              | Inr n \<Rightarrow> errors)
                        else errors)
                 in (case Atoi (Value portVal) of
                       Inr pNum \<Rightarrow>
                         if pNum < 1 \<or> pNum > 65535
                         then addError filename errors1 (Line portVal)
                                (probeName @ ''.httpGet.port must be between 1 and 65535'')
                         else errors1
                     | Inl err \<Rightarrow> errors1))))"

definition validateProbe_inline :: "string \<Rightarrow> string list \<Rightarrow> string \<Rightarrow> node \<Rightarrow> string list result" where
  "validateProbe_inline filename errors probeName probeNode =
     (if Kind probeNode \<noteq> MappingNode
      then Inr (addError filename errors (Line probeNode) (probeName @ '' must be a mapping''))
      else
        and_then (findMapKey (Some probeNode) ''httpGet'') (\<lambda>found.
          case found of
            None \<Rightarrow> Inr errors
          | Some (httpGetKey, httpGetNode) \<Rightarrow>
              if Kind httpGetNode \<noteq> MappingNode
              then Inr (addError filename errors (Line httpGetNode)
                          (probeName @ ''.httpGet must be a mapping''))
              else
                and_then (inline_probe_path filename probeName httpGetNode errors) (\<lambda>errors1.
                  inline_probe_port filename probeName httpGetNode errors1)))"

definition memory_units_inline :: "string list" where
  "memory_units_inline =
     [''Ki'', ''Mi'', ''Gi'', ''Ti'', ''Pi'', ''Ei'', ''K'', ''M'', ''G'', ''T'', ''P'', ''E'']"

definition inline_resource_cpu :: "string \<Rightarrow> string \<Rightarrow> node \<Rightarrow> string list \<Rightarrow> string list result" where
  "inline_resource_cpu filename resType resNode errors =
     and_then (findMapKey (Some resNode) ''cpu'') (\<lambda>found.
       Inr (case found of
              None \<Rightarrow>
                addError filename errors (line_of_key resNode found)
                  (''resources.'' @ resType @ ''.cpu is required'')
            | Some (cpuKey, cpuVal) \<Rightarrow>
                if Value cpuVal = []
                then addError filename errors (line_of_key resNode found)
                       (''resources.'' @ resType @ ''.cpu is required'')
                else (case Atoi (Value cpuVal) of
                        Inl err \<Rightarrow>
                          addError filename errors (Line cpuVal)
                            (''resources.'' @ resType @ ''.cpu must be a non-negative integer'')
                      | Inr i \<Rightarrow>
                          if i < 0
                          then addError filename errors (Line cpuVal)
                                 (''resources.'' @ resType @ ''.cpu must be a non-negative integer'')
                          else errors)))"

definition inline_resource_memory :: "string \<Rightarrow> string \<Rightarrow> node \<Rightarrow> string list \<Rightarrow> string list result" where
  "inline_resource_memory filename resType resNode errors =
     and_then (findMapKey (Some resNode) ''memory'') (\<lambda>found.
       Inr (case found of
              None \<Rightarrow>
                addError filename errors (line_of_key resNode found)
                  (''resources.'' @ resType @ ''.memory is required'')
            | Some (memKey, memVal) \<Rightarrow>
                if Value memVal = []
                then addError filename errors (line_of_key resNode found)
                       (''resources.'' @ resType @ ''.memory is required'')
                else if \<not> match_quantity memory_units_inline (Value memVal)
                then addError filename errors (Line memVal)
                       (''resources.'' @ resType
                          @ ''.memory must be in format <number><unit> (e.g., 123Mi or 1Gi)'')
                else errors))"

text \<open>The body of the loop over \<open>limits\<close> and \<open>requests\<close>.\<close>

definition inline_resource_type :: "string \<Rightarrow> node \<Rightarrow> string \<Rightarrow> string list \<Rightarrow> string list result" where
  "inline_resource_type filename resourcesNode resType errors =
     and_then (findMapKey (Some resourcesNode) resType) (\<lambda>found.
       case found of
         None \<Rightarrow>
           Inr (addError filename errors (Line resourcesNode)
                  (''resources.'' @ resType @ '' is required''))
       | Some (resKey, resNode) \<Rightarrow>
           if Kind resNode \<noteq> MappingNode
           then Inr (addError filename errors (Line resNode)
                       (''resources.'' @ resType @ '' must be a mapping''))
           else
             and_then (inline_resource_cpu filename resType resNode errors) (\<lambda>errors1.
               inline_resource_memory filename resType resNode errors1))"

definition checkResourceValues_inline :: "string \<Rightarrow> string list \<Rightarrow> node \<Rightarrow> string list result" where
  "checkResourceValues_inline filename errors resourcesNode =
     (if Kind resourcesNode \<noteq> MappingNode
      then Inr (addError filename errors (Line resourcesNode) ''resources must be a mapping'')
      else for_each (inline_resource_type filename resourcesNode) [''limits'', ''requests''] errors)"

subsection \<open>Ports\<close>

definition inline_containerPort :: "string \<Rightarrow> node \<Rightarrow> string list \<Rightarrow> string list result" where
  "inline_containerPort filename portItem errors =
     and_then (findMapKey (Some portItem) ''containerPort'') (\<lambda>found.
       Inr (case found of
              None \<Rightarrow>
                addError filename errors (line_of_key portItem found) ''containerPort is required''
            | Some (cpKey, cpVal) \<Rightarrow>
                (let errors1 =
                       (if Tag cpVal \<noteq> ''!!int''
                        then (case Atoi (Value cpVal) of
                                Inl err \<Rightarrow>
                                  addError filename errors (Line cpVal)
                                    ''containerPort must be an integer between 1 and 65535''
                              | Inr n \<Rightarrow> errors)
                        else errors)
                 in (case Atoi (Value cpVal) of
                       Inr portNum \<Rightarrow>
                         if portNum < 1 \<or> portNum > 65535
                         then addError filename errors1 (Line cpVal)
                                ''containerPort must be between 1 and 65535''
                         else errors1
                     | Inl err \<Rightarrow> errors1))))"

definition inline_protocol :: "string \<Rightarrow> node \<Rightarrow> string list \<Rightarrow> string list result" where
  "inline_protocol filename portItem errors =
     and_then (findMapKey (Some portItem) ''protocol'') (\<lambda>found.
       Inr (case found of
              None \<Rightarrow> errors
            | Some (protoKey, protoVal) \<Rightarrow>
                if Value protoVal \<noteq> ''TCP'' \<and> Value protoVal \<noteq> ''UDP''
                then addError filename errors (Line protoVal) ''protocol must be either TCP or UDP''
                else errors))"

text \<open>The body of the loop over the entries of \<open>ports\<close>.\<close>

definition inline_port_item :: "string \<Rightarrow> node \<Rightarrow> string list \<Rightarrow> string list result" where
  "inline_port_item filename portItem errors =
     (if Kind portItem \<noteq> MappingNode
      then Inr (addError filename errors (Line portItem)
                  ''port must be a mapping (with containerPort and protocol)'')
      else
        and_then (inline_containerPort filename portItem errors) (\<lambda>errors1.
          inline_protocol filename portItem errors1))"

definition inline_ports :: "string \<Rightarrow> node \<Rightarrow> string list \<Rightarrow> string list result" where
  "inline_ports filename container errors =
     and_then (findMapKey (Some container) ''ports'') (\<lambda>found.
       case found of
         None \<Rightarrow> Inr errors
       | Some (portsKey, portsVal) \<Rightarrow>
           if Kind portsVal \<noteq> SequenceNode
           then Inr (addError filename errors (Line portsVal) ''ports must be a list'')
           else for_each (inline_port_item filename) (Content portsVal) errors)"

subsection \<open>Containers\<close>

definition inline_container_name :: "string \<Rightarrow> node \<Rightarrow> string list \<Rightarrow> string list result" where
  "inline_container_name filename container errors =
     and_then (findMapKey (Some container) ''name'') (\<lambda>found.
       Inr (case found of
              None \<Rightarrow>
                addError filename errors (line_of_key container found) ''container name is required''
            | Some (nameKey, nameVal) \<Rightarrow>
                if Value nameVal = []
                then addError filename errors (line_of_key container found)
                       ''container name is required''
                else if \<not> match_name (Value nameVal)
                then addError filename errors (Line nameVal)
                       ''container name must be snake_case (lowercase with underscores)''
                else errors))"

definition inline_image :: "string \<Rightarrow> node \<Rightarrow> string list \<Rightarrow> string list result" where
  "inline_image filename container errors =
     and_then (findMapKey (Some container) ''image'') (\<lambda>found.
       Inr (case found of
              None \<Rightarrow> addError filename errors (line_of_key container found) ''image is required''
            | Some (imageKey, imageVal) \<Rightarrow>
                if Value imageVal = []
                then addError filename errors (line_of_key container found) ''image is required''
                else if length (Value imageVal) < length image_prefix
                        \<or> take (length image_prefix) (Value imageVal) \<noteq> image_prefix
                        \<or> \<not> containsColonAfterPrefix (Value imageVal) image_prefix
                then addError filename errors (Line imageVal)
                       (''image must start with '' @ quoted image_prefix
                          @ '' and contain a tag (use '' @ quoted '':'' @ '')'')
                else errors))"

definition inline_probe :: "string \<Rightarrow> string \<Rightarrow> node \<Rightarrow> string list \<Rightarrow> string list result" where
  "inline_probe filename probeName container errors =
     and_then (findMapKey (Some container) probeName) (\<lambda>found.
       case found of
         None \<Rightarrow> Inr errors
       | Some (probeKey, probeNode) \<Rightarrow> validateProbe_inline filename errors probeName probeNode)"

definition inline_resources :: "string \<Rightarrow> node \<Rightarrow> string list \<Rightarrow> string list result" where
  "inline_resources filename container errors =
     and_then (findMapKey (Some container) ''resources'') (\<lambda>found.
       case found of
         None \<Rightarrow> Inr errors
       | Some (resKey, resNode) \<Rightarrow> checkResourceValues_inline filename errors resNode)"

text \<open>The body of the loop over the containers.\<close>

definition inline_container :: "string \<Rightarrow> node \<Rightarrow> string list \<Rightarrow> string list result" where
  "inline_container filename container errors =
     (if Kind container \<noteq> MappingNode
      then Inr (addError filename errors (Line container) ''container must be a mapping object'')
      else
        and_then (inline_container_name filename container errors) (\<lambda>errors1.
        and_then (inline_image filename container errors1) (\<lambda>errors2.
        and_then (inline_ports filename container errors2) (\<lambda>errors3.
        and_then (inline_probe filename ''readinessProbe'' container errors3) (\<lambda>errors4.
        and_then (inline_probe filename ''livenessProbe'' container errors4) (\<lambda>errors5.
          inline_resources filename container errors5))))))"

subsection \<open>The top-level fields\<close>

definition inline_required :: "string \<Rightarrow> node \<Rightarrow> string \<Rightarrow> string list \<Rightarrow> string list result" where
  "inline_required filename rootMap field errors =
     and_then (findMapKey (Some rootMap) field) (\<lambda>found.
       Inr (case found of
              None \<Rightarrow> addError filename errors 1 (field @ '' is required'')
            | Some (k, v) \<Rightarrow> errors))"

definition inline_metadata :: "string \<Rightarrow> node \<Rightarrow> string list \<Rightarrow> string list result" where
  "inline_metadata filename rootMap errors =
     and_then (findMapKey (Some rootMap) ''metadata'') (\<lambda>found.
       case found of
         None \<Rightarrow> Inr (addError filename errors 1 ''metadata.name is required'')
       | Some (mKey, metadataNode) \<Rightarrow>
           if Kind metadataNode \<noteq> MappingNode
           then Inr (addError filename errors (Line metadataNode) ''metadata.name is required'')
           else
             and_then (findMapKey (Some metadataNode) ''name'') (\<lambda>foundName.
               Inr (case foundName of
                      None \<Rightarrow>
                        addError filename errors (Line metadataNode) ''metadata.name is required''
                    | Some (nameKey, nameNode) \<Rightarrow>
                        if Value nameNode = []
                        then addError filename errors (Line metadataNode)
                               ''metadata.name is required''
                        else errors)))"

definition inline_os :: "string \<Rightarrow> node \<Rightarrow> string list \<Rightarrow> string list result" where
  "inline_os filename specNode errors =
     and_then (findMapKey (Some specNode) ''os'') (\<lambda>found.
       Inr (case found of
              None \<Rightarrow> errors
            | Some (osKey, osVal) \<Rightarrow>
                if Value osVal \<noteq> ''linux'' \<and> Value osVal \<noteq> ''windows''
                then addError filename errors (Line osVal)
                       (''spec.os must be '' @ quoted ''linux'' @ '' or '' @ quoted ''windows'')
                else errors))"

definition inline_containers :: "string \<Rightarrow> node \<Rightarrow> string list \<Rightarrow> string list result" where
  "inline_containers filename specNode errors =
     and_then (findMapKey (Some specNode) ''containers'') (\<lambda>found.
       case found of
         None \<Rightarrow> Inr (addError filename errors (Line specNode) ''spec.containers is required'')
       | Some (cKey, containersNode) \<Rightarrow>
           if Kind containersNode \<noteq> SequenceNode
           then Inr (addError filename errors (Line containersNode)
                       ''spec.containers must be a sequence (list)'')
           else if length (Content containersNode) = 0
           then Inr (addError filename errors (Line containersNode)
                       ''spec.containers must have at least one container'')
           else for_each (inline_container filename) (Content containersNode) errors)"

definition inline_spec :: "string \<Rightarrow> node \<Rightarrow> string list \<Rightarrow> string list result" where
  "inline_spec filename rootMap errors =
     and_then (findMapKey (Some rootMap) ''spec'') (\<lambda>found.
       case found of
         None \<Rightarrow> Inr (addError filename errors 1 ''spec.containers is required'')
       | Some (sKey, specNode) \<Rightarrow>
           if Kind specNode \<noteq> MappingNode
           then Inr (addError filename errors (Line specNode) ''spec.containers is required'')
           else
             and_then (inline_os filename specNode errors) (\<lambda>errors1.
               inline_containers filename specNode errors1))"

text \<open>
  \<open>main\<close> from the parsed root on. A root that is not a mapping is reported on its own
  and ends the run.
\<close>

definition main_inline :: "node \<Rightarrow> string \<Rightarrow> string list result" where
  "main_inline root filename =
     (let rootMap = (if Kind root = DocumentNode \<and> length (Content root) > 0
                     then hd (Content root) else root)
      in if Kind rootMap \<noteq> MappingNode
         then Inr [at_line filename 1 ''YAML content is not a mapping'']
         else
           and_then (inline_required filename rootMap ''apiVersion'' []) (\<lambda>errors1.
           and_then (inline_required filename rootMap ''kind'' errors1) (\<lambda>errors2.
           and_then (inline_metadata filename rootMap errors2) (\<lambda>errors3.
             inline_spec filename rootMap errors3))))"

section \<open>The checker of three fields\<close>

text \<open>
  A third build (the source file whose name is not known) checks only \<open>spec.os\<close>, the
  port of \<open>readinessProbe.httpGet\<close> and \<open>resources.requests.cpu\<close>. Its
  \<open>validateProbe\<close> carries the suffix \<open>_spot\<close> here. Its loops visit every pair of a
  mapping and do not stop at the first match.
\<close>

definition spot_port :: "string \<Rightarrow> node \<Rightarrow> node \<Rightarrow> string list \<Rightarrow> string list" where
  "spot_port filename k v errs =
     (if Value k = ''port'' \<and> Kind v = ScalarNode
      then (let portStr = Value v
            in if portStr \<noteq> []
               then (case Atoi portStr of
                       Inr port \<Rightarrow>
                         if port < 1 \<or> port > 65535
                         then errs @ [at_line filename (Line v) ''port value out of range'']
                         else errs
                     | Inl err \<Rightarrow> errs)
               else errs)
      else errs)"

fun spot_httpGet_loop :: "string \<Rightarrow> node list \<Rightarrow> string list \<Rightarrow> string list result" where
  "spot_httpGet_loop filename [] errs = Inr errs"
| "spot_httpGet_loop filename [k] errs = Inl IndexOutOfRange"
| "spot_httpGet_loop filename (k # v # rest) errs =
     spot_httpGet_loop filename rest (spot_port filename k v errs)"

fun spot_probe_loop :: "string \<Rightarrow> node list \<Rightarrow> string list \<Rightarrow> string list result" where
  "spot_probe_loop filename [] errs = Inr errs"
| "spot_probe_loop filename [keyNode] errs = Inl IndexOutOfRange"
| "spot_probe_loop filename (keyNode # valNode # rest) errs =
     and_then
       (if Value keyNode = ''httpGet'' \<and> Kind valNode = MappingNode
        then spot_httpGet_loop filename (Content valNode) errs
        else Inr errs)
       (spot_probe_loop filename rest)"

definition validateProbe_spot :: "string \<Rightarrow> string list \<Rightarrow> node option \<Rightarrow> string list result" where
  "validateProbe_spot filename errs probeNode =
     (case probeNode of
        None \<Rightarrow> Inr errs
      | Some p \<Rightarrow>
          if Kind p \<noteq> MappingNode then Inr errs
          else spot_probe_loop filename (Content p) errs)"

section \<open>Trees as the parser builds them\<close>

text \<open>
  The parser gives every mapping node an even number of children. On such trees the two
  accessors never read past the end, and they are the functions \<open>lookup\<close> and
  \<open>find_pair\<close>: the first pair whose key matches wins.
\<close>

fun wf_node :: "node \<Rightarrow> bool" where
  "wf_node (Node k t v l cs) =
     ((k = MappingNode \<longrightarrow> even (length cs)) \<and> (\<forall>c \<in> set cs. wf_node c))"

fun lookup_pairs :: "node list \<Rightarrow> string \<Rightarrow> node option" where
  "lookup_pairs (k # v # rest) key =
     (if Kind k = ScalarNode \<and> Value k = key then Some v else lookup_pairs rest key)"
| "lookup_pairs _ key = None"

definition lookup :: "node \<Rightarrow> string \<Rightarrow> node option" where
  "lookup n key = (if Kind n = MappingNode then lookup_pairs (Content n) key else None)"

fun find_pairs :: "node list \<Rightarrow> string \<Rightarrow> (node \<times> node) option" where
  "find_pairs (k # v # rest) key =
     (if Value k = key then Some (k, v) else find_pairs rest key)"
| "find_pairs _ key = None"

definition find_pair :: "node \<Rightarrow> string \<Rightarrow> (node \<times> node) option" where
  "find_pair n key = (if Kind n = MappingNode then find_pairs (Content n) key else None)"

text \<open>Nodes for the examples: a scalar with its tag, a mapping, a sequence.\<close>

definition scalar :: "string \<Rightarrow> string \<Rightarrow> int \<Rightarrow> node" where
  "scalar tag text line = Node ScalarNode tag text line []"

definition str :: "string \<Rightarrow> int \<Rightarrow> node" where
  "str text line = scalar ''!!str'' text line"

definition mapping :: "int \<Rightarrow> node list \<Rightarrow> node" where
  "mapping line children = Node MappingNode ''!!map'' [] line children"

definition seq :: "int \<Rightarrow> node list \<Rightarrow> node" where
  "seq line children = Node SequenceNode ''!!seq'' [] line children"

text \<open>The pairs of a mapping, in order.\<close>

fun pairs_of :: "node list \<Rightarrow> (node \<times> node) list" where
  "pairs_of (k # v # rest) = (k, v) # pairs_of rest"
| "pairs_of _ = []"

section \<open>The scalar rules in the words of the specification\<close>

text \<open>
  Prefixed-tagged-reference: the text starts with the prefix, and the substring after the
  prefix contains a colon that is neither its first nor its last character.
\<close>

definition prefixed_tagged_reference :: "string \<Rightarrow> string \<Rightarrow> bool" where
  "prefixed_tagged_reference prefix s =
     (take (length prefix) s = prefix
      \<and> (let rest = drop (length prefix) s
         in \<exists>i \<in> {1 ..< length rest - 1}. rest ! i = CHR '':''))"

text \<open>The first colon of a string has text before it and text after it.\<close>

definition first_colon_inside :: "string \<Rightarrow> bool" where
  "first_colon_inside rest =
     (let front = takeWhile (\<lambda>c. c \<noteq> CHR '':'') rest;
          back = drop (length front + 1) rest
      in CHR '':'' \<in> set rest \<and> front \<noteq> [] \<and> back \<noteq> [])"

text \<open>
  Quantity-with-unit: the text matches \<open>^[0-9]+(<unit>)$\<close>, that is, it splits into one or
  more digits and a unit of the vocabulary.
\<close>

definition binary_units :: "string list" where
  "binary_units = [''Ki'', ''Mi'', ''Gi'', ''Ti'', ''Pi'', ''Ei'']"

definition decimal_units :: "string list" where
  "decimal_units = [''K'', ''M'', ''G'', ''T'', ''P'', ''E'']"

definition quantity_with_unit :: "string list \<Rightarrow> string \<Rightarrow> bool" where
  "quantity_with_unit units s =
     (\<exists>n \<in> {1 .. length s}. (\<forall>c \<in> set (take n s). is_digit c) \<and> drop n s \<in> set units)"

text \<open>Enum: the two accepted platform names.\<close>

definition accepted_os_name :: "string \<Rightarrow> bool" where
  "accepted_os_name s = (s = ''linux'' \<or> s = ''windows'')"

text \<open>
  Integer-in-range: a scalar with the integer-kind tag whose numeric value, read from its
  decimal text, lies between the bounds.
\<close>

definition integer_in_range :: "int \<Rightarrow> int \<Rightarrow> node \<Rightarrow> bool" where
  "integer_in_range lo hi n =
     (Kind n = ScalarNode \<and> Tag n = ''!!int''
      \<and> (case Atoi (Value n) of Inr v \<Rightarrow> lo \<le> v \<and> v \<le> hi | Inl err \<Rightarrow> False))"

text \<open>
  The rule of a probe: a mapping containing a required \<open>httpGet\<close> mapping with required
  \<open>path\<close> (non-empty, starting with \<open>/\<close>) and required \<open>port\<close> (an integer in 1..65535).
\<close>

definition spec_probe_ok :: "node \<Rightarrow> bool" where
  "spec_probe_ok p =
     (Kind p = MappingNode
      \<and> (case lookup p ''httpGet'' of
           None \<Rightarrow> False
         | Some h \<Rightarrow>
             Kind h = MappingNode
             \<and> (case lookup h ''path'' of
                  None \<Rightarrow> False
                | Some pa \<Rightarrow> Kind pa = ScalarNode \<and> Value pa \<noteq> [] \<and> hd (Value pa) = CHR ''/'')
             \<and> (case lookup h ''port'' of
                  None \<Rightarrow> False
                | Some po \<Rightarrow> integer_in_range 1 65535 po)))"

section \<open>The rules of the sections in the words of the specification\<close>

text \<open>
  A document that has every required field with valid shape and content, section by
  section. The unit vocabulary of memory quantities is a parameter. An optional field is
  either absent or valid.
\<close>

definition spec_apiVersion_ok :: "node \<Rightarrow> bool" where
  "spec_apiVersion_ok n = (Kind n = ScalarNode \<and> Value n = ''v1'')"

definition spec_kind_ok :: "node \<Rightarrow> bool" where
  "spec_kind_ok n = (Kind n = ScalarNode \<and> Value n = ''Pod'')"

definition spec_labels_ok :: "node \<Rightarrow> bool" where
  "spec_labels_ok l =
     (Kind l = MappingNode
      \<and> (\<forall>(k, v) \<in> set (pairs_of (Content l)). Kind k = ScalarNode \<and> Kind v = ScalarNode))"

definition spec_metadata_ok :: "node \<Rightarrow> bool" where
  "spec_metadata_ok m =
     (Kind m = MappingNode
      \<and> (case lookup m ''name'' of
           None \<Rightarrow> False
         | Some n \<Rightarrow> Kind n = ScalarNode \<and> Value n \<noteq> [])
      \<and> (case lookup m ''namespace'' of
           None \<Rightarrow> True
         | Some n \<Rightarrow> Kind n = ScalarNode)
      \<and> (case lookup m ''labels'' of
           None \<Rightarrow> True
         | Some l \<Rightarrow> spec_labels_ok l))"

definition spec_os_ok :: "node \<Rightarrow> bool" where
  "spec_os_ok os =
     (if Kind os = ScalarNode then accepted_os_name (Value os)
      else Kind os = MappingNode
           \<and> (case lookup os ''name'' of
                None \<Rightarrow> False
              | Some n \<Rightarrow> Kind n = ScalarNode \<and> accepted_os_name (Value n)))"

definition spec_port_ok :: "node \<Rightarrow> bool" where
  "spec_port_ok e =
     (Kind e = MappingNode
      \<and> (case lookup e ''containerPort'' of
           None \<Rightarrow> False
         | Some cp \<Rightarrow> integer_in_range 1 65535 cp)
      \<and> (case lookup e ''protocol'' of
           None \<Rightarrow> True
         | Some pr \<Rightarrow> Kind pr = ScalarNode \<and> (Value pr = ''TCP'' \<or> Value pr = ''UDP'')))"

definition spec_ports_ok :: "node \<Rightarrow> bool" where
  "spec_ports_ok ps = (Kind ps = SequenceNode \<and> (\<forall>e \<in> set (Content ps). spec_port_ok e))"

text \<open>
  Resource quantities: \<open>cpu\<close> is an integer-kind scalar whose value, read from its decimal
  text, is not negative; \<open>memory\<close> is a scalar matching the rule of a quantity with a unit.
\<close>

definition spec_resource_ok :: "string list \<Rightarrow> node \<Rightarrow> bool" where
  "spec_resource_ok units r =
     (Kind r = MappingNode
      \<and> (case lookup r ''cpu'' of
           None \<Rightarrow> True
         | Some c \<Rightarrow>
             Kind c = ScalarNode \<and> Tag c = ''!!int''
             \<and> (case Atoi (Value c) of Inr v \<Rightarrow> 0 \<le> v | Inl err \<Rightarrow> False))
      \<and> (case lookup r ''memory'' of
           None \<Rightarrow> True
         | Some m \<Rightarrow> Kind m = ScalarNode \<and> quantity_with_unit units (Value m)))"

definition spec_resources_ok :: "string list \<Rightarrow> node \<Rightarrow> bool" where
  "spec_resources_ok units rs =
     (Kind rs = MappingNode
      \<and> (case lookup rs ''limits'' of None \<Rightarrow> True | Some l \<Rightarrow> spec_resource_ok units l)
      \<and> (case lookup rs ''requests'' of None \<Rightarrow> True | Some r \<Rightarrow> spec_resource_ok units r))"

definition spec_container_ok :: "string list \<Rightarrow> node \<Rightarrow> bool" where
  "spec_container_ok units c =
     (Kind c = MappingNode
      \<and> (case lookup c ''name'' of
           None \<Rightarrow> False
         | Some n \<Rightarrow> Kind n = ScalarNode \<and> match_name (Value n))
      \<and> (case lookup c ''image'' of
           None \<Rightarrow> False
         | Some i \<Rightarrow> Kind i = ScalarNode \<and> prefixed_tagged_reference image_prefix (Value i))
      \<and> (case lookup c ''ports'' of None \<Rightarrow> True | Some ps \<Rightarrow> spec_ports_ok ps)
      \<and> (case lookup c ''readinessProbe'' of None \<Rightarrow> True | Some p \<Rightarrow> spec_probe_ok p)
      \<and> (case lookup c ''livenessProbe'' of None \<Rightarrow> True | Some p \<Rightarrow> spec_probe_ok p)
      \<and> (case lookup c ''resources'' of
           None \<Rightarrow> False
         | Some rs \<Rightarrow> spec_resources_ok units rs))"

definition spec_spec_ok :: "string list \<Rightarrow> node \<Rightarrow> bool" where
  "spec_spec_ok units s =
     (Kind s = MappingNode
      \<and> (case lookup s ''os'' of None \<Rightarrow> True | Some os \<Rightarrow> spec_os_ok os)
      \<and> (case lookup s ''containers'' of
           None \<Rightarrow> False
         | Some cs \<Rightarrow>
             Kind cs = SequenceNode \<and> Content cs \<noteq> []
             \<and> (\<forall>c \<in> set (Content cs). spec_container_ok units c)))"

definition spec_document_ok :: "string list \<Rightarrow> node \<Rightarrow> bool" where
  "spec_document_ok units d =
     (Kind d = MappingNode
      \<and> (case lookup d ''apiVersion'' of None \<Rightarrow> False | Some n \<Rightarrow> spec_apiVersion_ok n)
      \<and> (case lookup d ''kind'' of None \<Rightarrow> False | Some n \<Rightarrow> spec_kind_ok n)
      \<and> (case lookup d ''metadata'' of None \<Rightarrow> False | Some m \<Rightarrow> spec_metadata_ok m)
      \<and> (case lookup d ''spec'' of None \<Rightarrow> False | Some s \<Rightarrow> spec_spec_ok units s))"

text \<open>The presence diagnostic of a required field, when the field is absent.\<close>

definition required_field :: "string \<Rightarrow> node \<Rightarrow> string \<Rightarrow> string list" where
  "required_field fn parent field =
     (if lookup parent field = None then [fn @ '': '' @ field @ '' is required''] else [])"

text \<open>
  A pod with one container, a port, a readiness probe and resources; the memory limit is
  the parameter.
\<close>

definition pod_example :: "string \<Rightarrow> node" where
  "pod_example mem =
     mapping 1
       [str ''apiVersion'' 1, str ''v1'' 1,
        str ''kind'' 2, str ''Pod'' 2,
        str ''metadata'' 3,
          mapping 4 [str ''name'' 4, str ''web'' 4,
                     str ''labels'' 5, mapping 6 [str ''app'' 6, str ''web'' 6]],
        str ''spec'' 7,
          mapping 8
            [str ''os'' 8, mapping 9 [str ''name'' 9, str ''linux'' 9],
             str ''containers'' 10,
               seq 11
                 [mapping 11
                    [str ''name'' 11, str ''web_server'' 11,
                     str ''image'' 12, str ''registry.bigbrother.io/web:1.0'' 12,
                     str ''ports'' 13,
                       seq 14 [mapping 14 [str ''containerPort'' 14, scalar ''!!int'' ''8080'' 14,
                                           str ''protocol'' 15, str ''TCP'' 15]],
                     str ''readinessProbe'' 16,
                       mapping 17
                         [str ''httpGet'' 17,
                            mapping 18 [str ''path'' 18, str ''/healthz'' 18,
                                        str ''port'' 19, scalar ''!!int'' ''8080'' 19]],
                     str ''resources'' 20,
                       mapping 21
                         [str ''limits'' 21,
                            mapping 22 [str ''cpu'' 22, scalar ''!!int'' ''2'' 22,
                                        str ''memory'' 23, str mem 23],
                          str ''requests'' 24,
                            mapping 25 [str ''cpu'' 25, scalar ''!!int'' ''1'' 25,
                                        str ''memory'' 26, str ''512Mi'' 26]]]]]]"

section \<open>Documents that are valid but for one field\<close>

text \<open>
  A required field is present and satisfies its rule; an optional one is absent or
  satisfies its rule. The predicates \<open>..._except\<close> say that a section satisfies the rules
  of all its fields other than the named one, with memory quantities in \<open>Ki\<close>, \<open>Mi\<close> or
  \<open>Gi\<close>; \<open>all_but\<close> says that every element of a sequence other than the one at the
  given position satisfies a rule.
\<close>

definition present_and :: "(node \<Rightarrow> bool) \<Rightarrow> node \<Rightarrow> string \<Rightarrow> bool" where
  "present_and rule parent key = (case lookup parent key of None \<Rightarrow> False | Some n \<Rightarrow> rule n)"

definition absent_or :: "(node \<Rightarrow> bool) \<Rightarrow> node \<Rightarrow> string \<Rightarrow> bool" where
  "absent_or rule parent key = (case lookup parent key of None \<Rightarrow> True | Some n \<Rightarrow> rule n)"

definition doc_except :: "string \<Rightarrow> node \<Rightarrow> bool" where
  "doc_except skip d =
     (Kind d = MappingNode
      \<and> (skip = ''apiVersion'' \<or> present_and spec_apiVersion_ok d ''apiVersion'')
      \<and> (skip = ''kind'' \<or> present_and spec_kind_ok d ''kind'')
      \<and> (skip = ''metadata'' \<or> present_and spec_metadata_ok d ''metadata'')
      \<and> (skip = ''spec'' \<or> present_and (spec_spec_ok [''Ki'', ''Mi'', ''Gi'']) d ''spec''))"

definition metadata_except_name :: "node \<Rightarrow> bool" where
  "metadata_except_name m =
     (Kind m = MappingNode
      \<and> absent_or (\<lambda>n. Kind n = ScalarNode) m ''namespace''
      \<and> absent_or spec_labels_ok m ''labels'')"

definition all_but :: "(node \<Rightarrow> bool) \<Rightarrow> node \<Rightarrow> nat \<Rightarrow> bool" where
  "all_but rule sq i =
     (Kind sq = SequenceNode \<and> i < length (Content sq)
      \<and> list_all rule (take i (Content sq)) \<and> list_all rule (drop (Suc i) (Content sq)))"

definition spec_except :: "string \<Rightarrow> node \<Rightarrow> bool" where
  "spec_except skip s =
     (Kind s = MappingNode
      \<and> (skip = ''os'' \<or> absent_or spec_os_ok s ''os'')
      \<and> (skip = ''containers''
          \<or> present_and (\<lambda>cs. Kind cs = SequenceNode \<and> Content cs \<noteq> []
                  \<and> (\<forall>c \<in> set (Content cs). spec_container_ok [''Ki'', ''Mi'', ''Gi''] c))
               s ''containers''))"

definition container_except :: "string \<Rightarrow> node \<Rightarrow> bool" where
  "container_except skip c =
     (Kind c = MappingNode
      \<and> (skip = ''name''
          \<or> present_and (\<lambda>n. Kind n = ScalarNode \<and> match_name (Value n)) c ''name'')
      \<and> (skip = ''image''
          \<or> present_and (\<lambda>i. Kind i = ScalarNode
                              \<and> prefixed_tagged_reference image_prefix (Value i)) c ''image'')
      \<and> (skip = ''ports'' \<or> absent_or spec_ports_ok c ''ports'')
      \<and> (skip = ''readinessProbe'' \<or> absent_or spec_probe_ok c ''readinessProbe'')
      \<and> (skip = ''livenessProbe'' \<or> absent_or spec_probe_ok c ''livenessProbe'')
      \<and> (skip = ''resources''
          \<or> present_and (spec_resources_ok [''Ki'', ''Mi'', ''Gi'']) c ''resources''))"

definition port_except_containerPort :: "node \<Rightarrow> bool" where
  "port_except_containerPort e =
     (Kind e = MappingNode
      \<and> absent_or (\<lambda>pr. Kind pr = ScalarNode \<and> (Value pr = ''TCP'' \<or> Value pr = ''UDP''))
           e ''protocol'')"

definition httpGet_except :: "string \<Rightarrow> node \<Rightarrow> bool" where
  "httpGet_except skip h =
     (Kind h = MappingNode
      \<and> (skip = ''path''
          \<or> present_and (\<lambda>pa. Kind pa = ScalarNode \<and> Value pa \<noteq> [] \<and> hd (Value pa) = CHR ''/'')
               h ''path'')
      \<and> (skip = ''port'' \<or> present_and (integer_in_range 1 65535) h ''port''))"

definition container_in_document :: "node \<Rightarrow> nat \<Rightarrow> node \<Rightarrow> bool" where
  "container_in_document d i c =
     (doc_except ''spec'' d
      \<and> (case lookup d ''spec'' of
           None \<Rightarrow> False
         | Some s \<Rightarrow>
             spec_except ''containers'' s
             \<and> (case lookup s ''containers'' of
                  None \<Rightarrow> False
                | Some cs \<Rightarrow>
                    all_but (spec_container_ok [''Ki'', ''Mi'', ''Gi'']) cs i
                    \<and> Content cs ! i = c)))"

definition pod_of :: "node list \<Rightarrow> node list \<Rightarrow> node" where
  "pod_of fields cfields =
     mapping 1
       (fields @
        [str ''spec'' 5,
           mapping 6 [str ''containers'' 6,
                      seq 7 [mapping 7 cfields]]])"

definition top_fields :: "node list" where
  "top_fields =
     [str ''apiVersion'' 1, str ''v1'' 1,
      str ''kind'' 2, str ''Pod'' 2,
      str ''metadata'' 3, mapping 4 [str ''name'' 4, str ''web'' 4]]"

definition container_fields :: "node list" where
  "container_fields =
     [str ''name'' 7, str ''web'' 7,
      str ''image'' 8, str ''registry.bigbrother.io/web:1.0'' 8,
      str ''resources'' 9, mapping 10 []]"

section \<open>What the inline validator asks beyond the rules\<close>

text \<open>
  The inline validator of \<open>main.go\<close> finds a field by the text of its key, whatever the
  kind of the key node; \<open>scalar_keys\<close> says that every key of every mapping is a scalar,
  so that both accessors find the same fields. It knows \<open>os\<close> as a bare scalar only, looks
  at the first colon of an image, and requires \<open>limits\<close> and \<open>requests\<close>, each with
  \<open>cpu\<close> and \<open>memory\<close>, in every \<open>resources\<close>.
\<close>

fun scalar_keys :: "node \<Rightarrow> bool" where
  "scalar_keys (Node k t v l cs) =
     ((k = MappingNode \<longrightarrow> (\<forall>(key, val) \<in> set (pairs_of cs). Kind key = ScalarNode))
      \<and> (\<forall>c \<in> set cs. scalar_keys c))"

definition resource_complete :: "node \<Rightarrow> bool" where
  "resource_complete r = (lookup r ''cpu'' \<noteq> None \<and> lookup r ''memory'' \<noteq> None)"

definition inline_container_extra :: "node \<Rightarrow> bool" where
  "inline_container_extra c =
     (present_and (\<lambda>i. \<not> HasPrefix (drop (length image_prefix) (Value i)) '':'') c ''image''
      \<and> present_and (\<lambda>rs. present_and resource_complete rs ''limits''
                         \<and> present_and resource_complete rs ''requests'') c ''resources'')"

definition inline_extra :: "node \<Rightarrow> bool" where
  "inline_extra d =
     (scalar_keys d
      \<and> present_and
           (\<lambda>s. absent_or (\<lambda>os. Kind os = ScalarNode) s ''os''
                \<and> present_and (\<lambda>cs. \<forall>c \<in> set (Content cs). inline_container_extra c)
                     s ''containers'')
           d ''spec'')"

section \<open>Basic facts\<close>

lemma and_then_Inr [simp]: "and_then (Inr x) f = f x"
  by (simp add: and_then_def)

lemma and_then_Inl [simp]: "and_then (Inl e) f = Inl e"
  by (simp add: and_then_def)

lemma getMappingValue_loop_even:
  "even (length cs) \<Longrightarrow> getMappingValue_loop cs key = Inr (lookup_pairs cs key)"
  by (induction cs key rule: getMappingValue_loop.induct) auto

lemma findMapKey_loop_even:
  "even (length cs) \<Longrightarrow> findMapKey_loop cs key = Inr (find_pairs cs key)"
  by (induction cs key rule: findMapKey_loop.induct) auto

lemma wf_node_even: "wf_node n \<Longrightarrow> Kind n = MappingNode \<Longrightarrow> even (length (Content n))"
  by (cases n) simp

lemma wf_node_child: "wf_node n \<Longrightarrow> c \<in> set (Content n) \<Longrightarrow> wf_node c"
  by (cases n) simp

lemma getMappingValue_wf:
  "wf_node n \<Longrightarrow> getMappingValue (Some n) key = Inr (lookup n key)"
  by (simp add: getMappingValue_def lookup_def getMappingValue_loop_even wf_node_even)

lemma findMapKey_wf:
  "wf_node n \<Longrightarrow> findMapKey (Some n) key = Inr (find_pair n key)"
  by (simp add: findMapKey_def find_pair_def findMapKey_loop_even wf_node_even)

lemma lookup_pairs_mem: "lookup_pairs cs key = Some v \<Longrightarrow> v \<in> set cs"
  by (induction cs key rule: lookup_pairs.induct) (auto split: if_splits)


lemma lookup_wf: "wf_node n \<Longrightarrow> lookup n key = Some v \<Longrightarrow> wf_node v"
  by (auto simp: lookup_def split: if_splits dest!: lookup_pairs_mem intro: wf_node_child)


lemma validateMappingField_wf:
  "wf_node n \<Longrightarrow> validateMappingField (Some n) field required errors filename =
     Inr (lookup n field,
          if lookup n field = None \<and> required
          then errors @ [filename @ '': '' @ field @ '' is required''] else errors)"
  by (simp add: validateMappingField_def getMappingValue_wf)

lemmas Atoi_eval = Atoi_def is_digit_def decimal_def digit_val_def

lemmas line_eval = at_line_def fmt_d_def fmt_nat.simps digit_char_def addError_def quoted_def

lemmas node_eval = scalar_def str_def mapping_def seq_def lookup_def find_pair_def

lemma Atoi_0: "Atoi ''0'' = Inr 0"
  by (simp add: Atoi_eval)

lemma Atoi_1: "Atoi ''1'' = Inr 1"
  by (simp add: Atoi_eval)

lemma Atoi_65535: "Atoi ''65535'' = Inr 65535"
  by (simp add: Atoi_eval)

lemma Atoi_65536: "Atoi ''65536'' = Inr 65536"
  by (simp add: Atoi_eval)

section \<open>Ports\<close>

lemma validatePorts_entry_wf:
  "wf_node e \<Longrightarrow> Kind e = MappingNode \<Longrightarrow>
   validatePorts_entry fn e errs =
     Inr (check_protocol (lookup e ''protocol'')
            (check_containerPort (lookup e ''containerPort'')
               (if lookup e ''containerPort'' = None
                then errs @ [fn @ '': containerPort is required''] else errs) fn) fn)"
  by (simp add: validatePorts_entry_def validateMappingField_wf getMappingValue_wf)

lemma inline_containerPort_wf:
  "wf_node e \<Longrightarrow> find_pair e ''containerPort'' = Some (k, cp) \<Longrightarrow>
   inline_containerPort fn e errs =
     Inr ((if Tag cp \<noteq> ''!!int'' \<and> (\<exists>err. Atoi (Value cp) = Inl err)
           then errs @ [at_line fn (Line cp) ''containerPort must be an integer between 1 and 65535'']
           else errs)
          @ (case Atoi (Value cp) of
               Inr portNum \<Rightarrow>
                 if portNum < 1 \<or> portNum > 65535
                 then [at_line fn (Line cp) ''containerPort must be between 1 and 65535'']
                 else []
             | Inl err \<Rightarrow> []))"
  by (auto simp: inline_containerPort_def findMapKey_wf addError_def split: sum.splits)

lemma Atoi_plus_0: "Atoi ''+0'' = Inr 0"
  by code_simp

lemma Atoi_minus_1: "Atoi ''-1'' = Inr (- 1)"
  by code_simp

lemma Atoi_0x10000: "Atoi ''0x10000'' = Inl ErrSyntax"
  by code_simp

text \<open>
  C8, as stated, fails on both builds. A port written \<open>containerPort: 0x10000\<close> is an
  integer-kind scalar: the parser resolves the hexadecimal literal to the integer 65536,
  tags the node \<open>!!int\<close> and keeps the text \<open>0x10000\<close>. Both validators read the value
  from the text with \<open>strconv.Atoi\<close>, which knows decimal digits only, and skip the range
  check when it fails, so the values 65536 and 0 written this way get no diagnostic.
\<close>

theorem hexadecimal_port_not_range_checked:
  "validatePorts_entry ''pod.yaml''
     (mapping 9 [str ''containerPort'' 9, scalar ''!!int'' ''0x10000'' 9]) [] = Inr []
   \<and> inline_containerPort ''pod.yaml''
       (mapping 9 [str ''containerPort'' 9, scalar ''!!int'' ''0x10000'' 9]) [] = Inr []
   \<and> validatePorts_entry ''pod.yaml''
       (mapping 9 [str ''containerPort'' 9, scalar ''!!int'' ''0x0'' 9]) [] = Inr []
   \<and> inline_containerPort ''pod.yaml''
       (mapping 9 [str ''containerPort'' 9, scalar ''!!int'' ''0x0'' 9]) [] = Inr []"
  by code_simp

text \<open>
  C8, amended. A port entry whose \<open>containerPort\<close> is an integer-kind scalar gets
  exactly one out-of-range diagnostic for the field when \<open>strconv.Atoi\<close> converts its
  text to a value below 1 or above 65535, none when the text converts to a value from 1 to
  65535, and none when the text does not convert. The texts \<open>0\<close> and \<open>65536\<close> convert
  to values out of the range, the texts \<open>1\<close> and \<open>65535\<close> to values in it. This holds
  for the loop body of \<open>validatePorts\<close> (where the diagnostics of \<open>protocol\<close> follow
  those of \<open>containerPort\<close>) and for the inline check of \<open>main.go\<close>.
\<close>

theorem containerPort_range_boundaries:
  assumes "wf_node e" and "Kind e = MappingNode"
    and "Kind cp = ScalarNode" and "Tag cp = ''!!int''"
  shows "(lookup e ''containerPort'' = Some cp \<longrightarrow>
            (\<forall>v. Atoi (Value cp) = Inr v \<and> (v < 1 \<or> 65535 < v) \<longrightarrow>
               validatePorts_entry fn e errs =
                 Inr (check_protocol (lookup e ''protocol'')
                        (errs @ [at_line fn (Line cp) ''containerPort value out of range'']) fn))
          \<and> (\<forall>v. Atoi (Value cp) = Inr v \<and> 1 \<le> v \<and> v \<le> 65535 \<longrightarrow>
               validatePorts_entry fn e errs =
                 Inr (check_protocol (lookup e ''protocol'') errs fn))
          \<and> ((\<exists>err. Atoi (Value cp) = Inl err) \<longrightarrow>
               validatePorts_entry fn e errs =
                 Inr (check_protocol (lookup e ''protocol'') errs fn)))
       \<and> (find_pair e ''containerPort'' = Some (k, cp) \<longrightarrow>
            (\<forall>v. Atoi (Value cp) = Inr v \<and> (v < 1 \<or> 65535 < v) \<longrightarrow>
               inline_containerPort fn e errs =
                 Inr (errs @ [at_line fn (Line cp) ''containerPort must be between 1 and 65535'']))
          \<and> (\<forall>v. Atoi (Value cp) = Inr v \<and> 1 \<le> v \<and> v \<le> 65535 \<longrightarrow>
               inline_containerPort fn e errs = Inr errs)
          \<and> ((\<exists>err. Atoi (Value cp) = Inl err) \<longrightarrow> inline_containerPort fn e errs = Inr errs))
       \<and> Atoi ''0'' = Inr 0 \<and> Atoi ''65536'' = Inr 65536
       \<and> Atoi ''1'' = Inr 1 \<and> Atoi ''65535'' = Inr 65535"
  using assms
  by (auto simp: validatePorts_entry_wf inline_containerPort_wf check_containerPort_def
        Atoi_0 Atoi_1 Atoi_65535 Atoi_65536)

theorem containerPort_range_boundaries_witness:
  "validatePorts_entry ''pod.yaml''
     (mapping 9 [str ''containerPort'' 9, scalar ''!!int'' ''65536'' 9]) []
     = Inr [''pod.yaml:9 containerPort value out of range'']
   \<and> validatePorts_entry ''pod.yaml''
     (mapping 9 [str ''containerPort'' 9, scalar ''!!int'' ''1'' 9]) []
     = Inr []
   \<and> validatePorts_entry ''pod.yaml''
     (mapping 9 [str ''containerPort'' 9, scalar ''!!int'' ''+0'' 9]) []
     = Inr [''pod.yaml:9 containerPort value out of range'']
   \<and> validatePorts_entry ''pod.yaml''
     (mapping 9 [str ''containerPort'' 9, scalar ''!!int'' ''0x10000'' 9]) []
     = Inr []
   \<and> inline_containerPort ''pod.yaml''
     (mapping 9 [str ''containerPort'' 9, scalar ''!!int'' ''0'' 9]) []
     = Inr [''pod.yaml:9 containerPort must be between 1 and 65535'']
   \<and> inline_containerPort ''pod.yaml''
     (mapping 9 [str ''containerPort'' 9, scalar ''!!int'' ''65535'' 9]) []
     = Inr []
   \<and> inline_containerPort ''pod.yaml''
     (mapping 9 [str ''containerPort'' 9, scalar ''!!int'' ''-1'' 9]) []
     = Inr [''pod.yaml:9 containerPort must be between 1 and 65535'']
   \<and> inline_containerPort ''pod.yaml''
     (mapping 9 [str ''containerPort'' 9, scalar ''!!int'' ''0x10000'' 9]) []
     = Inr []"
  using
    containerPort_range_boundaries [of "mapping 9 [str ''containerPort'' 9, scalar ''!!int'' ''65536'' 9]"
      "scalar ''!!int'' ''65536'' 9" "''pod.yaml''" "[]" "str ''containerPort'' 9"]
    containerPort_range_boundaries [of "mapping 9 [str ''containerPort'' 9, scalar ''!!int'' ''1'' 9]"
      "scalar ''!!int'' ''1'' 9" "''pod.yaml''" "[]" "str ''containerPort'' 9"]
    containerPort_range_boundaries [of "mapping 9 [str ''containerPort'' 9, scalar ''!!int'' ''+0'' 9]"
      "scalar ''!!int'' ''+0'' 9" "''pod.yaml''" "[]" "str ''containerPort'' 9"]
    containerPort_range_boundaries [of "mapping 9 [str ''containerPort'' 9, scalar ''!!int'' ''0x10000'' 9]"
      "scalar ''!!int'' ''0x10000'' 9" "''pod.yaml''" "[]" "str ''containerPort'' 9"]
    containerPort_range_boundaries [of "mapping 9 [str ''containerPort'' 9, scalar ''!!int'' ''0'' 9]"
      "scalar ''!!int'' ''0'' 9" "''pod.yaml''" "[]" "str ''containerPort'' 9"]
    containerPort_range_boundaries [of "mapping 9 [str ''containerPort'' 9, scalar ''!!int'' ''65535'' 9]"
      "scalar ''!!int'' ''65535'' 9" "''pod.yaml''" "[]" "str ''containerPort'' 9"]
    containerPort_range_boundaries [of "mapping 9 [str ''containerPort'' 9, scalar ''!!int'' ''-1'' 9]"
      "scalar ''!!int'' ''-1'' 9" "''pod.yaml''" "[]" "str ''containerPort'' 9"]
  by (simp add: node_eval line_eval check_protocol_def Atoi_0 Atoi_1 Atoi_65535 Atoi_65536
        Atoi_plus_0 Atoi_minus_1 Atoi_0x10000)


lemma validateProbe_wf:
  "wf_node p \<Longrightarrow> Kind p = MappingNode \<Longrightarrow> lookup p ''httpGet'' = Some h \<Longrightarrow> Kind h = MappingNode \<Longrightarrow>
   validateProbe p name errs fn =
     Inr (check_probe_port (lookup h ''port'')
            (check_probe_path (lookup h ''path'')
               ((if lookup h ''path'' = None then errs @ [fn @ '': path is required''] else errs)
                @ (if lookup h ''port'' = None then [fn @ '': port is required''] else [])) fn) fn)"
  by (frule (1) lookup_wf) (simp add: validateProbe_def validateMappingField_wf getMappingValue_wf)

lemma inline_probe_port_wf:
  "wf_node h \<Longrightarrow> find_pair h ''port'' = Some (k, cp) \<Longrightarrow>
   inline_probe_port fn name h errs =
     Inr ((if Tag cp \<noteq> ''!!int'' \<and> (\<exists>err. Atoi (Value cp) = Inl err)
           then errs @ [at_line fn (Line cp) (name @ ''.httpGet.port must be an integer between 1 and 65535'')]
           else errs)
          @ (case Atoi (Value cp) of
               Inr pNum \<Rightarrow>
                 if pNum < 1 \<or> pNum > 65535
                 then [at_line fn (Line cp) (name @ ''.httpGet.port must be between 1 and 65535'')]
                 else []
             | Inl err \<Rightarrow> []))"
  by (auto simp: inline_probe_port_def findMapKey_wf addError_def split: sum.splits)

lemma spot_httpGet_loop_even:
  "even (length cs) \<Longrightarrow>
   spot_httpGet_loop fn cs errs = Inr (foldl (\<lambda>e (k, v). spot_port fn k v e) errs (pairs_of cs))"
  by (induction fn cs errs rule: spot_httpGet_loop.induct) auto

lemma spot_port_skip: "Atoi (Value v) = Inl err \<Longrightarrow> spot_port fn k v errs = errs"
  by (simp add: spot_port_def Let_def)

lemma spot_ports_skip:
  "\<forall>(k, v) \<in> set ps. Value k = ''port'' \<longrightarrow> (\<exists>err. Atoi (Value v) = Inl err) \<Longrightarrow>
   foldl (\<lambda>e (k, v). spot_port fn k v e) errs ps = errs"
  by (induction ps arbitrary: errs) (auto simp: spot_port_def Let_def)

lemma pairs_of_mem: "(k, v) \<in> set (pairs_of cs) \<Longrightarrow> k \<in> set cs \<and> v \<in> set cs"
  by (induction cs rule: pairs_of.induct) auto

lemma spot_probe_loop_skip:
  "even (length cs) \<Longrightarrow> \<forall>c \<in> set cs. wf_node c \<Longrightarrow>
   \<forall>(key, h) \<in> set (pairs_of cs). \<forall>(k, v) \<in> set (pairs_of (Content h)).
       Value k = ''port'' \<longrightarrow> (\<exists>err. Atoi (Value v) = Inl err) \<Longrightarrow>
   spot_probe_loop fn cs errs = Inr errs"
proof (induction fn cs errs rule: spot_probe_loop.induct)
  case (3 fn keyNode valNode rest errs)
  have "Kind valNode = MappingNode \<Longrightarrow> spot_httpGet_loop fn (Content valNode) errs = Inr errs"
    using 3(2,3,4) by (simp add: spot_httpGet_loop_even wf_node_even spot_ports_skip)
  moreover have "spot_probe_loop fn rest errs = Inr errs"
    using 3 by simp
  ultimately show ?case by simp
qed simp_all

text \<open>
  C10. When the text of a port does not convert to an integer (\<open>strconv.Atoi\<close> fails),
  no out-of-range diagnostic is added for it. In \<open>validatePorts\<close> and \<open>validateProbe\<close>
  an integer-kind scalar then gets no diagnostic at all and any other node gets the
  must-be-int diagnostic; in \<open>main.go\<close> an integer-kind value gets nothing and any other
  gets the format diagnostic; in the checker of three fields a probe whose ports all fail to
  convert (a named port such as \<open>http\<close>) gets nothing.
\<close>

theorem failed_conversion_skips_range_check:
  assumes "Atoi (Value cp) = Inl err"
  shows "(wf_node e \<and> Kind e = MappingNode \<and> lookup e ''containerPort'' = Some cp \<longrightarrow>
            validatePorts_entry fn e errs =
              Inr (check_protocol (lookup e ''protocol'')
                     (if Kind cp = ScalarNode \<and> Tag cp = ''!!int'' then errs
                      else errs @ [at_line fn (Line cp) ''containerPort must be int'']) fn))
       \<and> (wf_node p \<and> Kind p = MappingNode \<and> lookup p ''httpGet'' = Some h \<and> Kind h = MappingNode
            \<and> lookup h ''port'' = Some cp \<longrightarrow>
            validateProbe p name errs fn =
              Inr (let errs1 = check_probe_path (lookup h ''path'')
                                 (if lookup h ''path'' = None
                                  then errs @ [fn @ '': path is required''] else errs) fn
                   in if Kind cp = ScalarNode \<and> Tag cp = ''!!int'' then errs1
                      else errs1 @ [at_line fn (Line cp) ''port must be int'']))
       \<and> (wf_node e \<and> find_pair e ''containerPort'' = Some (k, cp) \<longrightarrow>
            inline_containerPort fn e errs =
              Inr (if Tag cp = ''!!int'' then errs
                   else errs @ [at_line fn (Line cp)
                                  ''containerPort must be an integer between 1 and 65535'']))
       \<and> (wf_node h \<and> find_pair h ''port'' = Some (k, cp) \<longrightarrow>
            inline_probe_port fn name h errs =
              Inr (if Tag cp = ''!!int'' then errs
                   else errs @ [at_line fn (Line cp)
                                  (name @ ''.httpGet.port must be an integer between 1 and 65535'')]))
       \<and> spot_port fn k cp errs = errs
       \<and> (wf_node q
            \<and> (\<forall>(key, g) \<in> set (pairs_of (Content q)). \<forall>(k, v) \<in> set (pairs_of (Content g)).
                   Value k = ''port'' \<longrightarrow> (\<exists>err. Atoi (Value v) = Inl err)) \<longrightarrow>
            validateProbe_spot fn errs (Some q) = Inr errs)"
proof -
  have "wf_node q \<Longrightarrow> Kind q = MappingNode \<Longrightarrow>
        (\<forall>(key, g) \<in> set (pairs_of (Content q)). \<forall>(k, v) \<in> set (pairs_of (Content g)).
           Value k = ''port'' \<longrightarrow> (\<exists>err. Atoi (Value v) = Inl err)) \<Longrightarrow>
        spot_probe_loop fn (Content q) errs = Inr errs"
    by (rule spot_probe_loop_skip) (auto simp: wf_node_even wf_node_child)
  then have "wf_node q
            \<and> (\<forall>(key, g) \<in> set (pairs_of (Content q)). \<forall>(k, v) \<in> set (pairs_of (Content g)).
                   Value k = ''port'' \<longrightarrow> (\<exists>err. Atoi (Value v) = Inl err)) \<longrightarrow>
            validateProbe_spot fn errs (Some q) = Inr errs"
    by (simp add: validateProbe_spot_def)
  moreover have "spot_port fn k cp errs = errs"
    using assms by (rule spot_port_skip)
  ultimately show ?thesis
    using assms
    by (simp add: validatePorts_entry_wf validateProbe_wf inline_containerPort_wf inline_probe_port_wf
        check_containerPort_def check_probe_port_def Let_def)
qed

lemma Atoi_overflow: "Atoi ''18446744073709551615'' = Inl ErrRange"
  by (simp add: Atoi_eval)

lemma Atoi_http: "Atoi ''http'' = Inl ErrSyntax"
  by (simp add: Atoi_eval)

theorem failed_conversion_skips_range_check_witness:
  "validatePorts_entry ''pod.yaml''
     (mapping 9 [str ''containerPort'' 9, scalar ''!!int'' ''18446744073709551615'' 9]) [] = Inr []
   \<and> validateProbe
       (mapping 12 [str ''httpGet'' 12,
          mapping 13 [str ''path'' 13, str ''/healthz'' 13,
                      str ''port'' 14, scalar ''!!int'' ''18446744073709551615'' 14]])
       ''readinessProbe'' [] ''pod.yaml'' = Inr []
   \<and> inline_containerPort ''pod.yaml''
       (mapping 9 [str ''containerPort'' 9, scalar ''!!int'' ''18446744073709551615'' 9]) [] = Inr []
   \<and> inline_probe_port ''pod.yaml'' ''readinessProbe''
       (mapping 13 [str ''port'' 14, scalar ''!!int'' ''18446744073709551615'' 14]) [] = Inr []
   \<and> spot_port ''pod.yaml'' (str ''port'' 14) (str ''http'' 14) [] = []
   \<and> validateProbe_spot ''pod.yaml'' []
       (Some (mapping 12 [str ''httpGet'' 12,
          mapping 13 [str ''path'' 13, str ''/healthz'' 13, str ''port'' 14, str ''http'' 14]]))
       = Inr []"
  using
    failed_conversion_skips_range_check [where cp = "scalar ''!!int'' ''18446744073709551615'' 9"
      and err = ErrRange and fn = "''pod.yaml''" and errs = "[]" and k = "str ''containerPort'' 9"
      and e = "mapping 9 [str ''containerPort'' 9, scalar ''!!int'' ''18446744073709551615'' 9]"]
    failed_conversion_skips_range_check [where cp = "scalar ''!!int'' ''18446744073709551615'' 14"
      and err = ErrRange and fn = "''pod.yaml''" and errs = "[]" and k = "str ''port'' 14"
      and name = "''readinessProbe''"
      and h = "mapping 13 [str ''path'' 13, str ''/healthz'' 13,
                      str ''port'' 14, scalar ''!!int'' ''18446744073709551615'' 14]"
      and p = "mapping 12 [str ''httpGet'' 12,
          mapping 13 [str ''path'' 13, str ''/healthz'' 13,
                      str ''port'' 14, scalar ''!!int'' ''18446744073709551615'' 14]]"]
    failed_conversion_skips_range_check [where cp = "scalar ''!!int'' ''18446744073709551615'' 14"
      and err = ErrRange and fn = "''pod.yaml''" and errs = "[]" and k = "str ''port'' 14"
      and name = "''readinessProbe''"
      and h = "mapping 13 [str ''port'' 14, scalar ''!!int'' ''18446744073709551615'' 14]"]
    failed_conversion_skips_range_check [where cp = "str ''http'' 14"
      and err = ErrSyntax and fn = "''pod.yaml''" and errs = "[]" and k = "str ''port'' 14"
      and q = "mapping 12 [str ''httpGet'' 12,
          mapping 13 [str ''path'' 13, str ''/healthz'' 13, str ''port'' 14, str ''http'' 14]]"]
  by (simp add: node_eval Atoi_overflow Atoi_http check_protocol_def check_probe_path_def HasPrefix_def)





section \<open>Image references and memory quantities\<close>

lemma colon_index_from_eq:
  "colon_index_from i rest =
     (if CHR '':'' \<in> set rest then i + int (length (takeWhile (\<lambda>c. c \<noteq> CHR '':'') rest)) else - 1)"
  by (induction rest arbitrary: i) auto

lemma containsColonAfterPrefix_eq:
  "containsColonAfterPrefix s prefix = first_colon_inside (drop (length prefix) s)"
proof (cases "length s \<le> length prefix")
  case True
  then show ?thesis by (simp add: containsColonAfterPrefix_def first_colon_inside_def)
next
  case False
  define rest where "rest = drop (length prefix) s"
  define before where "before = takeWhile (\<lambda>c. c \<noteq> CHR '':'') rest"
  have len: "length before \<le> length rest"
    unfolding before_def by (rule length_takeWhile_le)
  have "length before + length (dropWhile (\<lambda>c. c \<noteq> CHR '':'') rest) = length rest"
    unfolding before_def by (metis length_append takeWhile_dropWhile_id)
  moreover have "CHR '':'' \<in> set rest \<Longrightarrow> dropWhile (\<lambda>c. c \<noteq> CHR '':'') rest \<noteq> []"
    by auto
  ultimately have mem: "CHR '':'' \<in> set rest \<Longrightarrow> length before < length rest"
    by (cases "dropWhile (\<lambda>c. c \<noteq> CHR '':'') rest") auto
  have "containsColonAfterPrefix s prefix
        = (CHR '':'' \<in> set rest \<and> 0 < length before \<and> int (length before) \<noteq> int (length rest) - 1)"
    using False
    by (auto simp: containsColonAfterPrefix_def Let_def colon_index_from_eq rest_def before_def)
  also have "\<dots> = (CHR '':'' \<in> set rest \<and> before \<noteq> [] \<and> drop (length before + 1) rest \<noteq> [])"
    using mem by auto
  finally show ?thesis
    by (simp add: first_colon_inside_def Let_def rest_def before_def)
qed


lemma HasPrefix_length: "HasPrefix s p \<Longrightarrow> length p \<le> length s"
  unfolding HasPrefix_def by (metis length_take min.cobounded1)

lemma check_image_eq:
  "check_image (Some n) errs fn =
     (if Kind n = ScalarNode \<and> HasPrefix (Value n) image_prefix
         \<and> CHR '':'' \<in> set (drop (length image_prefix) (Value n))
      then errs
      else errs @ [at_line fn (Line n)
                     (if Kind n \<noteq> ScalarNode then ''image must be string''
                      else ''image has invalid format '' @ quoted (Value n))])"
proof -
  have "CHR '':'' \<in> set (drop (length image_prefix) (Value n)) \<Longrightarrow>
        length image_prefix < length (Value n)"
    by (cases "length image_prefix < length (Value n)") auto
  then show ?thesis
    by (auto simp: check_image_def Let_def ContainsColon_def)
qed

lemma inline_image_eq:
  assumes "wf_node c" and "find_pair c ''image'' = Some (k, v)"
  shows "inline_image fn c errs =
     Inr (if Value v = [] then errs @ [at_line fn (Line k) ''image is required'']
          else if HasPrefix (Value v) image_prefix
                  \<and> first_colon_inside (drop (length image_prefix) (Value v))
          then errs
          else errs @ [at_line fn (Line v)
                         (''image must start with '' @ quoted image_prefix
                            @ '' and contain a tag (use '' @ quoted '':'' @ '')'')])"
proof -
  have "(length (Value v) < length image_prefix
         \<or> take (length image_prefix) (Value v) \<noteq> image_prefix) = (\<not> HasPrefix (Value v) image_prefix)"
    using HasPrefix_length [of "Value v" image_prefix] by (auto simp: HasPrefix_def)
  then show ?thesis
    using assms
    by (auto simp: inline_image_def findMapKey_wf addError_def line_of_key_def
          containsColonAfterPrefix_eq)
qed

text \<open>
  C5, as stated, fails on both builds. In \<open>main.go\<close> only the first colon of the
  remainder is looked at, so \<open>:a:b\<close> after the prefix is refused although its second
  colon has text on both sides. In \<open>validateContainer\<close> any colon in the remainder is
  enough, so \<open>app:\<close> after the prefix passes although nothing follows the colon.
\<close>

theorem image_rule_differs:
  "prefixed_tagged_reference image_prefix ''registry.bigbrother.io/:a:b''
   \<and> inline_image ''pod.yaml''
       (mapping 5 [str ''name'' 5, str ''web'' 5,
                   str ''image'' 6, str ''registry.bigbrother.io/:a:b'' 6]) []
       \<noteq> Inr []
   \<and> \<not> prefixed_tagged_reference image_prefix ''registry.bigbrother.io/app:''
   \<and> check_image (Some (str ''registry.bigbrother.io/app:'' 6)) [] ''pod.yaml'' = []"
proof -
  have "(''registry.bigbrother.io/:a:b'' :: string) ! 25 = CHR '':''"
    by simp
  then have "\<exists>i\<in>{1..<length (drop (length image_prefix) ''registry.bigbrother.io/:a:b'') - 1}.
               drop (length image_prefix) ''registry.bigbrother.io/:a:b'' ! i = CHR '':''"
    by (intro bexI [of _ 2]) (simp_all add: image_prefix_def)
  then have "prefixed_tagged_reference image_prefix ''registry.bigbrother.io/:a:b''"
    by (simp add: prefixed_tagged_reference_def image_prefix_def)
  moreover have "inline_image ''pod.yaml''
       (mapping 5 [str ''name'' 5, str ''web'' 5,
                   str ''image'' 6, str ''registry.bigbrother.io/:a:b'' 6]) [] \<noteq> Inr []"
    by (simp add: inline_image_def findMapKey_def node_eval image_prefix_def
          containsColonAfterPrefix_def addError_def)
  moreover have "\<not> prefixed_tagged_reference image_prefix ''registry.bigbrother.io/app:''"
    by (simp add: prefixed_tagged_reference_def image_prefix_def atLeastLessThan_def
          nth_Cons')
  moreover have "check_image (Some (str ''registry.bigbrother.io/app:'' 6)) [] ''pod.yaml'' = []"
    by (simp add: check_image_def node_eval image_prefix_def HasPrefix_def ContainsColon_def)
  ultimately show ?thesis by blast
qed


text \<open>
  C5, amended. In \<open>validateContainer\<close> the image passes exactly when it is a scalar that
  starts with the prefix \<open>registry.bigbrother.io/\<close> and has a colon anywhere after the
  prefix; otherwise one diagnostic is added. In \<open>main.go\<close> a non-empty image passes
  exactly when it starts with the prefix and the first colon after the prefix is neither the
  first nor the last character of the remainder; otherwise one diagnostic is added.
\<close>

theorem image_format_rules:
  "check_image (Some n) errs fn =
     (if Kind n = ScalarNode \<and> HasPrefix (Value n) image_prefix
         \<and> CHR '':'' \<in> set (drop (length image_prefix) (Value n))
      then errs
      else errs @ [at_line fn (Line n)
                     (if Kind n \<noteq> ScalarNode then ''image must be string''
                      else ''image has invalid format '' @ quoted (Value n))])
   \<and> (wf_node c \<and> find_pair c ''image'' = Some (k, v) \<longrightarrow>
        inline_image fn c errs =
          Inr (if Value v = [] then errs @ [at_line fn (Line k) ''image is required'']
               else if HasPrefix (Value v) image_prefix
                       \<and> first_colon_inside (drop (length image_prefix) (Value v))
               then errs
               else errs @ [at_line fn (Line v)
                              (''image must start with '' @ quoted image_prefix
                                 @ '' and contain a tag (use '' @ quoted '':'' @ '')'')]))"
  using check_image_eq [of n errs fn] inline_image_eq [of c k v fn errs] by simp

theorem image_format_rules_witness:
  "check_image (Some (str ''registry.bigbrother.io/app:latest'' 6)) [] ''pod.yaml'' = []
   \<and> check_image (Some (str ''registry.bigbrother.io/app'' 6)) [] ''pod.yaml'' \<noteq> []
   \<and> check_image (Some (str ''other.io/app:latest'' 6)) [] ''pod.yaml'' \<noteq> []
   \<and> inline_image ''pod.yaml''
        (mapping 5 [str ''image'' 6, str ''registry.bigbrother.io/app:latest'' 6]) [] = Inr []
   \<and> inline_image ''pod.yaml''
        (mapping 5 [str ''image'' 6, str ''registry.bigbrother.io/app'' 6]) [] \<noteq> Inr []
   \<and> inline_image ''pod.yaml''
        (mapping 5 [str ''image'' 6, str ''other.io/app:latest'' 6]) [] \<noteq> Inr []
   \<and> inline_image ''pod.yaml''
        (mapping 5 [str ''image'' 6, str ''registry.bigbrother.io/a:b:'' 6]) [] = Inr []"
  using
    image_format_rules [where n = "str ''registry.bigbrother.io/app:latest'' 6" and errs = "[]"
      and fn = "''pod.yaml''" and k = "str ''image'' 6" and v = "str ''registry.bigbrother.io/app:latest'' 6"
      and c = "mapping 5 [str ''image'' 6, str ''registry.bigbrother.io/app:latest'' 6]"]
    image_format_rules [where n = "str ''registry.bigbrother.io/app'' 6" and errs = "[]"
      and fn = "''pod.yaml''" and k = "str ''image'' 6" and v = "str ''registry.bigbrother.io/app'' 6"
      and c = "mapping 5 [str ''image'' 6, str ''registry.bigbrother.io/app'' 6]"]
    image_format_rules [where n = "str ''other.io/app:latest'' 6" and errs = "[]"
      and fn = "''pod.yaml''" and k = "str ''image'' 6" and v = "str ''other.io/app:latest'' 6"
      and c = "mapping 5 [str ''image'' 6, str ''other.io/app:latest'' 6]"]
    image_format_rules [where n = "str ''registry.bigbrother.io/a:b:'' 6" and errs = "[]"
      and fn = "''pod.yaml''" and k = "str ''image'' 6" and v = "str ''registry.bigbrother.io/a:b:'' 6"
      and c = "mapping 5 [str ''image'' 6, str ''registry.bigbrother.io/a:b:'' 6]"]
  by (simp add: node_eval image_prefix_def HasPrefix_def first_colon_inside_def)

lemma match_quantity_eq:
  assumes "\<forall>u \<in> set units. u = [] \<or> \<not> is_digit (hd u)"
  shows "match_quantity units s = quantity_with_unit units s"
proof
  assume m: "match_quantity units s"
  define n where "n = length (takeWhile is_digit s)"
  have "n \<le> length s"
    unfolding n_def by (rule length_takeWhile_le)
  moreover have "1 \<le> n"
    using m by (cases "takeWhile is_digit s") (auto simp: match_quantity_def n_def)
  ultimately have "n \<in> {1 .. length s}"
    by simp
  moreover have "take n s = takeWhile is_digit s"
    by (simp add: n_def takeWhile_eq_take [symmetric])
  moreover have "drop n s = dropWhile is_digit s"
    by (simp add: n_def dropWhile_eq_drop [symmetric])
  ultimately have "n \<in> {1 .. length s}
      \<and> (\<forall>c \<in> set (take n s). is_digit c) \<and> drop n s \<in> set units"
    using m by (auto simp: match_quantity_def dest: set_takeWhileD)
  then show "quantity_with_unit units s"
    unfolding quantity_with_unit_def by blast
next
  assume "quantity_with_unit units s"
  then obtain n where n: "1 \<le> n" "n \<le> length s" "\<forall>c \<in> set (take n s). is_digit c"
      "drop n s \<in> set units"
    by (auto simp: quantity_with_unit_def)
  have tl: "takeWhile is_digit (drop n s) = []" "dropWhile is_digit (drop n s) = drop n s"
    using assms n(4) by (cases "drop n s"; force)+
  have "s = take n s @ drop n s" by simp
  then have "takeWhile is_digit s = take n s @ takeWhile is_digit (drop n s)"
    and "dropWhile is_digit s = dropWhile is_digit (drop n s)"
    using n(3) by (metis takeWhile_append2, metis dropWhile_append2)
  then show "match_quantity units s"
    using n tl by (auto simp: match_quantity_def)
qed


lemma quantity_small_units:
  "quantity_with_unit [''Ki'', ''Mi'', ''Gi''] s = match_quantity [''Ki'', ''Mi'', ''Gi''] s"
  by (rule match_quantity_eq [symmetric]) (simp add: is_digit_def)

lemma quantity_binary_units:
  "quantity_with_unit binary_units s = match_quantity binary_units s"
  by (rule match_quantity_eq [symmetric]) (simp add: is_digit_def binary_units_def)

lemma quantity_all_units:
  "quantity_with_unit (binary_units @ decimal_units) s = match_quantity memory_units_inline s"
proof -
  have "memory_units_inline = binary_units @ decimal_units"
    by (simp add: memory_units_inline_def binary_units_def decimal_units_def)
  moreover have "match_quantity (binary_units @ decimal_units) s
                 = quantity_with_unit (binary_units @ decimal_units) s"
    by (rule match_quantity_eq) (simp add: is_digit_def binary_units_def decimal_units_def)
  ultimately show ?thesis by simp
qed

lemma check_memory_eq:
  "check_memory (Some m) errs fn =
     (if Kind m = ScalarNode \<and> quantity_with_unit [''Ki'', ''Mi'', ''Gi''] (Value m)
      then errs
      else errs @ [at_line fn (Line m)
                     (if Kind m \<noteq> ScalarNode then ''memory must be string''
                      else ''memory has invalid format '' @ quoted (Value m))])"
  by (simp add: check_memory_def quantity_small_units)

lemma match_quantity_empty: "\<not> match_quantity units []"
  by (simp add: match_quantity_def)

lemma inline_resource_memory_eq:
  assumes "wf_node r" and "find_pair r ''memory'' = Some (k, m)"
  shows "inline_resource_memory fn t r errs =
     Inr (if quantity_with_unit (binary_units @ decimal_units) (Value m) then errs
          else errs @ [if Value m = []
                       then at_line fn (Line k) (''resources.'' @ t @ ''.memory is required'')
                       else at_line fn (Line m)
                              (''resources.'' @ t
                                 @ ''.memory must be in format <number><unit> (e.g., 123Mi or 1Gi)'')])"
  using assms
  by (auto simp: inline_resource_memory_def findMapKey_wf addError_def line_of_key_def
        quantity_all_units match_quantity_empty)

text \<open>
  C6, as stated, fails on \<open>checkResourceValues\<close> of the validator with per-section
  functions: \<open>512Ti\<close> is digits followed by a binary-prefix unit, and it gets a format
  diagnostic.
\<close>

theorem memory_unit_Ti_rejected:
  "quantity_with_unit binary_units ''512Ti''
   \<and> check_memory (Some (str ''512Ti'' 20)) [] ''pod.yaml''
       = [at_line ''pod.yaml'' 20 (''memory has invalid format '' @ quoted ''512Ti'')]"
proof -
  have "match_quantity binary_units ''512Ti''"
    by (simp add: match_quantity_def is_digit_def binary_units_def)
  then have "quantity_with_unit binary_units ''512Ti''"
    by (simp only: quantity_binary_units)
  moreover have "check_memory (Some (str ''512Ti'' 20)) [] ''pod.yaml''
       = [at_line ''pod.yaml'' 20 (''memory has invalid format '' @ quoted ''512Ti'')]"
    by (simp add: match_quantity_def is_digit_def check_memory_def node_eval)
  ultimately show ?thesis by simp
qed

text \<open>
  C6, amended. In the validator with per-section functions a memory value passes exactly
  when it is a scalar whose text is one or more digits followed by \<open>Ki\<close>, \<open>Mi\<close> or
  \<open>Gi\<close>; in \<open>main.go\<close> exactly when its text is one or more digits followed by one of
  \<open>Ki Mi Gi Ti Pi Ei K M G T P E\<close>. Otherwise one diagnostic is added.
\<close>

theorem memory_quantity_rules:
  "check_memory (Some m) errs fn =
     (if Kind m = ScalarNode \<and> quantity_with_unit [''Ki'', ''Mi'', ''Gi''] (Value m)
      then errs
      else errs @ [at_line fn (Line m)
                     (if Kind m \<noteq> ScalarNode then ''memory must be string''
                      else ''memory has invalid format '' @ quoted (Value m))])
   \<and> (wf_node r \<and> find_pair r ''memory'' = Some (k, v) \<longrightarrow>
        inline_resource_memory fn t r errs =
          Inr (if quantity_with_unit (binary_units @ decimal_units) (Value v) then errs
               else errs @ [if Value v = []
                            then at_line fn (Line k) (''resources.'' @ t @ ''.memory is required'')
                            else at_line fn (Line v)
                                   (''resources.'' @ t
                                      @ ''.memory must be in format <number><unit> (e.g., 123Mi or 1Gi)'')]))"
  using check_memory_eq [of m errs fn] inline_resource_memory_eq [of r k v fn t errs] by simp

theorem memory_quantity_rules_witness:
  "check_memory (Some (str ''512Mi'' 20)) [] ''pod.yaml'' = []
   \<and> check_memory (Some (scalar ''!!int'' ''512'' 20)) [] ''pod.yaml'' \<noteq> []
   \<and> check_memory (Some (str ''512mi'' 20)) [] ''pod.yaml'' \<noteq> []
   \<and> check_memory (Some (str ''512M'' 20)) [] ''pod.yaml'' \<noteq> []
   \<and> inline_resource_memory ''pod.yaml'' ''limits''
        (mapping 19 [str ''memory'' 20, str ''512Mi'' 20]) [] = Inr []
   \<and> inline_resource_memory ''pod.yaml'' ''limits''
        (mapping 19 [str ''memory'' 20, scalar ''!!int'' ''512'' 20]) [] \<noteq> Inr []
   \<and> inline_resource_memory ''pod.yaml'' ''limits''
        (mapping 19 [str ''memory'' 20, str ''512mi'' 20]) [] \<noteq> Inr []
   \<and> inline_resource_memory ''pod.yaml'' ''limits''
        (mapping 19 [str ''memory'' 20, str ''512M'' 20]) [] = Inr []"
  using
    memory_quantity_rules [where m = "str ''512Mi'' 20" and v = "str ''512Mi'' 20" and errs = "[]"
      and fn = "''pod.yaml''" and k = "str ''memory'' 20" and t = "''limits''"
      and r = "mapping 19 [str ''memory'' 20, str ''512Mi'' 20]"]
    memory_quantity_rules [where m = "scalar ''!!int'' ''512'' 20" and v = "scalar ''!!int'' ''512'' 20"
      and errs = "[]" and fn = "''pod.yaml''" and k = "str ''memory'' 20" and t = "''limits''"
      and r = "mapping 19 [str ''memory'' 20, scalar ''!!int'' ''512'' 20]"]
    memory_quantity_rules [where m = "str ''512mi'' 20" and v = "str ''512mi'' 20" and errs = "[]"
      and fn = "''pod.yaml''" and k = "str ''memory'' 20" and t = "''limits''"
      and r = "mapping 19 [str ''memory'' 20, str ''512mi'' 20]"]
    memory_quantity_rules [where m = "str ''512M'' 20" and v = "str ''512M'' 20" and errs = "[]"
      and fn = "''pod.yaml''" and k = "str ''memory'' 20" and t = "''limits''"
      and r = "mapping 19 [str ''memory'' 20, str ''512M'' 20]"]
  by (simp add: node_eval quantity_small_units quantity_all_units match_quantity_def is_digit_def
        memory_units_inline_def)

section \<open>The field \<open>os\<close>\<close>

lemma check_os_scalar:
  "Kind os = ScalarNode \<Longrightarrow>
   check_os (Some os) errs fn =
     Inr (if Value os = [] \<or> accepted_os_name (Value os) then errs
          else errs @ [at_line fn (Line os) (''os has unsupported value '' @ quoted (Value os))])"
  by (simp add: check_os_def accepted_os_name_def)

lemma check_os_mapping:
  "wf_node os \<Longrightarrow> Kind os = MappingNode \<Longrightarrow>
   check_os (Some os) errs fn =
     Inr (case lookup os ''name'' of
            None \<Rightarrow> errs @ [at_line fn (Line os) ''os.name is required'']
          | Some n \<Rightarrow>
              if Kind n \<noteq> ScalarNode
              then errs @ [at_line fn (Line n) ''os.name must be string'']
              else if Value n = [] \<or> accepted_os_name (Value n) then errs
              else errs @ [at_line fn (Line n) (''os has unsupported value '' @ quoted (Value n))])"
  by (simp add: check_os_def getMappingValue_wf accepted_os_name_def split: option.splits)

lemma check_os_other:
  "Kind os \<noteq> ScalarNode \<Longrightarrow> Kind os \<noteq> MappingNode \<Longrightarrow>
   check_os (Some os) errs fn =
     Inr (errs @ [at_line fn (Line os) ''os must be string or object''])"
  by (simp add: check_os_def)

lemma inline_os_eq:
  "wf_node s \<Longrightarrow> find_pair s ''os'' = Some (k, v) \<Longrightarrow>
   inline_os fn s errs =
     Inr (if accepted_os_name (Value v) then errs
          else errs @ [at_line fn (Line v)
                         (''spec.os must be '' @ quoted ''linux'' @ '' or '' @ quoted ''windows'')])"
  by (simp add: inline_os_def findMapKey_wf addError_def accepted_os_name_def)

text \<open>
  C9, as stated, fails on both builds. In \<open>main.go\<close> only the text of the node is
  compared, so the mapping form with \<open>name: linux\<close> gets a diagnostic. In \<open>validateSpec\<close>
  an empty name is not compared at all, so \<open>os: ""\<close> gets none although the empty text
  is not an accepted platform name.
\<close>

theorem os_forms_differ:
  "inline_os ''pod.yaml''
     (mapping 7 [str ''os'' 8, mapping 9 [str ''name'' 9, str ''linux'' 9]]) []
     = Inr [at_line ''pod.yaml'' 9
              (''spec.os must be '' @ quoted ''linux'' @ '' or '' @ quoted ''windows'')]
   \<and> \<not> accepted_os_name []
   \<and> check_os (Some (str [] 8)) [] ''pod.yaml'' = Inr []"
  by (simp add: inline_os_def findMapKey_def addError_def node_eval check_os_def
        accepted_os_name_def)

text \<open>
  C9, amended. In \<open>validateSpec\<close> the field \<open>os\<close> is accepted as a bare scalar or as a
  mapping with a required scalar \<open>name\<close>; a diagnostic is added when the mapping form lacks
  \<open>name\<close>, and when the resolved name is not empty and is neither \<open>linux\<close> nor
  \<open>windows\<close>. In \<open>main.go\<close> the text of the \<open>os\<close> node itself is compared: a
  diagnostic is added unless it is \<open>linux\<close> or \<open>windows\<close>.
\<close>

theorem os_rules:
  "(Kind os = ScalarNode \<longrightarrow>
      check_os (Some os) errs fn =
        Inr (if Value os = [] \<or> accepted_os_name (Value os) then errs
             else errs @ [at_line fn (Line os)
                            (''os has unsupported value '' @ quoted (Value os))]))
   \<and> (wf_node os \<and> Kind os = MappingNode \<longrightarrow>
      check_os (Some os) errs fn =
        Inr (case lookup os ''name'' of
               None \<Rightarrow> errs @ [at_line fn (Line os) ''os.name is required'']
             | Some n \<Rightarrow>
                 if Kind n \<noteq> ScalarNode
                 then errs @ [at_line fn (Line n) ''os.name must be string'']
                 else if Value n = [] \<or> accepted_os_name (Value n) then errs
                 else errs @ [at_line fn (Line n)
                                (''os has unsupported value '' @ quoted (Value n))]))
   \<and> (wf_node s \<and> find_pair s ''os'' = Some (k, v) \<longrightarrow>
      inline_os fn s errs =
        Inr (if accepted_os_name (Value v) then errs
             else errs @ [at_line fn (Line v)
                            (''spec.os must be '' @ quoted ''linux'' @ '' or ''
                               @ quoted ''windows'')]))"
  using check_os_scalar [of os errs fn] check_os_mapping [of os errs fn]
    inline_os_eq [of s k v fn errs]
  by simp

theorem os_rules_witness:
  "check_os (Some (str ''linux'' 8)) [] ''pod.yaml'' = Inr []
   \<and> check_os (Some (str ''darwin'' 8)) [] ''pod.yaml''
       = Inr [at_line ''pod.yaml'' 8 (''os has unsupported value '' @ quoted ''darwin'')]
   \<and> check_os (Some (mapping 9 [str ''name'' 9, str ''windows'' 9])) [] ''pod.yaml'' = Inr []
   \<and> check_os (Some (mapping 9 [str ''name'' 9, str ''darwin'' 9])) [] ''pod.yaml''
       = Inr [at_line ''pod.yaml'' 9 (''os has unsupported value '' @ quoted ''darwin'')]
   \<and> check_os (Some (mapping 9 [str ''label'' 9, str ''linux'' 9])) [] ''pod.yaml''
       = Inr [at_line ''pod.yaml'' 9 ''os.name is required'']
   \<and> inline_os ''pod.yaml'' (mapping 7 [str ''os'' 8, str ''linux'' 8]) [] = Inr []
   \<and> inline_os ''pod.yaml'' (mapping 7 [str ''os'' 8, str ''darwin'' 8]) [] \<noteq> Inr []"
  using
    os_rules [where os = "str ''linux'' 8" and errs = "[]" and fn = "''pod.yaml''"
      and s = "mapping 7 [str ''os'' 8, str ''linux'' 8]" and k = "str ''os'' 8"
      and v = "str ''linux'' 8"]
    os_rules [where os = "str ''darwin'' 8" and errs = "[]" and fn = "''pod.yaml''"
      and s = "mapping 7 [str ''os'' 8, str ''darwin'' 8]" and k = "str ''os'' 8"
      and v = "str ''darwin'' 8"]
    os_rules [where os = "mapping 9 [str ''name'' 9, str ''windows'' 9]" and errs = "[]"
      and fn = "''pod.yaml''"]
    os_rules [where os = "mapping 9 [str ''name'' 9, str ''darwin'' 9]" and errs = "[]"
      and fn = "''pod.yaml''"]
    os_rules [where os = "mapping 9 [str ''label'' 9, str ''linux'' 9]" and errs = "[]"
      and fn = "''pod.yaml''"]
  by (simp add: node_eval accepted_os_name_def)

section \<open>Probes\<close>

lemma HasPrefix_slash: "HasPrefix s ''/'' = (s \<noteq> [] \<and> hd s = CHR ''/'')"
  by (cases s) (auto simp: HasPrefix_def)

lemma check_probe_path_append:
  "check_probe_path n errs fn = errs @ check_probe_path n [] fn"
  by (simp add: check_probe_path_def split: option.splits)

lemma check_probe_port_append:
  "check_probe_port n errs fn = errs @ check_probe_port n [] fn"
  by (simp add: check_probe_port_def split: option.splits sum.splits)

lemma validateProbe_httpGet:
  assumes "wf_node p" and "Kind p = MappingNode" and "lookup p ''httpGet'' = Some h"
    and "Kind h = MappingNode"
  shows "validateProbe p name errs fn =
     Inr (errs @ (if lookup h ''path'' = None then [fn @ '': path is required''] else [])
               @ (if lookup h ''port'' = None then [fn @ '': port is required''] else [])
               @ check_probe_path (lookup h ''path'') [] fn
               @ check_probe_port (lookup h ''port'') [] fn)"
  using assms
  by (simp add: validateProbe_wf check_probe_path_append [of _ "_ @ _"]
        check_probe_port_append [of _ "_ @ _"])


lemma validateProbe_no_httpGet:
  "wf_node p \<Longrightarrow> Kind p = MappingNode \<Longrightarrow> lookup p ''httpGet'' = None \<Longrightarrow>
   validateProbe p name errs fn = Inr (errs @ [at_line fn (Line p) ''httpGet is required''])"
  by (simp add: validateProbe_def getMappingValue_wf)


lemma check_probe_path_diags:
  "check_probe_path (Some pa) [] fn =
     (if Kind pa \<noteq> ScalarNode then [at_line fn (Line pa) ''path must be string'']
      else if \<not> (Value pa \<noteq> [] \<and> hd (Value pa) = CHR ''/'')
      then [at_line fn (Line pa) (''path has invalid format '' @ quoted (Value pa))]
      else [])"
  by (simp add: check_probe_path_def HasPrefix_slash)

lemma check_probe_port_diags:
  "check_probe_port (Some po) [] fn =
     (if Kind po \<noteq> ScalarNode \<or> Tag po \<noteq> ''!!int''
      then [at_line fn (Line po) ''port must be int'']
      else (case Atoi (Value po) of
              Inr v \<Rightarrow> if v < 1 \<or> 65535 < v
                        then [at_line fn (Line po) ''port value out of range''] else []
            | Inl err \<Rightarrow> []))"
  by (auto simp: check_probe_port_def split: sum.splits)

lemma validateProbe_ok:
  assumes "wf_node p" and "spec_probe_ok p"
  shows "validateProbe p name errs fn = Inr errs"
proof -
  from assms(2) obtain h pa po where
    h: "Kind p = MappingNode" "lookup p ''httpGet'' = Some h" "Kind h = MappingNode"
    and pa: "lookup h ''path'' = Some pa" "Kind pa = ScalarNode" "Value pa \<noteq> []"
            "hd (Value pa) = CHR ''/''"
    and po: "lookup h ''port'' = Some po" "integer_in_range 1 65535 po"
    by (auto simp: spec_probe_ok_def split: option.splits)
  have "check_probe_path (Some pa) [] fn = []"
    using pa by (simp add: check_probe_path_diags)
  moreover have "check_probe_port (Some po) [] fn = []"
    using po(2) by (auto simp: check_probe_port_diags integer_in_range_def split: sum.splits)
  ultimately show ?thesis
    using validateProbe_httpGet [OF assms(1) h] pa(1) po(1) by simp
qed


lemma inline_probe_path_eq:
  "wf_node h \<Longrightarrow>
   inline_probe_path fn name h errs =
     Inr (errs @ (case find_pair h ''path'' of
                    None \<Rightarrow> [at_line fn (Line h) (name @ ''.httpGet.path is required'')]
                  | Some (k, pa) \<Rightarrow>
                      if Value pa = []
                      then [at_line fn (Line k) (name @ ''.httpGet.path is required'')]
                      else if hd (Value pa) \<noteq> CHR ''/''
                      then [at_line fn (Line pa)
                              (name @ ''.httpGet.path must start with '' @ quoted ''/'')]
                      else []))"
  by (auto simp: inline_probe_path_def findMapKey_wf addError_def line_of_key_def
        split: option.splits)

lemma inline_probe_port_eq:
  "wf_node h \<Longrightarrow>
   inline_probe_port fn name h errs =
     Inr (errs @ (case find_pair h ''port'' of
                    None \<Rightarrow> [at_line fn (Line h) (name @ ''.httpGet.port is required'')]
                  | Some (k, po) \<Rightarrow>
                      (case Atoi (Value po) of
                         Inl err \<Rightarrow>
                           if Tag po \<noteq> ''!!int''
                           then [at_line fn (Line po)
                                   (name @ ''.httpGet.port must be an integer between 1 and 65535'')]
                           else []
                       | Inr v \<Rightarrow>
                           if v < 1 \<or> v > 65535
                           then [at_line fn (Line po)
                                   (name @ ''.httpGet.port must be between 1 and 65535'')]
                           else [])))"
  by (auto simp: inline_probe_port_def findMapKey_wf addError_def line_of_key_def
        split: option.splits sum.splits)







section \<open>Valid documents\<close>

lemma for_each_unchanged:
  "(\<And>x errs. x \<in> set xs \<Longrightarrow> body x errs = Inr errs) \<Longrightarrow> for_each body xs errs = Inr errs"
  by (induction xs arbitrary: errs) simp_all

lemma labels_loop_ok:
  "even (length cs) \<Longrightarrow>
   \<forall>(k, v) \<in> set (pairs_of cs). Kind k = ScalarNode \<and> Kind v = ScalarNode \<Longrightarrow>
   labels_loop cs errs fn = Inr errs"
  by (induction cs errs fn rule: labels_loop.induct) auto

lemma validateMetadata_ok:
  assumes "wf_node m" and "spec_metadata_ok m"
  shows "validateMetadata (Some m) errs fn = Inr errs"
proof -
  from assms(2) obtain n where
    m: "Kind m = MappingNode" and n: "lookup m ''name'' = Some n" "Kind n = ScalarNode" "Value n \<noteq> []"
    and ns: "case lookup m ''namespace'' of None \<Rightarrow> True | Some n \<Rightarrow> Kind n = ScalarNode"
    and ls: "case lookup m ''labels'' of None \<Rightarrow> True | Some l \<Rightarrow> spec_labels_ok l"
    by (auto simp: spec_metadata_ok_def split: option.splits)
  have "labels_loop (Content l) errs fn = Inr errs" if "lookup m ''labels'' = Some l" for l
  proof -
    have "wf_node l" using assms(1) that by (rule lookup_wf)
    moreover have "spec_labels_ok l" using ls that by simp
    ultimately show ?thesis
      by (intro labels_loop_ok) (auto simp: spec_labels_ok_def wf_node_even)
  qed
  then show ?thesis
    using assms(1) m n ns ls
    by (auto simp: validateMetadata_def validateMappingField_wf spec_labels_ok_def
          split: option.splits)
qed

lemma check_os_ok:
  assumes "wf_node os" and "spec_os_ok os"
  shows "check_os (Some os) errs fn = Inr errs"
proof (cases "Kind os = ScalarNode")
  case True
  then show ?thesis using assms(2) by (simp add: check_os_scalar spec_os_ok_def)
next
  case False
  then show ?thesis
    using assms by (auto simp: check_os_mapping spec_os_ok_def split: option.splits)
qed

lemma check_containerPort_ok:
  "integer_in_range 1 65535 cp \<Longrightarrow> check_containerPort (Some cp) errs fn = errs"
  by (auto simp: check_containerPort_def integer_in_range_def split: sum.splits)

lemma validatePorts_entry_ok:
  assumes "wf_node e" and "spec_port_ok e"
  shows "validatePorts_entry fn e errs = Inr errs"
  using assms
  by (auto simp: validatePorts_entry_wf spec_port_ok_def check_containerPort_ok
        check_protocol_def split: option.splits)

lemma validatePorts_ok:
  assumes "wf_node ps" and "spec_ports_ok ps"
  shows "validatePorts ps errs fn = Inr errs"
proof -
  have "validatePorts_entry fn e errs' = Inr errs'" if "e \<in> set (Content ps)" for e errs'
    using that assms by (auto intro!: validatePorts_entry_ok simp: spec_ports_ok_def wf_node_child)
  then have "for_each (validatePorts_entry fn) (Content ps) errs = Inr errs"
    by (rule for_each_unchanged)
  then show ?thesis
    using assms(2) by (simp add: validatePorts_def spec_ports_ok_def)
qed

lemma check_memory_None: "check_memory None errs fn = errs"
  by (simp add: check_memory_def)

lemma checkResourceValues_ok:
  assumes "wf_node r" and "spec_resource_ok [''Ki'', ''Mi'', ''Gi''] r"
  shows "checkResourceValues r errs fn = Inr errs"
  using assms
  by (auto simp: checkResourceValues_def getMappingValue_wf spec_resource_ok_def
        check_cpu_def check_memory_eq check_memory_None split: option.splits sum.splits)

lemma check_resource_section_ok:
  assumes "wf_node r" and "spec_resource_ok [''Ki'', ''Mi'', ''Gi''] r"
  shows "check_resource_section label (Some r) errs fn = Inr errs"
  using assms checkResourceValues_ok [OF assms]
  by (simp add: check_resource_section_def spec_resource_ok_def)

lemma check_resources_ok:
  assumes "wf_node rs" and "spec_resources_ok [''Ki'', ''Mi'', ''Gi''] rs"
  shows "check_resources (Some rs) errs fn = Inr errs"
proof -
  have "check_resource_section label (lookup rs key) errs' fn = Inr errs'"
    if "case lookup rs key of None \<Rightarrow> True | Some l \<Rightarrow> spec_resource_ok [''Ki'', ''Mi'', ''Gi''] l"
    for label key errs'
  proof (cases "lookup rs key")
    case None
    then show ?thesis by (simp add: check_resource_section_def)
  next
    case (Some l)
    then show ?thesis
      using that assms(1) by (auto intro: check_resource_section_ok lookup_wf)
  qed
  then show ?thesis
    using assms
    by (simp add: check_resources_def getMappingValue_wf spec_resources_ok_def)
qed

lemma prefixed_tagged_reference_colon:
  assumes "prefixed_tagged_reference prefix s"
  shows "HasPrefix s prefix \<and> CHR '':'' \<in> set (drop (length prefix) s)"
proof -
  define rest where "rest = drop (length prefix) s"
  from assms have p: "take (length prefix) s = prefix"
    and "\<exists>i \<in> {1 ..< length rest - 1}. rest ! i = CHR '':''"
    unfolding prefixed_tagged_reference_def Let_def rest_def by blast+
  then obtain i where "i < length rest - 1" "rest ! i = CHR '':''"
    by auto
  then have "i < length rest" "rest ! i = CHR '':''"
    by simp_all
  then have "CHR '':'' \<in> set rest"
    by (metis nth_mem)
  then show ?thesis
    using p by (simp add: HasPrefix_def rest_def)
qed

lemma check_image_ok:
  "Kind i = ScalarNode \<Longrightarrow> prefixed_tagged_reference image_prefix (Value i) \<Longrightarrow>
   check_image (Some i) errs fn = errs"
  by (simp add: check_image_eq prefixed_tagged_reference_colon)


lemma validateMappingField_required:
  "wf_node n \<Longrightarrow> validateMappingField (Some n) field True errors fn =
     Inr (lookup n field, errors @ required_field fn n field)"
  by (simp add: validateMappingField_wf required_field_def)

lemma validateContainer_wf:
  assumes "wf_node c" and "Kind c = MappingNode"
  shows "validateContainer c errs fn =
     and_then (case lookup c ''ports'' of
                 None \<Rightarrow> Inr (check_image (lookup c ''image'')
                              (check_container_name (lookup c ''name'')
                                 (errs @ required_field fn c ''name'' @ required_field fn c ''image''
                                    @ required_field fn c ''resources'') fn) fn)
               | Some p \<Rightarrow> validatePorts p
                             (check_image (lookup c ''image'')
                                (check_container_name (lookup c ''name'')
                                   (errs @ required_field fn c ''name'' @ required_field fn c ''image''
                                      @ required_field fn c ''resources'') fn) fn) fn)
       (\<lambda>errors6.
     and_then (case lookup c ''readinessProbe'' of
                 None \<Rightarrow> Inr errors6
               | Some p \<Rightarrow> validateProbe p ''readinessProbe'' errors6 fn)
       (\<lambda>errors7.
     and_then (case lookup c ''livenessProbe'' of
                 None \<Rightarrow> Inr errors7
               | Some p \<Rightarrow> validateProbe p ''livenessProbe'' errors7 fn)
       (\<lambda>errors8. check_resources (lookup c ''resources'') errors8 fn)))"
  using assms
  by (simp add: validateContainer_def validateMappingField_required getMappingValue_wf Let_def
        cong: option.case_cong)

lemma check_container_name_ok:
  "Kind n = ScalarNode \<Longrightarrow> match_name (Value n) \<Longrightarrow>
   check_container_name (Some n) errs fn = errs"
  by (simp add: check_container_name_def)

lemma validateContainer_ok:
  assumes "wf_node c" and "spec_container_ok [''Ki'', ''Mi'', ''Gi''] c"
  shows "validateContainer c errs fn = Inr errs"
proof -
  from assms(2) obtain n i rs where
    c: "Kind c = MappingNode"
    and n: "lookup c ''name'' = Some n" "Kind n = ScalarNode" "match_name (Value n)"
    and i: "lookup c ''image'' = Some i" "Kind i = ScalarNode"
           "prefixed_tagged_reference image_prefix (Value i)"
    and rs: "lookup c ''resources'' = Some rs" "spec_resources_ok [''Ki'', ''Mi'', ''Gi''] rs"
    and ps: "case lookup c ''ports'' of None \<Rightarrow> True | Some ps \<Rightarrow> spec_ports_ok ps"
    and rp: "case lookup c ''readinessProbe'' of None \<Rightarrow> True | Some p \<Rightarrow> spec_probe_ok p"
    and lp: "case lookup c ''livenessProbe'' of None \<Rightarrow> True | Some p \<Rightarrow> spec_probe_ok p"
    by (auto simp: spec_container_ok_def split: option.splits)
  have start: "check_image (lookup c ''image'')
                 (check_container_name (lookup c ''name'')
                    (errs @ required_field fn c ''name'' @ required_field fn c ''image''
                       @ required_field fn c ''resources'') fn) fn = errs"
    using n i rs(1) by (simp add: required_field_def check_container_name_ok check_image_ok)
  have ports: "(case lookup c ''ports'' of None \<Rightarrow> Inr errs
                | Some p \<Rightarrow> validatePorts p errs fn) = Inr errs"
    using ps assms(1) by (auto split: option.splits intro: validatePorts_ok lookup_wf)
  have probe: "(case lookup c key of None \<Rightarrow> Inr errs
                | Some p \<Rightarrow> validateProbe p name errs fn) = Inr errs"
    if "case lookup c key of None \<Rightarrow> True | Some p \<Rightarrow> spec_probe_ok p" for key name
    using that assms(1) by (auto split: option.splits intro: validateProbe_ok lookup_wf)
  have res: "check_resources (lookup c ''resources'') errs fn = Inr errs"
    using rs assms(1) by (auto intro: check_resources_ok lookup_wf)
  show ?thesis
    by (simp only: validateContainer_wf [OF assms(1) c] start ports probe [OF rp] probe [OF lp]
          res and_then_Inr)
qed

lemma validateSpec_wf:
  assumes "wf_node s" and "Kind s = MappingNode"
  shows "validateSpec (Some s) errs fn =
     and_then (check_os (lookup s ''os'') errs fn) (\<lambda>errors1.
       case lookup s ''containers'' of
         None \<Rightarrow> Inr (errors1 @ [fn @ '': containers is required''])
       | Some c \<Rightarrow>
           if Kind c \<noteq> SequenceNode
           then Inr (errors1 @ [at_line fn (Line c) ''containers must be array''])
           else for_each (\<lambda>cNode errs. validateContainer cNode errs fn) (Content c)
                  (if Content c = []
                   then errors1 @ [at_line fn (Line c) ''containers must not be empty'']
                   else errors1))"
  using assms
  by (simp add: validateSpec_def getMappingValue_wf Let_def cong: option.case_cong if_cong)

lemma check_os_None: "check_os None errs fn = Inr errs"
  by (simp add: check_os_def)

lemma validateSpec_ok:
  assumes "wf_node s" and "spec_spec_ok [''Ki'', ''Mi'', ''Gi''] s"
  shows "validateSpec (Some s) errs fn = Inr errs"
proof -
  from assms(2) obtain cs where
    s: "Kind s = MappingNode"
    and os: "case lookup s ''os'' of None \<Rightarrow> True | Some os \<Rightarrow> spec_os_ok os"
    and cs: "lookup s ''containers'' = Some cs" "Kind cs = SequenceNode" "Content cs \<noteq> []"
            "\<forall>c \<in> set (Content cs). spec_container_ok [''Ki'', ''Mi'', ''Gi''] c"
    by (auto simp: spec_spec_ok_def split: option.splits)
  have "check_os (lookup s ''os'') errs fn = Inr errs"
    using os assms(1) by (auto split: option.splits simp: check_os_None intro: check_os_ok lookup_wf)
  moreover have "wf_node cs"
    using assms(1) cs(1) by (rule lookup_wf)
  then have "for_each (\<lambda>cNode errs. validateContainer cNode errs fn) (Content cs) errs = Inr errs"
    using cs(4) by (intro for_each_unchanged validateContainer_ok) (auto intro: wf_node_child)
  ultimately show ?thesis
    using cs by (simp add: validateSpec_wf [OF assms(1) s])
qed

lemma validateDocument_wf:
  assumes "wf_node d" and "Kind d = MappingNode"
  shows "validateDocument d fn errs =
     and_then (validateMetadata (lookup d ''metadata'')
                 (validateKind (lookup d ''kind'')
                    (validateAPIVersion (lookup d ''apiVersion'')
                       (errs @ required_field fn d ''apiVersion'' @ required_field fn d ''kind''
                          @ required_field fn d ''metadata'' @ required_field fn d ''spec'') fn) fn) fn)
       (\<lambda>errors7. validateSpec (lookup d ''spec'') errors7 fn)"
  using assms
  by (simp add: validateDocument_def validateMappingField_required Let_def)

lemma validateDocument_ok:
  assumes "wf_node d" and "spec_document_ok [''Ki'', ''Mi'', ''Gi''] d"
  shows "validateDocument d fn errs = Inr errs"
proof -
  from assms(2) obtain a k m s where
    d: "Kind d = MappingNode"
    and a: "lookup d ''apiVersion'' = Some a" "spec_apiVersion_ok a"
    and k: "lookup d ''kind'' = Some k" "spec_kind_ok k"
    and m: "lookup d ''metadata'' = Some m" "spec_metadata_ok m"
    and s: "lookup d ''spec'' = Some s" "spec_spec_ok [''Ki'', ''Mi'', ''Gi''] s"
    by (auto simp: spec_document_ok_def split: option.splits)
  have "validateAPIVersion (Some a) errs fn = errs"
    using a(2) by (simp add: validateAPIVersion_def spec_apiVersion_ok_def)
  moreover have "validateKind (Some k) errs fn = errs"
    using k(2) by (simp add: validateKind_def spec_kind_ok_def)
  moreover have "validateMetadata (Some m) errs fn = Inr errs"
    using assms(1) m by (auto intro: validateMetadata_ok lookup_wf)
  moreover have "validateSpec (Some s) errs fn = Inr errs"
    using assms(1) s by (auto intro: validateSpec_ok lookup_wf)
  ultimately show ?thesis
    using a(1) k(1) m(1) s(1)
    by (simp add: validateDocument_wf [OF assms(1) d] required_field_def)
qed


lemma for_each_append:
  "for_each body (xs @ ys) errs = and_then (for_each body xs errs) (for_each body ys)"
  by (induction xs arbitrary: errs) (simp_all add: and_then_def split: sum.splits)

lemma and_then_unchanged:
  "(\<And>x. f x = Inr x) \<Longrightarrow> and_then r f = r"
  by (cases r) simp_all

lemma for_each_one_of_valid:
  assumes "\<And>x errs. x \<in> set pre \<union> set post \<Longrightarrow> body x errs = Inr errs"
  shows "for_each body (pre @ [d] @ post) errs = body d errs"
proof -
  have "for_each body pre errs = Inr errs"
    using assms by (intro for_each_unchanged) simp
  moreover have "for_each body post errs' = Inr errs'" for errs'
    using assms by (intro for_each_unchanged) simp
  ultimately show ?thesis
    by (simp add: for_each_append and_then_unchanged)
qed

section \<open>Documents with one required field missing\<close>

lemma present_andD: "present_and rule parent key \<Longrightarrow> \<exists>n. lookup parent key = Some n \<and> rule n"
  by (simp add: present_and_def split: option.splits)

lemma absent_or_cases:
  "absent_or rule parent key \<Longrightarrow> lookup parent key = None \<or> (\<exists>n. lookup parent key = Some n \<and> rule n)"
  by (simp add: absent_or_def split: option.splits)

lemma validateAPIVersion_None: "validateAPIVersion None errs fn = errs"
  by (simp add: validateAPIVersion_def)

lemma validateKind_None: "validateKind None errs fn = errs"
  by (simp add: validateKind_def)

lemma validateMetadata_None: "validateMetadata None errs fn = Inr errs"
  by (simp add: validateMetadata_def)

lemma validateSpec_None: "validateSpec None errs fn = Inr errs"
  by (simp add: validateSpec_def)

lemma validateAPIVersion_ok: "spec_apiVersion_ok a \<Longrightarrow> validateAPIVersion (Some a) errs fn = errs"
  by (simp add: validateAPIVersion_def spec_apiVersion_ok_def)

lemma validateKind_ok: "spec_kind_ok k \<Longrightarrow> validateKind (Some k) errs fn = errs"
  by (simp add: validateKind_def spec_kind_ok_def)

text \<open>What each top-level field contributes when the rest of the document is valid.\<close>

lemma field_apiVersion:
  "skip = ''apiVersion'' \<or> present_and spec_apiVersion_ok d ''apiVersion'' \<Longrightarrow>
   skip \<noteq> ''apiVersion'' \<Longrightarrow>
   required_field fn d ''apiVersion'' = []
   \<and> validateAPIVersion (lookup d ''apiVersion'') errs fn = errs"
  by (auto dest!: present_andD simp: required_field_def validateAPIVersion_ok)

lemma field_kind:
  "skip = ''kind'' \<or> present_and spec_kind_ok d ''kind'' \<Longrightarrow> skip \<noteq> ''kind'' \<Longrightarrow>
   required_field fn d ''kind'' = [] \<and> validateKind (lookup d ''kind'') errs fn = errs"
  by (auto dest!: present_andD simp: required_field_def validateKind_ok)

lemma field_metadata:
  "wf_node d \<Longrightarrow> skip = ''metadata'' \<or> present_and spec_metadata_ok d ''metadata'' \<Longrightarrow>
   skip \<noteq> ''metadata'' \<Longrightarrow>
   required_field fn d ''metadata'' = []
   \<and> validateMetadata (lookup d ''metadata'') errs fn = Inr errs"
  using validateMetadata_ok lookup_wf
  by (fastforce dest!: present_andD simp: required_field_def)

lemma field_spec:
  "wf_node d \<Longrightarrow> skip = ''spec'' \<or> present_and (spec_spec_ok [''Ki'', ''Mi'', ''Gi'']) d ''spec'' \<Longrightarrow>
   skip \<noteq> ''spec'' \<Longrightarrow>
   required_field fn d ''spec'' = []
   \<and> validateSpec (lookup d ''spec'') errs fn = Inr errs"
  using validateSpec_ok lookup_wf
  by (fastforce dest!: present_andD simp: required_field_def)

lemma validateDocument_except_apiVersion:
  assumes "wf_node d" and "doc_except ''apiVersion'' d"
  shows "validateDocument d fn errs =
           Inr (validateAPIVersion (lookup d ''apiVersion'')
                  (errs @ required_field fn d ''apiVersion'') fn)"
proof -
  have d: "Kind d = MappingNode" using assms(2) by (simp add: doc_except_def)
  note k = field_kind [of "''apiVersion''" d fn]
    and m = field_metadata [OF assms(1), of "''apiVersion''" fn]
    and s = field_spec [OF assms(1), of "''apiVersion''" fn]
  show ?thesis
    using assms(2) by (simp add: validateDocument_wf [OF assms(1) d] doc_except_def k m s)
qed

lemma validateDocument_except_kind:
  assumes "wf_node d" and "doc_except ''kind'' d"
  shows "validateDocument d fn errs =
           Inr (validateKind (lookup d ''kind'') (errs @ required_field fn d ''kind'') fn)"
proof -
  have d: "Kind d = MappingNode" using assms(2) by (simp add: doc_except_def)
  note a = field_apiVersion [of "''kind''" d fn]
    and m = field_metadata [OF assms(1), of "''kind''" fn]
    and s = field_spec [OF assms(1), of "''kind''" fn]
  show ?thesis
    using assms(2) by (simp add: validateDocument_wf [OF assms(1) d] doc_except_def a m s)
qed

lemma validateDocument_except_metadata:
  assumes "wf_node d" and "doc_except ''metadata'' d"
  shows "validateDocument d fn errs =
           validateMetadata (lookup d ''metadata'') (errs @ required_field fn d ''metadata'') fn"
proof -
  have d: "Kind d = MappingNode" using assms(2) by (simp add: doc_except_def)
  note a = field_apiVersion [of "''metadata''" d fn]
    and k = field_kind [of "''metadata''" d fn]
    and s = field_spec [OF assms(1), of "''metadata''" fn]
  show ?thesis
    using assms(2)
    by (simp add: validateDocument_wf [OF assms(1) d] doc_except_def a k s and_then_unchanged)
qed

lemma validateDocument_except_spec:
  assumes "wf_node d" and "doc_except ''spec'' d"
  shows "validateDocument d fn errs =
           validateSpec (lookup d ''spec'') (errs @ required_field fn d ''spec'') fn"
proof -
  have d: "Kind d = MappingNode" using assms(2) by (simp add: doc_except_def)
  note a = field_apiVersion [of "''spec''" d fn]
    and k = field_kind [of "''spec''" d fn]
    and m = field_metadata [OF assms(1), of "''spec''" fn]
  show ?thesis
    using assms(2) by (simp add: validateDocument_wf [OF assms(1) d] doc_except_def a k m)
qed


lemma validateMetadata_missing_name:
  assumes "wf_node m" and "metadata_except_name m" and "lookup m ''name'' = None"
  shows "validateMetadata (Some m) errs fn = Inr (errs @ [fn @ '': name is required''])"
proof -
  have m: "Kind m = MappingNode"
    and ns: "absent_or (\<lambda>n. Kind n = ScalarNode) m ''namespace''"
    and ls: "absent_or spec_labels_ok m ''labels''"
    using assms(2) by (simp_all add: metadata_except_name_def)
  have "labels_loop (Content l) errs' fn = Inr errs'" if "lookup m ''labels'' = Some l" for l errs'
  proof -
    have "wf_node l" using assms(1) that by (rule lookup_wf)
    moreover have "spec_labels_ok l" using ls that by (simp add: absent_or_def)
    ultimately show ?thesis
      by (intro labels_loop_ok) (auto simp: spec_labels_ok_def wf_node_even)
  qed
  then show ?thesis
    using assms(1,3) m ns ls
    by (auto simp: validateMetadata_def validateMappingField_wf spec_labels_ok_def absent_or_def
          split: option.splits)
qed

lemma containers_loop_ok:
  assumes "wf_node cs" and "\<forall>c \<in> set (Content cs). spec_container_ok [''Ki'', ''Mi'', ''Gi''] c"
  shows "for_each (\<lambda>cNode errs. validateContainer cNode errs fn) (Content cs) errs = Inr errs"
  using assms by (intro for_each_unchanged validateContainer_ok) (auto intro: wf_node_child)

lemma spec_containers_ok:
  assumes "wf_node s" and "skip = ''containers''
          \<or> present_and (\<lambda>cs. Kind cs = SequenceNode \<and> Content cs \<noteq> []
                  \<and> (\<forall>c \<in> set (Content cs). spec_container_ok [''Ki'', ''Mi'', ''Gi''] c))
               s ''containers''" and "skip \<noteq> ''containers''"
  shows "(case lookup s ''containers'' of
            None \<Rightarrow> Inr (errs @ [fn @ '': containers is required''])
          | Some c \<Rightarrow>
              if Kind c \<noteq> SequenceNode
              then Inr (errs @ [at_line fn (Line c) ''containers must be array''])
              else for_each (\<lambda>cNode errs. validateContainer cNode errs fn) (Content c)
                     (if Content c = []
                      then errs @ [at_line fn (Line c) ''containers must not be empty'']
                      else errs)) = Inr errs"
proof -
  from assms(2,3) obtain cs where cs: "lookup s ''containers'' = Some cs" "Kind cs = SequenceNode"
      "Content cs \<noteq> []" "\<forall>c \<in> set (Content cs). spec_container_ok [''Ki'', ''Mi'', ''Gi''] c"
    by (auto dest!: present_andD)
  have "wf_node cs" using assms(1) cs(1) by (rule lookup_wf)
  then show ?thesis
    using cs by (simp add: containers_loop_ok)
qed

lemma validateSpec_missing_containers:
  assumes "wf_node s" and "spec_except ''containers'' s" and "lookup s ''containers'' = None"
  shows "validateSpec (Some s) errs fn = Inr (errs @ [fn @ '': containers is required''])"
proof -
  have s: "Kind s = MappingNode" and os: "absent_or spec_os_ok s ''os''"
    using assms(2) by (simp_all add: spec_except_def)
  have "check_os (lookup s ''os'') errs fn = Inr errs"
    using os assms(1)
    by (auto simp: absent_or_def check_os_None split: option.splits intro: check_os_ok lookup_wf)
  then show ?thesis
    using assms(3) by (simp add: validateSpec_wf [OF assms(1) s])
qed

lemma validateSpec_except_os:
  assumes "wf_node s" and "spec_except ''os'' s"
  shows "validateSpec (Some s) errs fn = check_os (lookup s ''os'') errs fn"
proof -
  have s: "Kind s = MappingNode" using assms(2) by (simp add: spec_except_def)
  have "skip = ''containers''
          \<or> present_and (\<lambda>cs. Kind cs = SequenceNode \<and> Content cs \<noteq> []
                  \<and> (\<forall>c \<in> set (Content cs). spec_container_ok [''Ki'', ''Mi'', ''Gi''] c))
               s ''containers''" if "skip = ''os''" for skip :: string
    using assms(2) by (simp add: spec_except_def)
  from spec_containers_ok [OF assms(1) this] show ?thesis
    by (simp add: validateSpec_wf [OF assms(1) s] and_then_unchanged)
qed

lemma for_each_all_but:
  assumes "i < length xs"
    and "\<And>x errs. x \<in> set (take i xs) \<union> set (drop (Suc i) xs) \<Longrightarrow> body x errs = Inr errs"
  shows "for_each body xs errs = body (xs ! i) errs"
proof -
  have "for_each body (take i xs @ [xs ! i] @ drop (Suc i) xs) errs = body (xs ! i) errs"
    using assms(2) by (rule for_each_one_of_valid)
  then show ?thesis
    using assms(1) by (simp add: id_take_nth_drop [symmetric])
qed

lemma all_but_children:
  assumes "wf_node sq" and "all_but rule sq i"
  shows "Kind sq = SequenceNode" and "i < length (Content sq)" and "wf_node (Content sq ! i)"
    and "\<And>x. x \<in> set (take i (Content sq)) \<union> set (drop (Suc i) (Content sq))
           \<Longrightarrow> wf_node x \<and> rule x"
proof -
  show "Kind sq = SequenceNode" and i: "i < length (Content sq)"
    using assms(2) by (simp_all add: all_but_def)
  show "wf_node (Content sq ! i)"
    using assms(1) i by (auto intro: wf_node_child)
  fix x assume x: "x \<in> set (take i (Content sq)) \<union> set (drop (Suc i) (Content sq))"
  then have "x \<in> set (Content sq)"
    by (auto dest: in_set_takeD in_set_dropD)
  moreover have "rule x"
    using x assms(2) by (auto simp: all_but_def list_all_iff)
  ultimately show "wf_node x \<and> rule x"
    using assms(1) by (auto intro: wf_node_child)
qed

lemma validateSpec_except_container:
  assumes "wf_node s" and "spec_except ''containers'' s"
    and "lookup s ''containers'' = Some cs"
    and "all_but (spec_container_ok [''Ki'', ''Mi'', ''Gi'']) cs i"
  shows "validateSpec (Some s) errs fn = validateContainer (Content cs ! i) errs fn"
proof -
  have s: "Kind s = MappingNode" and os: "absent_or spec_os_ok s ''os''"
    using assms(2) by (simp_all add: spec_except_def)
  have os_ok: "check_os (lookup s ''os'') errs fn = Inr errs"
    using os assms(1)
    by (auto simp: absent_or_def check_os_None split: option.splits intro: check_os_ok lookup_wf)
  have wf: "wf_node cs" using assms(1,3) by (rule lookup_wf)
  note cs = all_but_children [OF wf assms(4)]
  have "for_each (\<lambda>cNode errs. validateContainer cNode errs fn) (Content cs) errs
          = validateContainer (Content cs ! i) errs fn"
    using cs(4) by (intro for_each_all_but [OF cs(2)] validateContainer_ok) auto
  moreover have "Content cs \<noteq> []" using cs(2) by auto
  ultimately show ?thesis
    using assms(3) cs(1) os_ok by (simp add: validateSpec_wf [OF assms(1) s])
qed

lemma check_container_name_None: "check_container_name None errs fn = errs"
  by (simp add: check_container_name_def)

lemma check_image_None: "check_image None errs fn = errs"
  by (simp add: check_image_def)

lemma check_resources_None: "check_resources None errs fn = Inr errs"
  by (simp add: check_resources_def)

lemma container_name_part:
  assumes "container_except skip c" and "skip \<noteq> ''name''"
  shows "required_field fn c ''name'' = []"
    and "check_container_name (lookup c ''name'') errs fn = errs"
  using assms
  by (auto simp: container_except_def required_field_def check_container_name_ok
        dest!: present_andD)

lemma container_image_part:
  assumes "container_except skip c" and "skip \<noteq> ''image''"
  shows "required_field fn c ''image'' = []"
    and "check_image (lookup c ''image'') errs fn = errs"
  using assms
  by (auto simp: container_except_def required_field_def check_image_ok dest!: present_andD)

lemma container_resources_part:
  assumes "wf_node c" and "container_except skip c" and "skip \<noteq> ''resources''"
  shows "required_field fn c ''resources'' = []"
    and "check_resources (lookup c ''resources'') errs fn = Inr errs"
proof -
  from assms(2,3) obtain rs where rs: "lookup c ''resources'' = Some rs"
      "spec_resources_ok [''Ki'', ''Mi'', ''Gi''] rs"
    by (auto simp: container_except_def dest!: present_andD)
  have "wf_node rs" using assms(1) rs(1) by (rule lookup_wf)
  then show "required_field fn c ''resources'' = []"
    and "check_resources (lookup c ''resources'') errs fn = Inr errs"
    using rs by (simp_all add: required_field_def check_resources_ok)
qed

lemma container_ports_part:
  assumes "wf_node c" and "container_except skip c" and "skip \<noteq> ''ports''"
  shows "(case lookup c ''ports'' of None \<Rightarrow> Inr errs
          | Some p \<Rightarrow> validatePorts p errs fn) = Inr errs"
  using assms validatePorts_ok lookup_wf
  by (fastforce simp: container_except_def absent_or_def split: option.splits)

lemma container_probe_part:
  assumes "wf_node c" and "absent_or spec_probe_ok c key"
  shows "(case lookup c key of None \<Rightarrow> Inr errs
          | Some p \<Rightarrow> validateProbe p name errs fn) = Inr errs"
  using assms validateProbe_ok lookup_wf
  by (fastforce simp: absent_or_def split: option.splits)

lemma validateContainer_missing:
  assumes "wf_node c" and "container_except key c" and "lookup c key = None"
    and "key = ''name'' \<or> key = ''image'' \<or> key = ''resources''"
  shows "validateContainer c errs fn = Inr (errs @ [fn @ '': '' @ key @ '' is required''])"
proof -
  have c: "Kind c = MappingNode"
    and rp: "absent_or spec_probe_ok c ''readinessProbe''"
    and lp: "absent_or spec_probe_ok c ''livenessProbe''"
    using assms(2,4) by (auto simp: container_except_def)
  have ports: "\<And>errs. (case lookup c ''ports'' of None \<Rightarrow> Inr errs
          | Some p \<Rightarrow> validatePorts p errs fn) = Inr errs"
    using assms(4) by (intro container_ports_part [OF assms(1,2)]) auto
  note probes = container_probe_part [OF assms(1) rp] container_probe_part [OF assms(1) lp]
  have missing: "required_field fn c key = [fn @ '': '' @ key @ '' is required'']"
    using assms(3) by (simp add: required_field_def)
  from assms(4) show ?thesis
  proof (elim disjE)
    assume k: "key = ''name''"
    then have ex: "container_except ''name'' c" using assms(2) by simp
    show ?thesis
      using assms(3) missing
      by (simp add: k validateContainer_wf [OF assms(1) c] ports probes
            container_image_part [OF ex]
            container_resources_part [OF assms(1) ex]
            check_container_name_None)
  next
    assume k: "key = ''image''"
    then have ex: "container_except ''image'' c" using assms(2) by simp
    show ?thesis
      using assms(3) missing
      by (simp add: k validateContainer_wf [OF assms(1) c] ports probes
            container_name_part [OF ex]
            container_resources_part [OF assms(1) ex]
            check_image_None)
  next
    assume k: "key = ''resources''"
    then have ex: "container_except ''resources'' c" using assms(2) by simp
    show ?thesis
      using assms(3) missing
      by (simp add: k validateContainer_wf [OF assms(1) c] ports probes
            container_name_part [OF ex] container_image_part [OF ex]
            check_resources_None)
  qed
qed

lemma validateContainer_except_ports:
  assumes "wf_node c" and "container_except ''ports'' c" and "lookup c ''ports'' = Some ps"
  shows "validateContainer c errs fn = validatePorts ps errs fn"
proof -
  have c: "Kind c = MappingNode"
    and rp: "absent_or spec_probe_ok c ''readinessProbe''"
    and lp: "absent_or spec_probe_ok c ''livenessProbe''"
    using assms(2) by (auto simp: container_except_def)
  note probes = container_probe_part [OF assms(1) rp] container_probe_part [OF assms(1) lp]
  show ?thesis
    using assms(3)
    by (simp add: validateContainer_wf [OF assms(1) c] probes
          container_name_part [OF assms(2)] container_image_part [OF assms(2)]
          container_resources_part [OF assms(1,2)] and_then_unchanged)
qed

lemma validateContainer_except_readiness:
  assumes "wf_node c" and "container_except ''readinessProbe'' c"
    and "lookup c ''readinessProbe'' = Some p"
  shows "validateContainer c errs fn = validateProbe p ''readinessProbe'' errs fn"
proof -
  have c: "Kind c = MappingNode"
    and lp: "absent_or spec_probe_ok c ''livenessProbe''"
    using assms(2) by (auto simp: container_except_def)
  have ports: "\<And>errs. (case lookup c ''ports'' of None \<Rightarrow> Inr errs
          | Some p \<Rightarrow> validatePorts p errs fn) = Inr errs"
    by (intro container_ports_part [OF assms(1,2)]) auto
  note probes = container_probe_part [OF assms(1) lp]
  show ?thesis
    using assms(3)
    by (simp add: validateContainer_wf [OF assms(1) c] probes ports
          container_name_part [OF assms(2)] container_image_part [OF assms(2)]
          container_resources_part [OF assms(1,2)] and_then_unchanged)
qed

lemma validateContainer_except_liveness:
  assumes "wf_node c" and "container_except ''livenessProbe'' c"
    and "lookup c ''livenessProbe'' = Some p"
  shows "validateContainer c errs fn = validateProbe p ''livenessProbe'' errs fn"
proof -
  have c: "Kind c = MappingNode"
    and rp: "absent_or spec_probe_ok c ''readinessProbe''"
    using assms(2) by (auto simp: container_except_def)
  have ports: "\<And>errs. (case lookup c ''ports'' of None \<Rightarrow> Inr errs
          | Some p \<Rightarrow> validatePorts p errs fn) = Inr errs"
    by (intro container_ports_part [OF assms(1,2)]) auto
  note probes = container_probe_part [OF assms(1) rp]
  show ?thesis
    using assms(3)
    by (simp add: validateContainer_wf [OF assms(1) c] probes ports
          container_name_part [OF assms(2)] container_image_part [OF assms(2)]
          container_resources_part [OF assms(1,2)] and_then_unchanged)
qed

lemma validatePorts_except_entry:
  assumes "wf_node ps" and "all_but spec_port_ok ps i"
  shows "validatePorts ps errs fn = validatePorts_entry fn (Content ps ! i) errs"
proof -
  note ps = all_but_children [OF assms]
  have "for_each (validatePorts_entry fn) (Content ps) errs
          = validatePorts_entry fn (Content ps ! i) errs"
    using ps(4) by (intro for_each_all_but [OF ps(2)] validatePorts_entry_ok) auto
  then show ?thesis using ps(1) by (simp add: validatePorts_def)
qed

lemma validatePorts_entry_missing:
  assumes "wf_node e" and "port_except_containerPort e" and "lookup e ''containerPort'' = None"
  shows "validatePorts_entry fn e errs = Inr (errs @ [fn @ '': containerPort is required''])"
  using assms
  by (auto simp: validatePorts_entry_wf port_except_containerPort_def absent_or_def
        check_containerPort_def check_protocol_def split: option.splits)

lemma validateProbe_missing_field:
  assumes "wf_node p" and "Kind p = MappingNode" and "lookup p ''httpGet'' = Some h"
    and "httpGet_except key h" and "lookup h key = None" and "key = ''path'' \<or> key = ''port''"
  shows "validateProbe p name errs fn = Inr (errs @ [fn @ '': '' @ key @ '' is required''])"
proof -
  have h: "Kind h = MappingNode" using assms(4) by (simp add: httpGet_except_def)
  note eq = validateProbe_httpGet [OF assms(1,2,3) h, of name errs fn]
  from assms(6) show ?thesis
  proof
    assume k: "key = ''path''"
    then obtain po where "lookup h ''port'' = Some po" "integer_in_range 1 65535 po"
      using assms(4) by (auto simp: httpGet_except_def dest!: present_andD)
    then show ?thesis
      using eq assms(5) k
      by (auto simp: check_probe_path_def check_probe_port_diags integer_in_range_def
            split: sum.splits)
  next
    assume k: "key = ''port''"
    then obtain pa where "lookup h ''path'' = Some pa" "Kind pa = ScalarNode" "Value pa \<noteq> []"
        "hd (Value pa) = CHR ''/''"
      using assms(4) by (auto simp: httpGet_except_def dest!: present_andD)
    then show ?thesis
      using eq assms(5) k
      by (simp add: check_probe_path_diags check_probe_port_def)
  qed
qed


lemma document_spec:
  assumes "wf_node d" and "doc_except ''spec'' d" and "lookup d ''spec'' = Some s"
  shows "wf_node s" and "validateDocument d fn errs = validateSpec (Some s) errs fn"
  using assms lookup_wf [OF assms(1,3)]
  by (simp_all add: validateDocument_except_spec required_field_def)

lemma document_container:
  assumes "wf_node d" and "container_in_document d i c"
  shows "wf_node c" and "validateDocument d fn errs = validateContainer c errs fn"
proof -
  from assms(2) obtain s cs where
    d: "doc_except ''spec'' d" and s: "lookup d ''spec'' = Some s" "spec_except ''containers'' s"
    and cs: "lookup s ''containers'' = Some cs"
            "all_but (spec_container_ok [''Ki'', ''Mi'', ''Gi'']) cs i" "Content cs ! i = c"
    by (auto simp: container_in_document_def split: option.splits)
  note sp = document_spec [OF assms(1) d s(1)]
  have wf: "wf_node cs" using sp(1) cs(1) by (rule lookup_wf)
  show "wf_node c"
    using all_but_children(3) [OF wf cs(2)] cs(3) by simp
  show "validateDocument d fn errs = validateContainer c errs fn"
    using sp(2) validateSpec_except_container [OF sp(1) s(2) cs(1,2)] cs(3) by simp
qed

lemma document_missing_top:
  assumes "wf_node d" and "doc_except key d" and "lookup d key = None"
    and "key \<in> {''apiVersion'', ''kind'', ''metadata'', ''spec''}"
  shows "validateDocument d fn errs = Inr (errs @ [fn @ '': '' @ key @ '' is required''])"
  using assms
  by (auto simp: validateDocument_except_apiVersion validateDocument_except_kind
        validateDocument_except_metadata validateDocument_except_spec required_field_def
        validateAPIVersion_None validateKind_None validateMetadata_None validateSpec_None)

lemma document_missing_metadata_name:
  assumes "wf_node d" and "doc_except ''metadata'' d" and "lookup d ''metadata'' = Some m"
    and "metadata_except_name m" and "lookup m ''name'' = None"
  shows "validateDocument d fn errs = Inr (errs @ [fn @ '': name is required''])"
  using assms lookup_wf [OF assms(1,3)]
  by (simp add: validateDocument_except_metadata required_field_def validateMetadata_missing_name)

lemma document_missing_containers:
  assumes "wf_node d" and "doc_except ''spec'' d" and "lookup d ''spec'' = Some s"
    and "spec_except ''containers'' s" and "lookup s ''containers'' = None"
  shows "validateDocument d fn errs = Inr (errs @ [fn @ '': containers is required''])"
  using document_spec [OF assms(1,2,3)] assms(4,5)
  by (simp add: validateSpec_missing_containers)

lemma document_missing_os_name:
  assumes "wf_node d" and "doc_except ''spec'' d" and "lookup d ''spec'' = Some s"
    and "spec_except ''os'' s" and "lookup s ''os'' = Some os"
    and "Kind os = MappingNode" and "lookup os ''name'' = None"
  shows "validateDocument d fn errs = Inr (errs @ [at_line fn (Line os) ''os.name is required''])"
proof -
  note sp = document_spec [OF assms(1,2,3)]
  have "wf_node os" using sp(1) assms(5) by (rule lookup_wf)
  then show ?thesis
    using sp assms(4,5,6,7) by (simp add: validateSpec_except_os check_os_mapping)
qed

lemma document_missing_container_field:
  assumes "wf_node d" and "container_in_document d i c" and "container_except key c"
    and "lookup c key = None" and "key \<in> {''name'', ''image'', ''resources''}"
  shows "validateDocument d fn errs = Inr (errs @ [fn @ '': '' @ key @ '' is required''])"
  using document_container [OF assms(1,2)] assms(3,4,5)
  by (simp add: validateContainer_missing)

lemma document_missing_containerPort:
  assumes "wf_node d" and "container_in_document d i c" and "container_except ''ports'' c"
    and "lookup c ''ports'' = Some ps" and "all_but spec_port_ok ps j"
    and "port_except_containerPort (Content ps ! j)"
    and "lookup (Content ps ! j) ''containerPort'' = None"
  shows "validateDocument d fn errs = Inr (errs @ [fn @ '': containerPort is required''])"
proof -
  note c = document_container [OF assms(1,2)]
  have wf: "wf_node ps" using c(1) assms(4) by (rule lookup_wf)
  have "wf_node (Content ps ! j)" using all_but_children(3) [OF wf assms(5)] .
  then show ?thesis
    using c(2) assms(3,4,6,7) validatePorts_except_entry [OF wf assms(5)]
    by (simp add: validateContainer_except_ports [OF c(1)] validatePorts_entry_missing)
qed

lemma document_probe:
  assumes "wf_node d" and "container_in_document d i c" and "container_except key c"
    and "lookup c key = Some p" and "key \<in> {''readinessProbe'', ''livenessProbe''}"
  shows "wf_node p" and "validateDocument d fn errs = validateProbe p key errs fn"
proof -
  note c = document_container [OF assms(1,2)]
  show "wf_node p" using c(1) assms(4) by (rule lookup_wf)
  show "validateDocument d fn errs = validateProbe p key errs fn"
    using c assms(3,4,5)
    by (auto simp: validateContainer_except_readiness validateContainer_except_liveness)
qed

lemma document_missing_httpGet:
  assumes "wf_node d" and "container_in_document d i c" and "container_except key c"
    and "lookup c key = Some p" and "key \<in> {''readinessProbe'', ''livenessProbe''}"
    and "Kind p = MappingNode" and "lookup p ''httpGet'' = None"
  shows "validateDocument d fn errs = Inr (errs @ [at_line fn (Line p) ''httpGet is required''])"
  using document_probe [OF assms(1,2,3,4,5)] assms(6,7)
  by (simp add: validateProbe_no_httpGet)

lemma document_missing_probe_field:
  assumes "wf_node d" and "container_in_document d i c" and "container_except key c"
    and "lookup c key = Some p" and "key \<in> {''readinessProbe'', ''livenessProbe''}"
    and "Kind p = MappingNode" and "lookup p ''httpGet'' = Some h"
    and "httpGet_except field h" and "lookup h field = None" and "field \<in> {''path'', ''port''}"
  shows "validateDocument d fn errs = Inr (errs @ [fn @ '': '' @ field @ '' is required''])"
  using document_probe [OF assms(1,2,3,4,5)] assms(6,7,8,9,10)
  by (simp add: validateProbe_missing_field)

text \<open>
  C3. A document that is valid except that exactly one required field is absent gets
  exactly one diagnostic, the presence diagnostic of that field, and nothing else (no
  format or type diagnostic for the absent field). The required fields are the four
  top-level fields, \<open>metadata.name\<close>, \<open>spec.containers\<close>, the \<open>name\<close> of an \<open>os\<close>
  given as a mapping, a container's \<open>name\<close>, \<open>image\<close> and \<open>resources\<close>, a port
  entry's \<open>containerPort\<close>, a probe's \<open>httpGet\<close>, and its \<open>path\<close> and \<open>port\<close>.
\<close>

theorem missing_required_field:
  assumes "wf_node d"
  shows "(key \<in> {''apiVersion'', ''kind'', ''metadata'', ''spec''}
            \<and> doc_except key d \<and> lookup d key = None \<longrightarrow>
          validateDocument d fn [] = Inr [fn @ '': '' @ key @ '' is required''])
       \<and> (doc_except ''metadata'' d \<and> lookup d ''metadata'' = Some m
            \<and> metadata_except_name m \<and> lookup m ''name'' = None \<longrightarrow>
          validateDocument d fn [] = Inr [fn @ '': name is required''])
       \<and> (doc_except ''spec'' d \<and> lookup d ''spec'' = Some s
            \<and> spec_except ''containers'' s \<and> lookup s ''containers'' = None \<longrightarrow>
          validateDocument d fn [] = Inr [fn @ '': containers is required''])
       \<and> (doc_except ''spec'' d \<and> lookup d ''spec'' = Some s
            \<and> spec_except ''os'' s \<and> lookup s ''os'' = Some os
            \<and> Kind os = MappingNode \<and> lookup os ''name'' = None \<longrightarrow>
          validateDocument d fn [] = Inr [at_line fn (Line os) ''os.name is required''])
       \<and> (container_in_document d i c \<and> ckey \<in> {''name'', ''image'', ''resources''}
            \<and> container_except ckey c \<and> lookup c ckey = None \<longrightarrow>
          validateDocument d fn [] = Inr [fn @ '': '' @ ckey @ '' is required''])
       \<and> (container_in_document d i c \<and> container_except ''ports'' c
            \<and> lookup c ''ports'' = Some ps \<and> all_but spec_port_ok ps j
            \<and> port_except_containerPort (Content ps ! j)
            \<and> lookup (Content ps ! j) ''containerPort'' = None \<longrightarrow>
          validateDocument d fn [] = Inr [fn @ '': containerPort is required''])
       \<and> (container_in_document d i c \<and> pkey \<in> {''readinessProbe'', ''livenessProbe''}
            \<and> container_except pkey c \<and> lookup c pkey = Some p
            \<and> Kind p = MappingNode \<and> lookup p ''httpGet'' = None \<longrightarrow>
          validateDocument d fn [] = Inr [at_line fn (Line p) ''httpGet is required''])
       \<and> (container_in_document d i c \<and> pkey \<in> {''readinessProbe'', ''livenessProbe''}
            \<and> container_except pkey c \<and> lookup c pkey = Some p
            \<and> Kind p = MappingNode \<and> lookup p ''httpGet'' = Some h
            \<and> field \<in> {''path'', ''port''} \<and> httpGet_except field h
            \<and> lookup h field = None \<longrightarrow>
          validateDocument d fn [] = Inr [fn @ '': '' @ field @ '' is required''])"
proof (intro conjI impI; elim conjE)
  show "validateDocument d fn [] = Inr [fn @ '': '' @ key @ '' is required'']"
    if "key \<in> {''apiVersion'', ''kind'', ''metadata'', ''spec''}" "doc_except key d"
       "lookup d key = None"
    using document_missing_top [OF assms that(2,3,1), of fn "[]"] by simp
  show "validateDocument d fn [] = Inr [fn @ '': name is required'']"
    if "doc_except ''metadata'' d" "lookup d ''metadata'' = Some m"
       "metadata_except_name m" "lookup m ''name'' = None"
    using document_missing_metadata_name [OF assms that, of fn "[]"] by simp
  show "validateDocument d fn [] = Inr [fn @ '': containers is required'']"
    if "doc_except ''spec'' d" "lookup d ''spec'' = Some s"
       "spec_except ''containers'' s" "lookup s ''containers'' = None"
    using document_missing_containers [OF assms that, of fn "[]"] by simp
  show "validateDocument d fn [] = Inr [at_line fn (Line os) ''os.name is required'']"
    if "doc_except ''spec'' d" "lookup d ''spec'' = Some s" "spec_except ''os'' s"
       "lookup s ''os'' = Some os" "Kind os = MappingNode" "lookup os ''name'' = None"
    using document_missing_os_name [OF assms that, of fn "[]"] by simp
  show "validateDocument d fn [] = Inr [fn @ '': '' @ ckey @ '' is required'']"
    if "container_in_document d i c" "ckey \<in> {''name'', ''image'', ''resources''}"
       "container_except ckey c" "lookup c ckey = None"
    using document_missing_container_field [OF assms that(1,3,4,2), of fn "[]"] by simp
  show "validateDocument d fn [] = Inr [fn @ '': containerPort is required'']"
    if "container_in_document d i c" "container_except ''ports'' c"
       "lookup c ''ports'' = Some ps" "all_but spec_port_ok ps j"
       "port_except_containerPort (Content ps ! j)"
       "lookup (Content ps ! j) ''containerPort'' = None"
    using document_missing_containerPort [OF assms that, of fn "[]"] by simp
  show "validateDocument d fn [] = Inr [at_line fn (Line p) ''httpGet is required'']"
    if "container_in_document d i c" "pkey \<in> {''readinessProbe'', ''livenessProbe''}"
       "container_except pkey c" "lookup c pkey = Some p"
       "Kind p = MappingNode" "lookup p ''httpGet'' = None"
    using document_missing_httpGet [OF assms that(1,3,4,2,5,6), of fn "[]"] by simp
  show "validateDocument d fn [] = Inr [fn @ '': '' @ field @ '' is required'']"
    if "container_in_document d i c" "pkey \<in> {''readinessProbe'', ''livenessProbe''}"
       "container_except pkey c" "lookup c pkey = Some p"
       "Kind p = MappingNode" "lookup p ''httpGet'' = Some h"
       "field \<in> {''path'', ''port''}" "httpGet_except field h" "lookup h field = None"
    using document_missing_probe_field [OF assms that(1,3,4,2,5,6,8,9,7), of fn "[]"] by simp
qed

theorem missing_required_field_witness:
  "validateDocument
     (pod_of [str ''apiVersion'' 1, str ''v1'' 1, str ''kind'' 2, str ''Pod'' 2] container_fields)
     ''pod.yaml'' [] = Inr [''pod.yaml: metadata is required'']
   \<and> validateDocument
       (pod_of [str ''apiVersion'' 1, str ''v1'' 1, str ''kind'' 2, str ''Pod'' 2,
                str ''metadata'' 3, mapping 4 [str ''namespace'' 4, str ''prod'' 4]]
          container_fields)
       ''pod.yaml'' [] = Inr [''pod.yaml: name is required'']
   \<and> validateDocument
       (mapping 1 (top_fields @ [str ''spec'' 5, mapping 6 [str ''os'' 6, str ''linux'' 6]]))
       ''pod.yaml'' [] = Inr [''pod.yaml: containers is required'']
   \<and> validateDocument
       (mapping 1
          (top_fields
           @ [str ''spec'' 5,
              mapping 6 [str ''os'' 6, mapping 7 [str ''label'' 7, str ''linux'' 7],
                         str ''containers'' 8, seq 9 [mapping 9 container_fields]]]))
       ''pod.yaml'' [] = Inr [''pod.yaml:7 os.name is required'']
   \<and> validateDocument
       (pod_of top_fields [str ''name'' 7, str ''web'' 7, str ''resources'' 9, mapping 10 []])
       ''pod.yaml'' [] = Inr [''pod.yaml: image is required'']
   \<and> validateDocument
       (pod_of top_fields
          (container_fields
           @ [str ''ports'' 11, seq 12 [mapping 12 [str ''protocol'' 12, str ''TCP'' 12]]]))
       ''pod.yaml'' [] = Inr [''pod.yaml: containerPort is required'']
   \<and> validateDocument
       (pod_of top_fields
          (container_fields
           @ [str ''readinessProbe'' 11, mapping 12 [str ''initialDelaySeconds'' 12,
                                                      scalar ''!!int'' ''5'' 12]]))
       ''pod.yaml'' [] = Inr [''pod.yaml:12 httpGet is required'']
   \<and> validateDocument
       (pod_of top_fields
          (container_fields
           @ [str ''livenessProbe'' 11,
              mapping 12 [str ''httpGet'' 12,
                          mapping 13 [str ''port'' 13, scalar ''!!int'' ''8080'' 13]]]))
       ''pod.yaml'' [] = Inr [''pod.yaml: path is required'']"
proof -
  let ?a = "pod_of [str ''apiVersion'' 1, str ''v1'' 1, str ''kind'' 2, str ''Pod'' 2]
              container_fields"
  let ?m = "mapping 4 [str ''namespace'' 4, str ''prod'' 4]"
  let ?n = "pod_of [str ''apiVersion'' 1, str ''v1'' 1, str ''kind'' 2, str ''Pod'' 2,
                    str ''metadata'' 3, ?m] container_fields"
  let ?s = "mapping 6 [str ''os'' 6, str ''linux'' 6]"
  let ?k = "mapping 1 (top_fields @ [str ''spec'' 5, ?s])"
  let ?os = "mapping 7 [str ''label'' 7, str ''linux'' 7]"
  let ?so = "mapping 6 [str ''os'' 6, ?os, str ''containers'' 8, seq 9 [mapping 9 container_fields]]"
  let ?o = "mapping 1 (top_fields @ [str ''spec'' 5, ?so])"
  let ?cb = "mapping 7 [str ''name'' 7, str ''web'' 7, str ''resources'' 9, mapping 10 []]"
  let ?b = "pod_of top_fields [str ''name'' 7, str ''web'' 7, str ''resources'' 9, mapping 10 []]"
  let ?ps = "seq 12 [mapping 12 [str ''protocol'' 12, str ''TCP'' 12]]"
  let ?cc = "mapping 7 (container_fields @ [str ''ports'' 11, ?ps])"
  let ?c = "pod_of top_fields (container_fields @ [str ''ports'' 11, ?ps])"
  let ?q = "mapping 12 [str ''initialDelaySeconds'' 12, scalar ''!!int'' ''5'' 12]"
  let ?cg = "mapping 7 (container_fields @ [str ''readinessProbe'' 11, ?q])"
  let ?g = "pod_of top_fields (container_fields @ [str ''readinessProbe'' 11, ?q])"
  let ?h = "mapping 13 [str ''port'' 13, scalar ''!!int'' ''8080'' 13]"
  let ?p = "mapping 12 [str ''httpGet'' 12, ?h]"
  let ?cd = "mapping 7 (container_fields @ [str ''livenessProbe'' 11, ?p])"
  let ?d = "pod_of top_fields (container_fields @ [str ''livenessProbe'' 11, ?p])"
  have wfa: "wf_node ?a" and wfn: "wf_node ?n" and wfk: "wf_node ?k" and wfo: "wf_node ?o"
    and wfb: "wf_node ?b" and wfc: "wf_node ?c" and wfg: "wf_node ?g" and wfd: "wf_node ?d"
    by code_simp+
  have a: "''metadata'' \<in> {''apiVersion'', ''kind'', ''metadata'', ''spec''}
            \<and> doc_except ''metadata'' ?a \<and> lookup ?a ''metadata'' = None"
    by code_simp
  have n: "doc_except ''metadata'' ?n \<and> lookup ?n ''metadata'' = Some ?m
            \<and> metadata_except_name ?m \<and> lookup ?m ''name'' = None"
    by code_simp
  have k: "doc_except ''spec'' ?k \<and> lookup ?k ''spec'' = Some ?s
            \<and> spec_except ''containers'' ?s \<and> lookup ?s ''containers'' = None"
    by code_simp
  have o: "doc_except ''spec'' ?o \<and> lookup ?o ''spec'' = Some ?so
            \<and> spec_except ''os'' ?so \<and> lookup ?so ''os'' = Some ?os
            \<and> Kind ?os = MappingNode \<and> lookup ?os ''name'' = None"
    by code_simp
  have b: "container_in_document ?b 0 ?cb \<and> ''image'' \<in> {''name'', ''image'', ''resources''}
            \<and> container_except ''image'' ?cb \<and> lookup ?cb ''image'' = None"
    by code_simp
  have c: "container_in_document ?c 0 ?cc \<and> container_except ''ports'' ?cc
            \<and> lookup ?cc ''ports'' = Some ?ps \<and> all_but spec_port_ok ?ps 0
            \<and> port_except_containerPort (Content ?ps ! 0)
            \<and> lookup (Content ?ps ! 0) ''containerPort'' = None"
    by code_simp
  have g: "container_in_document ?g 0 ?cg
            \<and> ''readinessProbe'' \<in> {''readinessProbe'', ''livenessProbe''}
            \<and> container_except ''readinessProbe'' ?cg \<and> lookup ?cg ''readinessProbe'' = Some ?q
            \<and> Kind ?q = MappingNode \<and> lookup ?q ''httpGet'' = None"
    by code_simp
  have d: "container_in_document ?d 0 ?cd
            \<and> ''livenessProbe'' \<in> {''readinessProbe'', ''livenessProbe''}
            \<and> container_except ''livenessProbe'' ?cd \<and> lookup ?cd ''livenessProbe'' = Some ?p
            \<and> Kind ?p = MappingNode \<and> lookup ?p ''httpGet'' = Some ?h
            \<and> ''path'' \<in> {''path'', ''port''} \<and> httpGet_except ''path'' ?h
            \<and> lookup ?h ''path'' = None"
    by code_simp
  have l7: "at_line ''pod.yaml'' (Line ?os) ''os.name is required'' = ''pod.yaml:7 os.name is required''"
    and l12: "at_line ''pod.yaml'' (Line ?q) ''httpGet is required'' = ''pod.yaml:12 httpGet is required''"
    by code_simp+
  note rule = missing_required_field [where fn = "''pod.yaml''"]
  have "validateDocument ?a ''pod.yaml'' [] = Inr [''pod.yaml'' @ '': '' @ ''metadata'' @ '' is required'']"
    by (rule rule [OF wfa, THEN conjunct1, THEN mp, OF a])
  moreover
  have "validateDocument ?n ''pod.yaml'' [] = Inr [''pod.yaml'' @ '': name is required'']"
    by (rule rule [OF wfn, THEN conjunct2, THEN conjunct1, THEN mp, OF n])
  moreover
  have "validateDocument ?k ''pod.yaml'' [] = Inr [''pod.yaml'' @ '': containers is required'']"
    by (rule rule [OF wfk, THEN conjunct2, THEN conjunct2, THEN conjunct1, THEN mp, OF k])
  moreover
  have "validateDocument ?o ''pod.yaml'' []
          = Inr [at_line ''pod.yaml'' (Line ?os) ''os.name is required'']"
    by (rule rule [OF wfo, THEN conjunct2, THEN conjunct2, THEN conjunct2, THEN conjunct1,
          THEN mp, OF o])
  moreover
  have "validateDocument ?b ''pod.yaml'' [] = Inr [''pod.yaml'' @ '': '' @ ''image'' @ '' is required'']"
    by (rule rule [OF wfb, THEN conjunct2, THEN conjunct2, THEN conjunct2, THEN conjunct2,
          THEN conjunct1, THEN mp, OF b])
  moreover
  have "validateDocument ?c ''pod.yaml'' [] = Inr [''pod.yaml'' @ '': containerPort is required'']"
    by (rule rule [OF wfc, THEN conjunct2, THEN conjunct2, THEN conjunct2, THEN conjunct2,
          THEN conjunct2, THEN conjunct1, THEN mp, OF c])
  moreover
  have "validateDocument ?g ''pod.yaml'' []
          = Inr [at_line ''pod.yaml'' (Line ?q) ''httpGet is required'']"
    by (rule rule [OF wfg, THEN conjunct2, THEN conjunct2, THEN conjunct2, THEN conjunct2,
          THEN conjunct2, THEN conjunct2, THEN conjunct1, THEN mp, OF g])
  moreover
  have "validateDocument ?d ''pod.yaml'' [] = Inr [''pod.yaml'' @ '': '' @ ''path'' @ '' is required'']"
    by (rule rule [OF wfd, THEN conjunct2, THEN conjunct2, THEN conjunct2, THEN conjunct2,
          THEN conjunct2, THEN conjunct2, THEN conjunct2, THEN mp, OF d])
  ultimately show ?thesis
    unfolding l7 l12 by simp
qed

section \<open>Several documents\<close>

lemma main_errors_one_of_valid:
  assumes "\<forall>x \<in> set pre \<union> set post. wf_node x \<and> spec_document_ok [''Ki'', ''Mi'', ''Gi''] x"
  shows "main_errors (Node DocumentNode t v l (pre @ [d] @ post)) fn = validateDocument d fn []"
proof -
  have "for_each (\<lambda>doc errs. validateDocument doc fn errs) (pre @ [d] @ post) []
          = validateDocument d fn []"
    using assms by (intro for_each_one_of_valid validateDocument_ok) auto
  then show ?thesis by (simp add: main_errors_def)
qed

text \<open>
  The loop of the driver by itself keeps documents apart: on a root that held several
  documents of which all but one are valid, the diagnostics would be exactly those of that
  one document.
\<close>

lemma documents_loop_isolation:
  assumes "\<forall>x \<in> set pre \<union> set post. wf_node x \<and> spec_document_ok [''Ki'', ''Mi'', ''Gi''] x"
  shows "main_errors (Node DocumentNode t v l (pre @ [d] @ post)) fn = validateDocument d fn []
       \<and> (wf_node d \<and> doc_except ''metadata'' d \<and> lookup d ''metadata'' = None \<longrightarrow>
            main_errors (Node DocumentNode t v l (pre @ [d] @ post)) fn
              = Inr [fn @ '': metadata is required''])"
  using main_errors_one_of_valid [OF assms, of t v l d fn]
    document_missing_top [of d "''metadata''" fn "[]"]
  by simp

text \<open>But the root never holds more than the first document of the file.\<close>

lemma main_file_first_only:
  "main_file (first # later) fn = validateDocument first fn []"
  by (cases "validateDocument first fn []")
     (simp_all add: main_file_def Unmarshal_def main_errors_def)

text \<open>
  C4. A file with two documents, the first valid and the second valid except that
  \<open>metadata\<close> is missing: validated by itself the second document gets the diagnostic
  \<open>metadata is required\<close>, but the run over the file reports nothing and exits with status
  0, because only the first document reaches the loop. The second document is not
  validated.
\<close>

theorem second_document_not_validated:
  "validateDocument
     (pod_of [str ''apiVersion'' 1, str ''v1'' 1, str ''kind'' 2, str ''Pod'' 2] container_fields)
     ''pod.yaml'' [] = Inr [''pod.yaml: metadata is required'']
   \<and> main_file
       [pod_example ''1Gi'',
        pod_of [str ''apiVersion'' 1, str ''v1'' 1, str ''kind'' 2, str ''Pod'' 2] container_fields]
       ''pod.yaml'' = Inr []
   \<and> exit_status [] = 0"
  by code_simp

section \<open>Valid documents in both builds\<close>

lemma scalar_keys_child: "scalar_keys n \<Longrightarrow> c \<in> set (Content n) \<Longrightarrow> scalar_keys c"
  by (cases n) simp

lemma scalar_keys_lookup: "scalar_keys n \<Longrightarrow> lookup n key = Some v \<Longrightarrow> scalar_keys v"
  by (auto simp: lookup_def split: if_splits dest!: lookup_pairs_mem intro: scalar_keys_child)

lemma find_pairs_scalar:
  "\<forall>(k, v) \<in> set (pairs_of cs). Kind k = ScalarNode \<Longrightarrow>
   map_option snd (find_pairs cs key) = lookup_pairs cs key"
  by (induction cs key rule: find_pairs.induct) auto

lemma find_pair_scalar:
  "scalar_keys n \<Longrightarrow> map_option snd (find_pair n key) = lookup n key"
  by (cases n) (simp add: find_pair_def lookup_def find_pairs_scalar)

lemma find_pair_None: "scalar_keys n \<Longrightarrow> lookup n key = None \<Longrightarrow> find_pair n key = None"
  using find_pair_scalar [of n key] by simp

lemma find_pair_Some:
  "scalar_keys n \<Longrightarrow> lookup n key = Some v \<Longrightarrow> \<exists>k. find_pair n key = Some (k, v)"
  using find_pair_scalar [of n key] by (cases "find_pair n key") auto

lemma inline_required_ok:
  assumes "wf_node d" and "scalar_keys d" and "lookup d field = Some x"
  shows "inline_required fn d field errs = Inr errs"
  using find_pair_Some [OF assms(2,3)] assms(1)
  by (auto simp: inline_required_def findMapKey_wf)

lemma inline_metadata_ok:
  assumes "wf_node d" and "scalar_keys d" and "lookup d ''metadata'' = Some m"
    and "spec_metadata_ok m"
  shows "inline_metadata fn d errs = Inr errs"
proof -
  obtain k where k: "find_pair d ''metadata'' = Some (k, m)"
    using find_pair_Some [OF assms(2,3)] by blast
  have wf: "wf_node m" and sk: "scalar_keys m"
    using assms(1,2,3) by (auto intro: lookup_wf scalar_keys_lookup)
  from assms(4) obtain n where n: "Kind m = MappingNode" "lookup m ''name'' = Some n"
      "Value n \<noteq> []"
    by (auto simp: spec_metadata_ok_def split: option.splits)
  obtain nk where "find_pair m ''name'' = Some (nk, n)"
    using find_pair_Some [OF sk n(2)] by blast
  then show ?thesis
    using k n assms(1) wf by (simp add: inline_metadata_def findMapKey_wf)
qed

lemma inline_os_ok:
  assumes "wf_node s" and "scalar_keys s" and "absent_or spec_os_ok s ''os''"
    and "absent_or (\<lambda>os. Kind os = ScalarNode) s ''os''"
  shows "inline_os fn s errs = Inr errs"
proof (cases "lookup s ''os''")
  case None
  then show ?thesis
    using find_pair_None [OF assms(2) None] assms(1) by (simp add: inline_os_def findMapKey_wf)
next
  case (Some os)
  then obtain k where "find_pair s ''os'' = Some (k, os)"
    using find_pair_Some [OF assms(2)] by blast
  moreover have "accepted_os_name (Value os)"
    using assms(3,4) Some by (simp add: absent_or_def spec_os_ok_def)
  ultimately show ?thesis
    using assms(1) by (simp add: inline_os_eq)
qed

lemma match_name_nonempty: "match_name s \<Longrightarrow> s \<noteq> []"
  by (auto simp: match_name_def)

lemma inline_container_name_ok:
  assumes "wf_node c" and "scalar_keys c" and "lookup c ''name'' = Some n"
    and "match_name (Value n)"
  shows "inline_container_name fn c errs = Inr errs"
  using find_pair_Some [OF assms(2,3)] assms(1,4) match_name_nonempty [OF assms(4)]
  by (auto simp: inline_container_name_def findMapKey_wf)

lemma first_colon_before:
  assumes "i < length rest" and "rest ! i = CHR '':''"
  shows "length (takeWhile (\<lambda>c. c \<noteq> CHR '':'') rest) \<le> i"
proof (rule ccontr)
  let ?front = "takeWhile (\<lambda>c. c \<noteq> CHR '':'') rest"
  assume "\<not> length ?front \<le> i"
  then have lt: "i < length ?front" by simp
  then have "?front ! i = rest ! i"
    by (rule takeWhile_nth)
  moreover have "?front ! i \<in> set ?front"
    using lt by (rule nth_mem)
  ultimately have "CHR '':'' \<in> set ?front"
    using assms(2) by simp
  then have "CHR '':'' \<noteq> CHR '':''"
    by (rule set_takeWhileD [THEN conjunct2])
  then show False by simp
qed

lemma tagged_reference_first_colon:
  assumes "prefixed_tagged_reference prefix s"
    and "\<not> HasPrefix (drop (length prefix) s) '':''"
  shows "HasPrefix s prefix \<and> first_colon_inside (drop (length prefix) s)"
proof -
  define rest where "rest = drop (length prefix) s"
  let ?front = "takeWhile (\<lambda>c. c \<noteq> CHR '':'') rest"
  from assms(1) have p: "take (length prefix) s = prefix"
    and "\<exists>i \<in> {1 ..< length rest - 1}. rest ! i = CHR '':''"
    unfolding prefixed_tagged_reference_def Let_def rest_def by blast+
  then obtain i where i: "i < length rest - 1" "rest ! i = CHR '':''"
    by auto
  have il: "i < length rest" using i(1) by simp
  have mem: "CHR '':'' \<in> set rest"
    using nth_mem [OF il] i(2) by simp
  have "length ?front \<le> i"
    using il i(2) by (rule first_colon_before)
  then have "length ?front + 1 < length rest"
    using i(1) by simp
  then have tail_ne: "drop (length ?front + 1) rest \<noteq> []"
    by simp
  have ne: "rest \<noteq> []" using il by auto
  have "hd rest \<noteq> CHR '':''"
    using assms(2) ne unfolding rest_def [symmetric] HasPrefix_def by (cases rest) simp_all
  then have front_ne: "?front \<noteq> []"
    using ne by (cases rest) simp_all
  have "first_colon_inside rest"
    using mem front_ne tail_ne by (simp add: first_colon_inside_def Let_def)
  then show ?thesis
    using p by (simp add: HasPrefix_def rest_def)
qed

lemma inline_image_ok:
  assumes "wf_node c" and "scalar_keys c" and "lookup c ''image'' = Some i"
    and "prefixed_tagged_reference image_prefix (Value i)"
    and "\<not> HasPrefix (drop (length image_prefix) (Value i)) '':''"
  shows "inline_image fn c errs = Inr errs"
proof -
  obtain k where k: "find_pair c ''image'' = Some (k, i)"
    using find_pair_Some [OF assms(2,3)] by blast
  have "Value i \<noteq> []"
    using prefixed_tagged_reference_colon [OF assms(4)] by auto
  then show ?thesis
    using inline_image_eq [OF assms(1) k] tagged_reference_first_colon [OF assms(4,5)]
    by simp
qed

lemma integer_in_range_Atoi:
  "integer_in_range lo hi n \<Longrightarrow> \<exists>v. Atoi (Value n) = Inr v \<and> lo \<le> v \<and> v \<le> hi"
  by (auto simp: integer_in_range_def split: sum.splits)

lemma inline_port_item_ok:
  assumes "wf_node e" and "scalar_keys e" and "spec_port_ok e"
  shows "inline_port_item fn e errs = Inr errs"
proof -
  from assms(3) obtain cp where e: "Kind e = MappingNode"
    and cp: "lookup e ''containerPort'' = Some cp" "integer_in_range 1 65535 cp"
    and pr: "case lookup e ''protocol'' of None \<Rightarrow> True
             | Some pr \<Rightarrow> Kind pr = ScalarNode \<and> (Value pr = ''TCP'' \<or> Value pr = ''UDP'')"
    by (auto simp: spec_port_ok_def split: option.splits)
  obtain k where k: "find_pair e ''containerPort'' = Some (k, cp)"
    using find_pair_Some [OF assms(2) cp(1)] by blast
  obtain v where v: "Atoi (Value cp) = Inr v" "1 \<le> v" "v \<le> 65535"
    using integer_in_range_Atoi [OF cp(2)] by blast
  have "inline_containerPort fn e errs = Inr errs"
    using v by (simp add: inline_containerPort_wf [OF assms(1) k])
  moreover have "inline_protocol fn e errs = Inr errs"
  proof (cases "lookup e ''protocol''")
    case None
    then show ?thesis
      using find_pair_None [OF assms(2) None] assms(1)
      by (simp add: inline_protocol_def findMapKey_wf)
  next
    case (Some p)
    then obtain pk where "find_pair e ''protocol'' = Some (pk, p)"
      using find_pair_Some [OF assms(2)] by blast
    then show ?thesis
      using pr Some assms(1) by (auto simp: inline_protocol_def findMapKey_wf)
  qed
  ultimately show ?thesis
    using e by (simp add: inline_port_item_def)
qed

lemma inline_ports_ok:
  assumes "wf_node c" and "scalar_keys c" and "absent_or spec_ports_ok c ''ports''"
  shows "inline_ports fn c errs = Inr errs"
proof (cases "lookup c ''ports''")
  case None
  then show ?thesis
    using find_pair_None [OF assms(2) None] assms(1) by (simp add: inline_ports_def findMapKey_wf)
next
  case (Some ps)
  then obtain k where k: "find_pair c ''ports'' = Some (k, ps)"
    using find_pair_Some [OF assms(2)] by blast
  have wf: "wf_node ps" and sk: "scalar_keys ps"
    using assms(1,2) Some by (auto intro: lookup_wf scalar_keys_lookup)
  have ok: "Kind ps = SequenceNode" "\<forall>e \<in> set (Content ps). spec_port_ok e"
    using assms(3) Some by (simp_all add: absent_or_def spec_ports_ok_def)
  have "for_each (inline_port_item fn) (Content ps) errs = Inr errs"
    using ok(2) wf sk
    by (intro for_each_unchanged inline_port_item_ok)
       (auto intro: wf_node_child scalar_keys_child)
  then show ?thesis
    using k ok(1) assms(1) by (simp add: inline_ports_def findMapKey_wf)
qed


lemma inline_probe_ok:
  assumes "wf_node c" and "scalar_keys c" and "absent_or spec_probe_ok c key"
  shows "inline_probe fn key c errs = Inr errs"
proof (cases "lookup c key")
  case None
  then show ?thesis
    using find_pair_None [OF assms(2) None] assms(1) by (simp add: inline_probe_def findMapKey_wf)
next
  case (Some p)
  then obtain k where k: "find_pair c key = Some (k, p)"
    using find_pair_Some [OF assms(2)] by blast
  have wfp: "wf_node p" and skp: "scalar_keys p"
    using assms(1,2) Some by (auto intro: lookup_wf scalar_keys_lookup)
  have "spec_probe_ok p" using assms(3) Some by (simp add: absent_or_def)
  then obtain h pa po where
    h: "Kind p = MappingNode" "lookup p ''httpGet'' = Some h" "Kind h = MappingNode"
    and pa: "lookup h ''path'' = Some pa" "Value pa \<noteq> []" "hd (Value pa) = CHR ''/''"
    and po: "lookup h ''port'' = Some po" "integer_in_range 1 65535 po"
    by (auto simp: spec_probe_ok_def split: option.splits)
  have wfh: "wf_node h" and skh: "scalar_keys h"
    using wfp skp h(2) by (auto intro: lookup_wf scalar_keys_lookup)
  obtain hk where hk: "find_pair p ''httpGet'' = Some (hk, h)"
    using find_pair_Some [OF skp h(2)] by blast
  obtain pk where pk: "find_pair h ''path'' = Some (pk, pa)"
    using find_pair_Some [OF skh pa(1)] by blast
  obtain qk where qk: "find_pair h ''port'' = Some (qk, po)"
    using find_pair_Some [OF skh po(1)] by blast
  obtain v where v: "Atoi (Value po) = Inr v" "1 \<le> v" "v \<le> 65535"
    using integer_in_range_Atoi [OF po(2)] by blast
  have "inline_probe_path fn key h errs = Inr errs"
    using pk pa by (simp add: inline_probe_path_eq [OF wfh])
  moreover have "inline_probe_port fn key h errs = Inr errs"
    using qk v by (simp add: inline_probe_port_eq [OF wfh])
  ultimately have "validateProbe_inline fn errs key p = Inr errs"
    using h hk wfp by (simp add: validateProbe_inline_def findMapKey_wf)
  then show ?thesis
    using k assms(1) by (simp add: inline_probe_def findMapKey_wf)
qed

lemma quantity_mono:
  "set us \<subseteq> set vs \<Longrightarrow> quantity_with_unit us s \<Longrightarrow> quantity_with_unit vs s"
  unfolding quantity_with_unit_def by blast

lemma quantity_nonempty: "quantity_with_unit us s \<Longrightarrow> s \<noteq> []"
  by (auto simp: quantity_with_unit_def)

lemma Atoi_nonempty: "Atoi s = Inr v \<Longrightarrow> s \<noteq> []"
  by (auto simp: Atoi_def)

lemma inline_resource_type_ok:
  assumes "wf_node rs" and "scalar_keys rs" and "lookup rs resType = Some r"
    and "spec_resource_ok [''Ki'', ''Mi'', ''Gi''] r" and "resource_complete r"
  shows "inline_resource_type fn rs resType errs = Inr errs"
proof -
  obtain k where k: "find_pair rs resType = Some (k, r)"
    using find_pair_Some [OF assms(2,3)] by blast
  have wf: "wf_node r" and sk: "scalar_keys r"
    using assms(1,2,3) by (auto intro: lookup_wf scalar_keys_lookup)
  from assms(4,5) obtain c m v where r: "Kind r = MappingNode"
    and c: "lookup r ''cpu'' = Some c" "Atoi (Value c) = Inr v" "0 \<le> v"
    and m: "lookup r ''memory'' = Some m" "quantity_with_unit [''Ki'', ''Mi'', ''Gi''] (Value m)"
    by (auto simp: spec_resource_ok_def resource_complete_def split: option.splits sum.splits)
  obtain ck where ck: "find_pair r ''cpu'' = Some (ck, c)"
    using find_pair_Some [OF sk c(1)] by blast
  obtain mk where mk: "find_pair r ''memory'' = Some (mk, m)"
    using find_pair_Some [OF sk m(1)] by blast
  have "inline_resource_cpu fn resType r errs = Inr errs"
    using ck c Atoi_nonempty [OF c(2)] wf
    by (simp add: inline_resource_cpu_def findMapKey_wf)
  moreover have "quantity_with_unit (binary_units @ decimal_units) (Value m)"
    using m(2) by (rule quantity_mono [rotated]) (simp add: binary_units_def)
  then have "inline_resource_memory fn resType r errs = Inr errs"
    by (simp add: inline_resource_memory_eq [OF wf mk])
  ultimately show ?thesis
    using k r assms(1) by (simp add: inline_resource_type_def findMapKey_wf)
qed

lemma inline_resources_ok:
  assumes "wf_node c" and "scalar_keys c" and "lookup c ''resources'' = Some rs"
    and "spec_resources_ok [''Ki'', ''Mi'', ''Gi''] rs"
    and "present_and resource_complete rs ''limits''"
    and "present_and resource_complete rs ''requests''"
  shows "inline_resources fn c errs = Inr errs"
proof -
  obtain k where k: "find_pair c ''resources'' = Some (k, rs)"
    using find_pair_Some [OF assms(2,3)] by blast
  have wf: "wf_node rs" and sk: "scalar_keys rs"
    using assms(1,2,3) by (auto intro: lookup_wf scalar_keys_lookup)
  have rs: "Kind rs = MappingNode" using assms(4) by (simp add: spec_resources_ok_def)
  have "inline_resource_type fn rs resType errs' = Inr errs'"
    if "resType \<in> set [''limits'', ''requests'']" for resType errs'
  proof -
    from that assms(5,6) obtain r where r: "lookup rs resType = Some r" "resource_complete r"
      by (auto dest!: present_andD)
    moreover have "spec_resource_ok [''Ki'', ''Mi'', ''Gi''] r"
      using that assms(4) r(1) by (auto simp: spec_resources_ok_def)
    ultimately show ?thesis
      using wf sk by (intro inline_resource_type_ok)
  qed
  then have "for_each (inline_resource_type fn rs) [''limits'', ''requests''] errs = Inr errs"
    by (rule for_each_unchanged)
  then show ?thesis
    using k rs assms(1)
    by (simp add: inline_resources_def findMapKey_wf checkResourceValues_inline_def)
qed

lemma inline_container_ok:
  assumes "wf_node c" and "scalar_keys c" and "spec_container_ok [''Ki'', ''Mi'', ''Gi''] c"
    and "inline_container_extra c"
  shows "inline_container fn c errs = Inr errs"
proof -
  from assms(3) obtain n i rs where
    c: "Kind c = MappingNode"
    and n: "lookup c ''name'' = Some n" "match_name (Value n)"
    and i: "lookup c ''image'' = Some i" "prefixed_tagged_reference image_prefix (Value i)"
    and rs: "lookup c ''resources'' = Some rs" "spec_resources_ok [''Ki'', ''Mi'', ''Gi''] rs"
    and ps: "absent_or spec_ports_ok c ''ports''"
    and rp: "absent_or spec_probe_ok c ''readinessProbe''"
    and lp: "absent_or spec_probe_ok c ''livenessProbe''"
    by (auto simp: spec_container_ok_def absent_or_def split: option.splits)
  from assms(4) i(1) rs(1) have
    i': "\<not> HasPrefix (drop (length image_prefix) (Value i)) '':''"
    and rs': "present_and resource_complete rs ''limits''"
             "present_and resource_complete rs ''requests''"
    by (auto simp: inline_container_extra_def present_and_def)
  note parts =
    inline_container_name_ok [OF assms(1,2) n]
    inline_image_ok [OF assms(1,2) i i']
    inline_ports_ok [OF assms(1,2) ps]
    inline_probe_ok [OF assms(1,2) rp]
    inline_probe_ok [OF assms(1,2) lp]
    inline_resources_ok [OF assms(1,2) rs rs']
  show ?thesis
    using c by (simp add: inline_container_def parts)
qed

lemma main_inline_ok:
  assumes "wf_node d" and "spec_document_ok [''Ki'', ''Mi'', ''Gi''] d" and "inline_extra d"
  shows "main_inline (Node DocumentNode t v l [d]) fn = Inr []"
proof -
  from assms(2) obtain a k m s where
    d: "Kind d = MappingNode"
    and a: "lookup d ''apiVersion'' = Some a"
    and k: "lookup d ''kind'' = Some k"
    and m: "lookup d ''metadata'' = Some m" "spec_metadata_ok m"
    and s: "lookup d ''spec'' = Some s" "spec_spec_ok [''Ki'', ''Mi'', ''Gi''] s"
    by (auto simp: spec_document_ok_def split: option.splits)
  have skd: "scalar_keys d" using assms(3) by (simp add: inline_extra_def)
  have wfs: "wf_node s" and sks: "scalar_keys s"
    using assms(1) skd s(1) by (auto intro: lookup_wf scalar_keys_lookup)
  from s(2) obtain cs where
    sm: "Kind s = MappingNode" and os: "absent_or spec_os_ok s ''os''"
    and cs: "lookup s ''containers'' = Some cs" "Kind cs = SequenceNode" "Content cs \<noteq> []"
            "\<forall>c \<in> set (Content cs). spec_container_ok [''Ki'', ''Mi'', ''Gi''] c"
    by (auto simp: spec_spec_ok_def absent_or_def split: option.splits)
  from assms(3) s(1) cs(1) have os': "absent_or (\<lambda>os. Kind os = ScalarNode) s ''os''"
    and extra: "\<forall>c \<in> set (Content cs). inline_container_extra c"
    by (auto simp: inline_extra_def dest!: present_andD)
  have wfc: "wf_node cs" and skc: "scalar_keys cs"
    using wfs sks cs(1) by (auto intro: lookup_wf scalar_keys_lookup)
  obtain sk where sk: "find_pair d ''spec'' = Some (sk, s)"
    using find_pair_Some [OF skd s(1)] by blast
  obtain ck where ck: "find_pair s ''containers'' = Some (ck, cs)"
    using find_pair_Some [OF sks cs(1)] by blast
  have "for_each (inline_container fn) (Content cs) errs = Inr errs" for errs
    using cs(4) extra wfc skc
    by (intro for_each_unchanged inline_container_ok)
       (auto intro: wf_node_child scalar_keys_child)
  then have "inline_containers fn s errs = Inr errs" for errs
    using ck cs(2,3) wfs by (simp add: inline_containers_def findMapKey_wf)
  then have "inline_spec fn d errs = Inr errs" for errs
    using sk sm assms(1) inline_os_ok [OF wfs sks os os']
    by (simp add: inline_spec_def findMapKey_wf)
  then show ?thesis
    using d inline_required_ok [OF assms(1) skd a] inline_required_ok [OF assms(1) skd k]
      inline_metadata_ok [OF assms(1) skd m]
    by (simp add: main_inline_def)
qed

text \<open>
  The inline validator reads \<open>cpu\<close> from its text with \<open>strconv.Atoi\<close> and reports a
  text that does not convert, where \<open>checkResourceValues\<close> of the build with per-section
  functions skips it: an integer-kind \<open>cpu\<close> beyond the machine integer gets a diagnostic
  from the former and none from the latter.
\<close>

lemma cpu_beyond_machine_integer:
  "wf_node
     (pod_of top_fields
        [str ''name'' 7, str ''web'' 7,
         str ''image'' 8, str ''registry.bigbrother.io/web:1.0'' 8,
         str ''resources'' 9,
           mapping 10
             [str ''limits'' 10,
                mapping 11 [str ''cpu'' 11, scalar ''!!int'' ''18446744073709551615'' 11,
                            str ''memory'' 12, str ''1Gi'' 12],
              str ''requests'' 13,
                mapping 14 [str ''cpu'' 14, scalar ''!!int'' ''1'' 14,
                            str ''memory'' 15, str ''512Mi'' 15]]])
   \<and> inline_extra
       (pod_of top_fields
          [str ''name'' 7, str ''web'' 7,
           str ''image'' 8, str ''registry.bigbrother.io/web:1.0'' 8,
           str ''resources'' 9,
             mapping 10
               [str ''limits'' 10,
                  mapping 11 [str ''cpu'' 11, scalar ''!!int'' ''18446744073709551615'' 11,
                              str ''memory'' 12, str ''1Gi'' 12],
                str ''requests'' 13,
                  mapping 14 [str ''cpu'' 14, scalar ''!!int'' ''1'' 14,
                              str ''memory'' 15, str ''512Mi'' 15]]])
   \<and> validateDocument
       (pod_of top_fields
          [str ''name'' 7, str ''web'' 7,
           str ''image'' 8, str ''registry.bigbrother.io/web:1.0'' 8,
           str ''resources'' 9,
             mapping 10
               [str ''limits'' 10,
                  mapping 11 [str ''cpu'' 11, scalar ''!!int'' ''18446744073709551615'' 11,
                              str ''memory'' 12, str ''1Gi'' 12],
                str ''requests'' 13,
                  mapping 14 [str ''cpu'' 14, scalar ''!!int'' ''1'' 14,
                              str ''memory'' 15, str ''512Mi'' 15]]])
       ''pod.yaml'' [] = Inr []
   \<and> main_inline
       (Node DocumentNode [] [] 1
          [pod_of top_fields
             [str ''name'' 7, str ''web'' 7,
              str ''image'' 8, str ''registry.bigbrother.io/web:1.0'' 8,
              str ''resources'' 9,
                mapping 10
                  [str ''limits'' 10,
                     mapping 11 [str ''cpu'' 11, scalar ''!!int'' ''18446744073709551615'' 11,
                                 str ''memory'' 12, str ''1Gi'' 12],
                   str ''requests'' 13,
                     mapping 14 [str ''cpu'' 14, scalar ''!!int'' ''1'' 14,
                                 str ''memory'' 15, str ''512Mi'' 15]]]])
       ''pod.yaml'' = Inr [''pod.yaml:11 resources.limits.cpu must be a non-negative integer'']"
  by code_simp

text \<open>
  C2, as stated, fails on both builds. The first document below has every required field
  with valid shape and content, its memory limit \<open>1Ti\<close> is digits followed by a
  binary-prefix unit, and \<open>validateDocument\<close> produces a diagnostic. The second is valid
  too, with \<open>os\<close> given as a mapping with \<open>name: linux\<close>, and \<open>main.go\<close> produces a
  diagnostic.
\<close>

theorem valid_document_rejected:
  "wf_node (pod_example ''1Ti'')
   \<and> spec_document_ok binary_units (pod_example ''1Ti'')
   \<and> validateDocument (pod_example ''1Ti'') ''pod.yaml'' []
       = Inr [at_line ''pod.yaml'' 23 (''memory has invalid format '' @ quoted ''1Ti'')]
   \<and> wf_node (pod_example ''1Gi'')
   \<and> spec_document_ok [''Ki'', ''Mi'', ''Gi''] (pod_example ''1Gi'')
   \<and> main_inline (Node DocumentNode [] [] 1 [pod_example ''1Gi'']) ''pod.yaml''
       = Inr [at_line ''pod.yaml'' 9
                (''spec.os must be '' @ quoted ''linux'' @ '' or '' @ quoted ''windows'')]"
  by code_simp

text \<open>
  C2, amended. For every document in which all required fields are present with valid
  shape and content (\<open>apiVersion\<close>, \<open>kind\<close>, \<open>metadata.name\<close>, a non-empty
  \<open>spec.containers\<close>, and every container's fields passing their rules), where each
  integer field (\<open>containerPort\<close>, the \<open>port\<close> of a probe, \<open>cpu\<close>) is an integer-kind
  scalar whose text \<open>strconv.Atoi\<close> converts to a value within the bounds of the field,
  and memory quantities use the units \<open>Ki\<close>, \<open>Mi\<close> or \<open>Gi\<close>, \<open>validateDocument\<close>
  produces an empty list of diagnostics, and so does its driver on a root holding that
  document. The validator of \<open>main.go\<close> produces an empty list for such a document when,
  in addition, the keys of its mappings are scalars, \<open>os\<close> is absent or a bare scalar, no
  image has a colon right after the prefix, and every \<open>resources\<close> has \<open>limits\<close> and
  \<open>requests\<close>, each with \<open>cpu\<close> and \<open>memory\<close>.
\<close>

theorem valid_document_no_diagnostics:
  assumes "wf_node d" and "spec_document_ok [''Ki'', ''Mi'', ''Gi''] d"
  shows "validateDocument d fn [] = Inr []
       \<and> main_errors (Node DocumentNode t v l [d]) fn = Inr []
       \<and> (inline_extra d \<longrightarrow> main_inline (Node DocumentNode t v l [d]) fn = Inr [])"
  using validateDocument_ok [OF assms, of fn "[]"] main_inline_ok [OF assms, of t v l fn]
  by (simp add: main_errors_def)

theorem valid_document_no_diagnostics_witness:
  "validateDocument (pod_example ''1Gi'') ''pod.yaml'' [] = Inr []
   \<and> main_errors (Node DocumentNode [] [] 1 [pod_example ''1Gi'']) ''pod.yaml'' = Inr []
   \<and> validateDocument
       (pod_of top_fields
          [str ''name'' 7, str ''web'' 7,
           str ''image'' 8, str ''registry.bigbrother.io/web:1.0'' 8,
           str ''resources'' 9,
             mapping 10
               [str ''limits'' 10,
                  mapping 11 [str ''cpu'' 11, scalar ''!!int'' ''2'' 11,
                              str ''memory'' 12, str ''1Gi'' 12],
                str ''requests'' 13,
                  mapping 14 [str ''cpu'' 14, scalar ''!!int'' ''1'' 14,
                              str ''memory'' 15, str ''512Mi'' 15]]])
       ''pod.yaml'' [] = Inr []
   \<and> main_inline
       (Node DocumentNode [] [] 1
          [pod_of top_fields
             [str ''name'' 7, str ''web'' 7,
              str ''image'' 8, str ''registry.bigbrother.io/web:1.0'' 8,
              str ''resources'' 9,
                mapping 10
                  [str ''limits'' 10,
                     mapping 11 [str ''cpu'' 11, scalar ''!!int'' ''2'' 11,
                                 str ''memory'' 12, str ''1Gi'' 12],
                   str ''requests'' 13,
                     mapping 14 [str ''cpu'' 14, scalar ''!!int'' ''1'' 14,
                                 str ''memory'' 15, str ''512Mi'' 15]]]])
       ''pod.yaml'' = Inr []"
proof -
  let ?d = "pod_of top_fields
             [str ''name'' 7, str ''web'' 7,
              str ''image'' 8, str ''registry.bigbrother.io/web:1.0'' 8,
              str ''resources'' 9,
                mapping 10
                  [str ''limits'' 10,
                     mapping 11 [str ''cpu'' 11, scalar ''!!int'' ''2'' 11,
                                 str ''memory'' 12, str ''1Gi'' 12],
                   str ''requests'' 13,
                     mapping 14 [str ''cpu'' 14, scalar ''!!int'' ''1'' 14,
                                 str ''memory'' 15, str ''512Mi'' 15]]]"
  have wf1: "wf_node (pod_example ''1Gi'')"
    and ok1: "spec_document_ok [''Ki'', ''Mi'', ''Gi''] (pod_example ''1Gi'')"
    by code_simp+
  have wf2: "wf_node ?d" and ok2: "spec_document_ok [''Ki'', ''Mi'', ''Gi''] ?d"
    and extra: "inline_extra ?d"
    by code_simp+
  note first = valid_document_no_diagnostics [OF wf1 ok1, of "''pod.yaml''" "[]" "[]" 1]
  note second = valid_document_no_diagnostics [OF wf2 ok2, of "''pod.yaml''" "[]" "[]" 1]
  show ?thesis
    using first [THEN conjunct1] first [THEN conjunct2, THEN conjunct1]
      second [THEN conjunct1] second [THEN conjunct2, THEN conjunct2, THEN mp, OF extra]
    by (intro conjI)
qed

end
